theory Spec2Isabelle
  imports Complex_Main "HOL-Library.AList" "HOL-Library.Product_Lexorder"
begin

section \<open>Conventions of the embedding\<close>

text \<open>
  The optimisation engine of STOWAGEMASTER is embedded function by function. Python
  floats are idealised as real numbers (\<^typ>\<open>real\<close>): rounding is not modelled, every
  comparison, \<open>min\<close>/\<open>max\<close> and threshold (\<open>0.001\<close>, \<open>0.65\<close>, ...) is the source's.
  A Python \<open>dict\<close> is an association list in insertion order, updated in place with
  \<^const>\<open>AList.update\<close> (an existing key keeps its position, a new key goes last), because
  the solvers iterate over dictionaries and break ties by iteration order. \<open>float('inf')\<close>
  for a deviation is \<open>None\<close> of \<^typ>\<open>real option\<close>. Exceptions are values of the type
  \<open>error\<close>, and a function that may raise returns \<open>error + 'a\<close>.

  Values the program takes from its environment and not from its arguments, namely
  \<open>uuid.uuid4()\<close> and \<open>datetime.now()\<close>, are read from an explicit \<open>env\<close> record.
\<close>

datatype error = TypeError | ZeroDivisionError | UnboundLocalError | KeyError | ValueError | IndexError

type_synonym datetime = string
  \<comment> \<open>a clock reading, kept as its \<open>strftime('%Y%m%d_%H%M%S')\<close> rendering\<close>

record env =
  uuid4 :: string
  now :: datetime

section \<open>models/cargo.py\<close>

text \<open>
  \<open>Receiver\<close>. The dataclass annotates \<open>name: str\<close>; \<open>Receiver.from_dict\<close> passes a \<open>null\<close> on
  as \<open>None\<close>, so the name is a \<^typ>\<open>string option\<close> with \<open>None\<close> for Python's \<open>None\<close>.
\<close>

record receiver =
  receiver_name :: "string option"

text \<open>
  \<open>Cargo\<close>. The dataclass annotates \<open>cargo_type: str\<close>, \<open>quantity: float\<close> and
  \<open>is_mandatory: bool\<close>, but \<open>__post_init__\<close> handles \<open>quantity = None\<close> and \<open>from_dict\<close>
  passes a \<open>null\<close> of \<open>cargo_type\<close> or \<open>is_mandatory\<close> on as \<open>None\<close>. The record is therefore
  parametric in the types of these three fields: option types while a cargo is
  constructed or deserialised, and the annotated types for the cargoes the optimisers
  compute with (\<open>'q cargo\<close>, with \<open>'q = real\<close>). \<open>unique_id = None\<close> (the default) and
  \<open>unique_id = ''\<close> are both falsy, and \<open>__post_init__\<close> replaces either by a fresh id
  before anything reads the field: the record holds the empty string for both.
\<close>

record ('t, 'q, 'm) Cargo =
  cargo_type :: 't
  quantity :: 'q
  receivers :: "receiver list"
  unique_id :: string
  is_mandatory :: 'm
  ton :: "real option"
  density :: "real option"

type_synonym 'q cargo = "(string, 'q, bool) Cargo"

text \<open>\<open>Cargo.__post_init__\<close>: fresh id when the id is empty, volume from ton and density
  only when the quantity is \<open>None\<close> or \<open>0.0\<close>.\<close>

definition Cargo_post_init :: "env \<Rightarrow> ('t, real option, 'm) Cargo \<Rightarrow> ('t, real option, 'm) Cargo" where
  "Cargo_post_init e c =
     (let c1 = (if unique_id c = [] then c\<lparr>unique_id := uuid4 e\<rparr> else c)
      in if (quantity c1 = None \<or> quantity c1 = Some 0) \<and> ton c1 \<noteq> None
            \<and> density c1 \<noteq> None \<and> the (density c1) > 0
         then c1\<lparr>quantity := Some (the (ton c1) / the (density c1))\<rparr>
         else c1)"

text \<open>
  The dictionaries of \<open>to_dict\<close>/\<open>from_dict\<close>. A key is absent, present with the value
  \<open>null\<close>, or present with a value; a value that is not \<open>null\<close> has the type \<open>to_dict\<close>
  writes for the key. The three ways the source reads a key: \<open>data.get(k)\<close>,
  \<open>data.get(k, default)\<close> and \<open>data[k]\<close>.
\<close>

datatype 'a entry = Absent | Null | Val 'a

definition dict_get :: "'a entry \<Rightarrow> 'a option" where
  "dict_get x = (case x of Absent \<Rightarrow> None | Null \<Rightarrow> None | Val v \<Rightarrow> Some v)"

definition dict_get_default :: "'a entry \<Rightarrow> 'a \<Rightarrow> 'a option" where
  "dict_get_default x dflt = (case x of Absent \<Rightarrow> Some dflt | Null \<Rightarrow> None | Val v \<Rightarrow> Some v)"

definition dict_item :: "'a entry \<Rightarrow> error + 'a option" where
  "dict_item x = (case x of Absent \<Rightarrow> Inl KeyError | Null \<Rightarrow> Inr None | Val v \<Rightarrow> Inr (Some v))"

text \<open>What \<open>to_dict\<close> writes for a field: \<open>null\<close> for \<open>None\<close>.\<close>

definition json_of :: "'a option \<Rightarrow> 'a entry" where
  "json_of x = (case x of None \<Rightarrow> Null | Some v \<Rightarrow> Val v)"

record receiver_dict =
  d_name :: "string entry"

definition Receiver_to_dict :: "receiver \<Rightarrow> receiver_dict" where
  "Receiver_to_dict r = \<lparr> d_name = json_of (receiver_name r) \<rparr>"

definition Receiver_from_dict :: "receiver_dict \<Rightarrow> error + receiver" where
  "Receiver_from_dict d =
     (case dict_item (d_name d) of Inl err \<Rightarrow> Inl err | Inr n \<Rightarrow> Inr \<lparr> receiver_name = n \<rparr>)"

record cargo_dict =
  d_unique_id :: "string entry"
  d_cargo_type :: "string entry"
  d_quantity :: "real entry"
  d_receivers :: "receiver_dict list entry"
  d_is_mandatory :: "bool entry"
  d_ton :: "real entry"
  d_density :: "real entry"

definition Cargo_to_dict :: "(string option, real option, bool option) Cargo \<Rightarrow> cargo_dict" where
  "Cargo_to_dict c =
     \<lparr> d_unique_id = Val (unique_id c),
       d_cargo_type = json_of (cargo_type c),
       d_quantity = json_of (quantity c),
       d_receivers = Val (map Receiver_to_dict (receivers c)),
       d_is_mandatory = json_of (is_mandatory c),
       d_ton = json_of (ton c),
       d_density = json_of (density c) \<rparr>"

text \<open>\<open>[Receiver.from_dict(r_data) for r_data in ...]\<close>: the first entry that raises ends
  the comprehension.\<close>

fun receivers_from_dicts :: "receiver_dict list \<Rightarrow> error + receiver list" where
  "receivers_from_dicts [] = Inr []"
| "receivers_from_dicts (r_data # rest) =
     (case Receiver_from_dict r_data of
        Inl err \<Rightarrow> Inl err
      | Inr r \<Rightarrow> (case receivers_from_dicts rest of Inl err \<Rightarrow> Inl err | Inr rs \<Rightarrow> Inr (r # rs)))"

text \<open>\<open>Cargo.from_dict\<close>. The receivers are read first: \<open>data.get('receivers', [])\<close> is
  \<open>None\<close> for a \<open>null\<close>, and iterating \<open>None\<close> raises \<open>TypeError\<close>. \<open>data['cargo_type']\<close> raises
  \<open>KeyError\<close> for an absent key only.\<close>

definition Cargo_from_dict ::
  "env \<Rightarrow> cargo_dict \<Rightarrow> error + (string option, real option, bool option) Cargo" where
  "Cargo_from_dict e d =
     (case dict_get_default (d_receivers d) [] of
        None \<Rightarrow> Inl TypeError
      | Some r_datas \<Rightarrow>
          (case receivers_from_dicts r_datas of
             Inl err \<Rightarrow> Inl err
           | Inr rs \<Rightarrow>
               (let original_quantity = (case dict_get (d_quantity d) of None \<Rightarrow> Some 0 | Some q \<Rightarrow> Some q)
                in case dict_item (d_cargo_type d) of
                     Inl err \<Rightarrow> Inl err
                   | Inr ct \<Rightarrow>
                       Inr (Cargo_post_init e
                         \<lparr> cargo_type = ct,
                           quantity = original_quantity,
                           receivers = rs,
                           unique_id = (case dict_get_default (d_unique_id d) [] of None \<Rightarrow> [] | Some u \<Rightarrow> u),
                           is_mandatory = dict_get_default (d_is_mandatory d) False,
                           ton = dict_get (d_ton d),
                           density = dict_get (d_density d) \<rparr>))))"

section \<open>models/ship.py\<close>

record tank =
  tank_id :: string
  tank_name :: string
  volume :: real

record ship =
  ship_name :: string
  tanks :: "tank list"
  ship_id :: string

datatype side = port | starboard

datatype section_pos = bow | mid | stern

record pos_info =
  row_number :: nat
  pos_side :: side
  pos_position :: section_pos
  pos_index :: nat

definition get_total_capacity :: "ship \<Rightarrow> real" where
  "get_total_capacity s = sum_list (map volume (tanks s))"

definition get_tank_by_id :: "ship \<Rightarrow> string \<Rightarrow> tank option" where
  "get_tank_by_id s tid = find (\<lambda>t. tank_id t = tid) (tanks s)"

text \<open>\<open>next(i for i, t in enumerate(self.tanks) if t.id == tank_id)\<close>\<close>

fun first_index :: "('a \<Rightarrow> bool) \<Rightarrow> 'a list \<Rightarrow> nat option" where
  "first_index P [] = None"
| "first_index P (x # xs) =
     (if P x then Some 0 else (case first_index P xs of None \<Rightarrow> None | Some i \<Rightarrow> Some (Suc i)))"

definition total_rows :: "ship \<Rightarrow> nat" where
  "total_rows s = (length (tanks s) + 1) div 2"

definition get_tank_position_info :: "ship \<Rightarrow> string \<Rightarrow> pos_info option" where
  "get_tank_position_info s tid =
     (case get_tank_by_id s tid of
        None \<Rightarrow> None
      | Some t \<Rightarrow>
          (case first_index (\<lambda>t. tank_id t = tid) (tanks s) of
             None \<Rightarrow> None
           | Some tank_index \<Rightarrow>
               (let row = tank_index div 2 + 1
                in Some \<lparr> row_number = row,
                          pos_side = (if tank_index mod 2 = 0 then port else starboard),
                          pos_position = (if row = 1 then bow
                                          else if row = total_rows s then stern else mid),
                          pos_index = tank_index \<rparr>)))"

text \<open>\<open>get_tank_pairs\<close> groups the tanks by row (\<open>idx // 2 + 1\<close>) and keeps, in row order,
  the rows that have both a port (even index) and a starboard (odd index) tank: the
  consecutive pairs of the tank list, a last single tank being dropped.\<close>

fun tank_pairs_of :: "tank list \<Rightarrow> (tank \<times> tank) list" where
  "tank_pairs_of (p # s # rest) = (p, s) # tank_pairs_of rest"
| "tank_pairs_of _ = []"

definition get_tank_pairs :: "ship \<Rightarrow> (tank \<times> tank) list" where
  "get_tank_pairs s = tank_pairs_of (tanks s)"

section \<open>models/plan.py\<close>

record tank_assignment =
  a_tank_id :: string
  a_cargo :: "real cargo"
  quantity_loaded :: real

record stowage_plan =
  p_ship_name :: string
  ship_profile_id :: string
  cargo_requests :: "real cargo list"
  assignments :: "(string \<times> tank_assignment) list"
  excluded_tanks :: "string list"
  created_date :: "datetime option"
  plan_name :: string
  plan_notes :: "string option"
  plan_id :: string

text \<open>The constructor as the optimisers call it (ship name, profile id, cargo requests
  and plan name given, everything else defaulted), followed by \<open>__post_init__\<close>.\<close>

definition StowagePlan_init :: "env \<Rightarrow> string \<Rightarrow> string \<Rightarrow> real cargo list \<Rightarrow> string \<Rightarrow> stowage_plan" where
  "StowagePlan_init e sname pid reqs pname =
     \<lparr> p_ship_name = sname,
       ship_profile_id = pid,
       cargo_requests = reqs,
       assignments = [],
       excluded_tanks = [],
       created_date = Some (now e),
       plan_name = (if pname = [] then ''Plan_'' @ now e else pname),
       plan_notes = None,
       plan_id = uuid4 e \<rparr>"

definition add_assignment :: "stowage_plan \<Rightarrow> string \<Rightarrow> tank_assignment \<Rightarrow> stowage_plan" where
  "add_assignment p tid a = p\<lparr>assignments := AList.update tid a (assignments p)\<rparr>"

definition get_assignment :: "stowage_plan \<Rightarrow> string \<Rightarrow> tank_assignment option" where
  "get_assignment p tid = map_of (assignments p) tid"

definition get_total_loaded :: "stowage_plan \<Rightarrow> real" where
  "get_total_loaded p = sum_list (map (\<lambda>(tid, a). quantity_loaded a) (assignments p))"

definition get_cargo_total_loaded :: "stowage_plan \<Rightarrow> string \<Rightarrow> real" where
  "get_cargo_total_loaded p cid =
     sum_list (map (\<lambda>(tid, a). quantity_loaded a)
                   (filter (\<lambda>(tid, a). unique_id (a_cargo a) = cid) (assignments p)))"


section \<open>Settings\<close>

text \<open>The settings dictionary. Every read in the optimisers is \<open>settings.get(key, default)\<close>;
  the record holds the value that read returns, and \<open>default_settings\<close> lists the
  defaults written at the reads (they agree with \<open>StorageManager.get_default_settings\<close>).
  \<open>ga_ideal_lcg_position\<close> is \<open>None\<close> when the key is absent: its default depends on
  the ship.\<close>

record settings =
  min_utilization :: real
  faz1_single_tank_tolerance :: real
  faz2_two_tank_tolerance :: real
  faz2_asymmetric_tolerance_factor :: real
  faz3_three_tank_tolerance :: real
  faz4_four_tank_tolerance :: real
  faz5_five_tank_tolerance :: real
  mandatory_retry_increment :: real
  mandatory_max_relaxation :: real
  ga_population_size :: int
  ga_max_generations :: int
  ga_crossover_rate :: real
  ga_mutation_rate :: real
  ga_tournament_size :: int
  ga_use_elitism :: bool
  ga_elitism_count :: int
  ga_symmetry_penalty_coef :: real
  ga_trim_penalty_coef :: real
  ga_operational_penalty_coef :: real
  ga_receiver_tolerance :: real
  ga_ideal_lcg_position :: "real option"
  ga_convergence_threshold :: real
  ga_convergence_generations :: int

definition default_settings :: settings where
  "default_settings =
     \<lparr> min_utilization = 0.65,
       faz1_single_tank_tolerance = 0.05,
       faz2_two_tank_tolerance = 0.05,
       faz2_asymmetric_tolerance_factor = 0.2,
       faz3_three_tank_tolerance = 0.04,
       faz4_four_tank_tolerance = 0.04,
       faz5_five_tank_tolerance = 0.04,
       mandatory_retry_increment = 0.01,
       mandatory_max_relaxation = 0.35,
       ga_population_size = 500,
       ga_max_generations = 2000,
       ga_crossover_rate = 0.90,
       ga_mutation_rate = 0.11,
       ga_tournament_size = 3,
       ga_use_elitism = True,
       ga_elitism_count = 5,
       ga_symmetry_penalty_coef = 3000,
       ga_trim_penalty_coef = 1500,
       ga_operational_penalty_coef = 100,
       ga_receiver_tolerance = 0.03,
       ga_ideal_lcg_position = None,
       ga_convergence_threshold = 0.0001,
       ga_convergence_generations = 60 \<rparr>"

section \<open>optimizer/advanced_optimizer.py: helper functions\<close>

type_synonym avail = "(string \<times> real) list"
  \<comment> \<open>the \<open>available_tanks\<close> dictionary: tank id to available volume\<close>

type_synonym placement = "(string \<times> real) list"
  \<comment> \<open>the tank ids and quantities of a best pair, triplet, ... in the order they are placed\<close>

definition calculate_tolerance_deviation :: "real \<Rightarrow> real \<Rightarrow> real option" where
  "calculate_tolerance_deviation q total_capacity =
     (if total_capacity \<le> 0 then None else Some (\<bar>q - total_capacity\<bar> / total_capacity))"

definition check_min_utilization :: "real \<Rightarrow> real \<Rightarrow> real \<Rightarrow> bool" where
  "check_min_utilization q tank_volume min_util =
     (if tank_volume \<le> 0 then False else q / tank_volume \<ge> min_util)"

definition get_mid_section_rows :: "ship \<Rightarrow> nat \<times> nat" where
  "get_mid_section_rows s =
     (let tr = total_rows s
      in if tr \<le> 2 then (1, tr)
         else (max 2 (tr div 3 + 1), min (tr - 1) (tr * 2 div 3 + 1)))"

text \<open>\<open>_is_bow_or_stern_only\<close>. The loop counts a tank as bow when its row is among the
  first three rows, and as stern only when it is not (\<open>elif\<close>) and its row is among the
  last three rows.\<close>

definition is_bow_or_stern_only :: "string list \<Rightarrow> ship \<Rightarrow> bool" where
  "is_bow_or_stern_only tank_ids s =
     (if tank_ids = [] then False
      else
        (let tr = total_rows s;
             bow_rows = {1 ..< min 4 (tr + 1)};
             stern_rows = {max 1 (tr - 2) ..< tr + 1};
             rows = List.map_filter (\<lambda>tid. map_option row_number (get_tank_position_info s tid)) tank_ids;
             bow_count = length (filter (\<lambda>r. r \<in> bow_rows) rows);
             stern_count = length (filter (\<lambda>r. r \<notin> bow_rows \<and> r \<in> stern_rows) rows)
         in bow_count = length tank_ids \<or> stern_count = length tank_ids))"

definition get_tank_available_capacity :: "string \<Rightarrow> stowage_plan \<Rightarrow> avail \<Rightarrow> ship \<Rightarrow> real" where
  "get_tank_available_capacity tid p av s =
     (case get_tank_by_id s tid of
        None \<Rightarrow> 0
      | Some t \<Rightarrow>
          (case get_assignment p tid of
             Some existing \<Rightarrow> max 0 (volume t - quantity_loaded existing)
           | None \<Rightarrow> min (case map_of av tid of None \<Rightarrow> 0 | Some v \<Rightarrow> v) (volume t)))"

text \<open>\<open>available_tanks[tid] -= qty\<close>. Every placement writes to a key that the search has
  just found in \<open>available_tanks\<close>, so the \<open>KeyError\<close> of a missing key does not occur; the
  model leaves the dictionary unchanged there.\<close>

definition avail_sub :: "avail \<Rightarrow> string \<Rightarrow> real \<Rightarrow> avail" where
  "avail_sub av tid q =
     (case map_of av tid of None \<Rightarrow> av | Some v \<Rightarrow> AList.update tid (v - q) av)"

text \<open>\<open>plan.add_assignment(tid, TankAssignment(tank_id=tid, cargo=cargo,
  quantity_loaded=qty)); available_tanks[tid] -= qty\<close>, and the same for each tank of a
  best combination in turn.\<close>

definition place :: "real cargo \<Rightarrow> stowage_plan \<times> avail \<Rightarrow> string \<times> real \<Rightarrow> stowage_plan \<times> avail" where
  "place c st x =
     (case st of (p, av) \<Rightarrow> (case x of (tid, q) \<Rightarrow>
        (add_assignment p tid \<lparr>a_tank_id = tid, a_cargo = c, quantity_loaded = q\<rparr>,
         avail_sub av tid q)))"

definition place_all :: "real cargo \<Rightarrow> stowage_plan \<times> avail \<Rightarrow> placement \<Rightarrow> stowage_plan \<times> avail" where
  "place_all c st xs = foldl (place c) st xs"

text \<open>The search loops keep the first candidate of smallest deviation:
  \<open>if deviation < best_deviation: best_deviation = deviation; best = ...\<close>, starting from
  \<open>best_deviation = float('inf')\<close>, \<open>best = None\<close>. The candidates that reach this test
  are listed in iteration order, each with its (finite) deviation.\<close>

fun select_best :: "(real \<times> 'a) list \<Rightarrow> (real \<times> 'a) option \<Rightarrow> (real \<times> 'a) option" where
  "select_best [] best = best"
| "select_best (c # cs) best =
     select_best cs (case best of None \<Rightarrow> Some c
                     | Some b \<Rightarrow> if fst c < fst b then Some c else Some b)"

text \<open>\<open>for i, x in enumerate(xs): for j, y in enumerate(xs[i+1:], start=i+1): ...\<close> and its
  three-level form.\<close>

fun pairs_lt :: "'a list \<Rightarrow> ('a \<times> 'a) list" where
  "pairs_lt [] = []"
| "pairs_lt (x # xs) = map (Pair x) xs @ pairs_lt xs"

fun triples_lt :: "'a list \<Rightarrow> ('a \<times> 'a \<times> 'a) list" where
  "triples_lt [] = []"
| "triples_lt (x # xs) = map (Pair x) (pairs_lt xs) @ triples_lt xs"

text \<open>The block that distributes a quantity over a pair of tanks is written out seven
  times in the source (2A, 2B, 2C, twice in phase 4, once in phase 5, three times in
  phase 6) with the same text: half to the first tank, the rest to the second, the other
  way round when the second cannot take the rest, then the final safety clamp.\<close>

definition split_pair :: "real \<Rightarrow> real \<Rightarrow> real \<Rightarrow> real \<Rightarrow> real \<Rightarrow> real \<times> real" where
  "split_pair q a1 v1 a2 v2 =
     (let q1 = min (q / 2) (min a1 v1);
          q2 = min (q - q1) (min a2 v2);
          q2' = (if q2 < q - q1 - 0.001 then min (q / 2) (min a2 v2) else q2);
          q1' = (if q2 < q - q1 - 0.001 then min (q - q2') (min a1 v1) else q1)
      in (min q1' (min a1 v1), min q2' (min a2 v2)))"

section \<open>Phase 1: single tank\<close>

definition faz1_candidates :: "ship \<Rightarrow> avail \<Rightarrow> real \<Rightarrow> real \<Rightarrow> real \<Rightarrow> (real \<times> string) list" where
  "faz1_candidates s av remaining_qty tolerance min_util =
     List.map_filter (\<lambda>(tid, available_vol).
        if available_vol < remaining_qty * (1 - tolerance) then None
        else (case get_tank_by_id s tid of
                None \<Rightarrow> None
              | Some t \<Rightarrow>
                  (case calculate_tolerance_deviation remaining_qty (volume t) of
                     None \<Rightarrow> None
                   | Some deviation \<Rightarrow>
                       if deviation > tolerance then None
                       else if \<not> check_min_utilization remaining_qty (volume t) min_util then None
                       else Some (deviation, tid)))) av"

definition faz1_place :: "ship \<Rightarrow> real cargo \<Rightarrow> stowage_plan \<times> avail \<Rightarrow> string \<Rightarrow> stowage_plan \<times> avail" where
  "faz1_place s c st best_tank_id =
     (case st of (p, av) \<Rightarrow>
       (case get_tank_by_id s best_tank_id of
          None \<Rightarrow> (p, av)
        | Some t \<Rightarrow>
           (let actual_available = get_tank_available_capacity best_tank_id p av s;
                qty0 = min (quantity c) (min actual_available (volume t));
                qty_to_load =
                  (case get_assignment p best_tank_id of
                     None \<Rightarrow> qty0
                   | Some existing \<Rightarrow>
                       if quantity_loaded existing + qty0 > volume t
                       then max 0 (volume t - quantity_loaded existing) else qty0)
            in if qty_to_load > 0.001
               then (let av1 = avail_sub av best_tank_id qty_to_load;
                         av2 = (case map_of av1 best_tank_id of
                                  None \<Rightarrow> av1
                                | Some v \<Rightarrow> if v < 0.001 then AList.update best_tank_id 0 av1 else av1)
                     in (add_assignment p best_tank_id
                           \<lparr>a_tank_id = best_tank_id, a_cargo = c, quantity_loaded = qty_to_load\<rparr>,
                         av2))
               else (p, av))))"

text \<open>\<open>if best_tank_id:\<close> is false for \<open>None\<close> and for the empty string.\<close>

definition faz1_step :: "ship \<Rightarrow> real \<Rightarrow> real \<Rightarrow> stowage_plan \<times> avail \<Rightarrow> real cargo \<Rightarrow> stowage_plan \<times> avail" where
  "faz1_step s tolerance min_util st c =
     (case select_best (faz1_candidates s (snd st) (quantity c) tolerance min_util) None of
        None \<Rightarrow> st
      | Some (d, best_tank_id) \<Rightarrow> if best_tank_id = [] then st else faz1_place s c st best_tank_id)"

definition faz1_single_tank ::
  "stowage_plan \<Rightarrow> real cargo list \<Rightarrow> avail \<Rightarrow> ship \<Rightarrow> settings \<Rightarrow> real option \<Rightarrow> stowage_plan \<times> avail" where
  "faz1_single_tank p cargos av s st override_tolerance =
     foldl (faz1_step s (case override_tolerance of Some t \<Rightarrow> t | None \<Rightarrow> faz1_single_tank_tolerance st)
                      (min_utilization st))
           (p, av) cargos"

section \<open>Phase 2: two tanks\<close>

text \<open>One candidate pair, from the capacities to the utilisation checks. The two tanks
  come with the objects whose \<open>volume\<close> the source reads: the pair's own tank objects in
  2A, \<open>ship.get_tank_by_id\<close> of the ids in 2B and 2C.\<close>

definition pair_candidate ::
  "ship \<Rightarrow> stowage_plan \<Rightarrow> avail \<Rightarrow> real \<Rightarrow> real \<Rightarrow> real \<Rightarrow> string \<times> tank \<Rightarrow> string \<times> tank
   \<Rightarrow> (real \<times> placement) option" where
  "pair_candidate s p av remaining_qty tolerance min_util x1 x2 =
     (case x1 of (id1, t1) \<Rightarrow> (case x2 of (id2, t2) \<Rightarrow>
       (let a1 = get_tank_available_capacity id1 p av s;
            a2 = get_tank_available_capacity id2 p av s
        in case calculate_tolerance_deviation remaining_qty (volume t1 + volume t2) of
             None \<Rightarrow> None
           | Some deviation \<Rightarrow>
               if deviation > tolerance then None
               else (case split_pair remaining_qty a1 (volume t1) a2 (volume t2) of (q1, q2) \<Rightarrow>
                 if \<not> check_min_utilization q1 (volume t1) min_util then None
                 else if \<not> check_min_utilization q2 (volume t2) min_util then None
                 else Some (deviation, [(id1, q1), (id2, q2)])))))"

definition faz2a_candidates ::
  "ship \<Rightarrow> stowage_plan \<Rightarrow> avail \<Rightarrow> real \<Rightarrow> real \<Rightarrow> real \<Rightarrow> (real \<times> placement) list" where
  "faz2a_candidates s p av q tolerance min_util =
     List.map_filter (\<lambda>(port_tank, starboard_tank).
        if tank_id port_tank \<notin> set (map fst av) \<or> tank_id starboard_tank \<notin> set (map fst av) then None
        else pair_candidate s p av q tolerance min_util
               (tank_id port_tank, port_tank) (tank_id starboard_tank, starboard_tank))
       (get_tank_pairs s)"

definition faz2b_candidates ::
  "ship \<Rightarrow> stowage_plan \<Rightarrow> avail \<Rightarrow> real \<Rightarrow> real \<Rightarrow> real \<Rightarrow> (real \<times> placement) list" where
  "faz2b_candidates s p av q tolerance min_util =
     List.map_filter (\<lambda>(tank1_id, tank2_id).
        if tank1_id \<notin> set (map fst av) \<or> tank2_id \<notin> set (map fst av) then None
        else (case get_tank_by_id s tank1_id of
                None \<Rightarrow> None
              | Some tank1 \<Rightarrow>
                  (case get_tank_by_id s tank2_id of
                     None \<Rightarrow> None
                   | Some tank2 \<Rightarrow>
                       pair_candidate s p av q tolerance min_util (tank1_id, tank1) (tank2_id, tank2))))
       (concat (map (\<lambda>((port1, star1), (port2, star2)).
                       [(tank_id port1, tank_id star2), (tank_id star1, tank_id port2)])
                    (pairs_lt (get_tank_pairs s))))"

definition faz2c_candidates ::
  "ship \<Rightarrow> stowage_plan \<Rightarrow> avail \<Rightarrow> real \<Rightarrow> real \<Rightarrow> real \<Rightarrow> (real \<times> placement) list" where
  "faz2c_candidates s p av q tolerance min_util =
     List.map_filter (\<lambda>((tid1, tank1), (tid2, tank2)).
        case tank1 of None \<Rightarrow> None | Some t1 \<Rightarrow>
        (case get_tank_position_info s tid1 of None \<Rightarrow> None | Some pos1 \<Rightarrow>
        (case tank2 of None \<Rightarrow> None | Some t2 \<Rightarrow>
        (case get_tank_position_info s tid2 of None \<Rightarrow> None | Some pos2 \<Rightarrow>
           if pos_side pos2 \<noteq> pos_side pos1 then None
           else pair_candidate s p av q tolerance min_util (tid1, t1) (tid2, t2)))))
       (pairs_lt (map (\<lambda>tid. (tid, get_tank_by_id s tid)) (map fst av)))"

text \<open>2B is tried when 2A found nothing (\<open>best_type != 'symmetric'\<close>), 2C when neither
  did (\<open>best_type is None\<close>), at the asymmetric tolerance.\<close>

definition faz2_best ::
  "ship \<Rightarrow> stowage_plan \<Rightarrow> avail \<Rightarrow> real \<Rightarrow> real \<Rightarrow> real \<Rightarrow> real \<Rightarrow> (real \<times> placement) option" where
  "faz2_best s p av q symmetric_tolerance asymmetric_tolerance min_util =
     (case select_best (faz2a_candidates s p av q symmetric_tolerance min_util) None of
        Some b \<Rightarrow> Some b
      | None \<Rightarrow>
          (case select_best (faz2b_candidates s p av q symmetric_tolerance min_util) None of
             Some b \<Rightarrow> Some b
           | None \<Rightarrow> select_best (faz2c_candidates s p av q asymmetric_tolerance min_util) None))"

definition faz2_step ::
  "ship \<Rightarrow> real \<Rightarrow> real \<Rightarrow> real \<Rightarrow> stowage_plan \<times> avail \<Rightarrow> real cargo \<Rightarrow> stowage_plan \<times> avail" where
  "faz2_step s symmetric_tolerance asymmetric_tolerance min_util st c =
     (case faz2_best s (fst st) (snd st) (quantity c) symmetric_tolerance asymmetric_tolerance min_util of
        None \<Rightarrow> st
      | Some (d, best_pair) \<Rightarrow> place_all c st best_pair)"

definition faz2_two_tank ::
  "stowage_plan \<Rightarrow> real cargo list \<Rightarrow> avail \<Rightarrow> ship \<Rightarrow> settings \<Rightarrow> real option \<Rightarrow> stowage_plan \<times> avail" where
  "faz2_two_tank p cargos av s st override_tolerance =
     (let symmetric_tolerance = (case override_tolerance of Some t \<Rightarrow> t | None \<Rightarrow> faz2_two_tank_tolerance st);
          asymmetric_tolerance = symmetric_tolerance * faz2_asymmetric_tolerance_factor st
      in foldl (faz2_step s symmetric_tolerance asymmetric_tolerance (min_utilization st)) (p, av) cargos)"


section \<open>Phase 3: three tanks\<close>

text \<open>Equal shares, then the rest handed to the tanks in order while they have room,
  then the final safety clamp.\<close>

definition split_three :: "real \<Rightarrow> real \<times> real \<Rightarrow> real \<times> real \<Rightarrow> real \<times> real \<Rightarrow> real \<times> real \<times> real" where
  "split_three remaining_qty x1 x2 x3 =
     (case x1 of (a1, v1) \<Rightarrow> (case x2 of (a2, v2) \<Rightarrow> (case x3 of (a3, v3) \<Rightarrow>
       (let qty_per_tank = remaining_qty / 3;
            q1 = min qty_per_tank (min a1 v1);
            q2 = min qty_per_tank (min a2 v2);
            q3 = min qty_per_tank (min a3 v3);
            total_assigned = q1 + q2 + q3;
            short = (total_assigned < remaining_qty - 0.001);
            r0 = remaining_qty - total_assigned;
            add1 = (if short \<and> a1 - q1 > 0.001 then min r0 (min (a1 - q1) (max 0 (v1 - q1))) else 0);
            r1 = r0 - add1;
            add2 = (if short \<and> a2 - q2 > 0.001 \<and> r1 > 0.001
                    then min r1 (min (a2 - q2) (max 0 (v2 - q2))) else 0);
            r2 = r1 - add2;
            add3 = (if short \<and> a3 - q3 > 0.001 \<and> r2 > 0.001
                    then min r2 (min (a3 - q3) (max 0 (v3 - q3))) else 0)
        in (min (q1 + add1) (min a1 v1), min (q2 + add2) (min a2 v2), min (q3 + add3) (min a3 v3))))))"

definition all_same_side3 :: "ship \<Rightarrow> string \<Rightarrow> string \<Rightarrow> string \<Rightarrow> bool" where
  "all_same_side3 s tid1 tid2 tid3 =
     (case (get_tank_position_info s tid1, get_tank_position_info s tid2, get_tank_position_info s tid3) of
        (Some pos1, Some pos2, Some pos3) \<Rightarrow>
           pos_side pos1 = pos_side pos2 \<and> pos_side pos2 = pos_side pos3
      | _ \<Rightarrow> False)"

text \<open>One candidate triplet of the three nested loops, from the side rule to the
  utilisation checks.\<close>

definition faz3_candidate ::
  "ship \<Rightarrow> stowage_plan \<Rightarrow> avail \<Rightarrow> real \<Rightarrow> real \<Rightarrow> real
   \<Rightarrow> (string \<times> tank option) \<times> (string \<times> tank option) \<times> (string \<times> tank option)
   \<Rightarrow> (real \<times> placement) option" where
  "faz3_candidate s p av q tolerance min_util x =
     (case x of ((tid1, tank1), (tid2, tank2), (tid3, tank3)) \<Rightarrow>
        case tank1 of None \<Rightarrow> None | Some t1 \<Rightarrow>
        (case tank2 of None \<Rightarrow> None | Some t2 \<Rightarrow>
        (case tank3 of None \<Rightarrow> None | Some t3 \<Rightarrow>
           if all_same_side3 s tid1 tid2 tid3 then None
           else
             (let a1 = get_tank_available_capacity tid1 p av s;
                  a2 = get_tank_available_capacity tid2 p av s;
                  a3 = get_tank_available_capacity tid3 p av s
              in case calculate_tolerance_deviation q (volume t1 + volume t2 + volume t3) of
                   None \<Rightarrow> None
                 | Some deviation \<Rightarrow>
                     if deviation > tolerance then None
                     else (case split_three q (a1, volume t1) (a2, volume t2) (a3, volume t3) of
                             (q1, q2, q3) \<Rightarrow>
                       if \<not> check_min_utilization q1 (volume t1) min_util then None
                       else if \<not> check_min_utilization q2 (volume t2) min_util then None
                       else if \<not> check_min_utilization q3 (volume t3) min_util then None
                       else Some (deviation, [(tid1, q1), (tid2, q2), (tid3, q3)]))))))"

definition faz3_candidates ::
  "ship \<Rightarrow> stowage_plan \<Rightarrow> avail \<Rightarrow> real \<Rightarrow> real \<Rightarrow> real \<Rightarrow> (real \<times> placement) list" where
  "faz3_candidates s p av q tolerance min_util =
     List.map_filter (faz3_candidate s p av q tolerance min_util)
       (triples_lt (map (\<lambda>tid. (tid, get_tank_by_id s tid)) (map fst av)))"

definition faz3_step ::
  "ship \<Rightarrow> real \<Rightarrow> real \<Rightarrow> stowage_plan \<times> avail \<Rightarrow> real cargo \<Rightarrow> stowage_plan \<times> avail" where
  "faz3_step s tolerance min_util st c =
     (case select_best (faz3_candidates s (fst st) (snd st) (quantity c) tolerance min_util) None of
        None \<Rightarrow> st
      | Some (d, best_triplet) \<Rightarrow> place_all c st best_triplet)"

definition faz3_three_tank ::
  "stowage_plan \<Rightarrow> real cargo list \<Rightarrow> avail \<Rightarrow> ship \<Rightarrow> settings \<Rightarrow> real option \<Rightarrow> stowage_plan \<times> avail" where
  "faz3_three_tank p cargos av s st override_tolerance =
     foldl (faz3_step s (case override_tolerance of Some t \<Rightarrow> t | None \<Rightarrow> faz3_three_tank_tolerance st)
                      (min_utilization st))
           (p, av) cargos"

section \<open>Phase 4: four tanks\<close>

text \<open>The mid-section rule: when the rows of the four tanks are one single row, that row
  must lie in \<open>range(mid_start, mid_end + 1)\<close>.\<close>

definition same_row_outside_mid :: "ship \<Rightarrow> string list \<Rightarrow> bool" where
  "same_row_outside_mid s tank_ids =
     (let row_nums = remdups (List.map_filter (\<lambda>tid. map_option row_number (get_tank_position_info s tid)) tank_ids)
      in case row_nums of
           [r] \<Rightarrow> (case get_mid_section_rows s of (mid_start, mid_end) \<Rightarrow> \<not> (mid_start \<le> r \<and> r < mid_end + 1))
         | _ \<Rightarrow> False)"

text \<open>One candidate combination of two row pairs.\<close>

definition faz4_candidate ::
  "ship \<Rightarrow> stowage_plan \<Rightarrow> avail \<Rightarrow> real \<Rightarrow> real \<Rightarrow> real
   \<Rightarrow> (tank \<times> tank) \<times> (tank \<times> tank) \<Rightarrow> (real \<times> placement) option" where
  "faz4_candidate s p av remaining_qty tolerance min_util x =
     (case x of ((port1, star1), (port2, star2)) \<Rightarrow>
        if tank_id port1 \<notin> set (map fst av) \<or> tank_id star1 \<notin> set (map fst av) then None
        else if tank_id port2 \<notin> set (map fst av) \<or> tank_id star2 \<notin> set (map fst av) then None
        else
          (let tank_ids = [tank_id port1, tank_id star1, tank_id port2, tank_id star2]
           in if is_bow_or_stern_only tank_ids s then None
              else if same_row_outside_mid s tank_ids then None
              else
                (let pair1_cap = volume port1 + volume star1;
                     pair2_cap = volume port2 + volume star2;
                     total_cap = pair1_cap + pair2_cap
                 in case calculate_tolerance_deviation remaining_qty total_cap of
                      None \<Rightarrow> None
                    | Some deviation \<Rightarrow>
                        if deviation > tolerance then None
                        else
                          (let port1_available = get_tank_available_capacity (tank_id port1) p av s;
                               star1_available = get_tank_available_capacity (tank_id star1) p av s;
                               port2_available = get_tank_available_capacity (tank_id port2) p av s;
                               star2_available = get_tank_available_capacity (tank_id star2) p av s;
                               qty1 = remaining_qty * (pair1_cap / total_cap);
                               qty2 = remaining_qty - qty1
                           in case split_pair qty1 port1_available (volume port1) star1_available (volume star1) of
                                (port1_qty, star1_qty) \<Rightarrow>
                              if \<not> check_min_utilization port1_qty (volume port1) min_util then None
                              else if \<not> check_min_utilization star1_qty (volume star1) min_util then None
                              else
                                (case split_pair qty2 port2_available (volume port2) star2_available (volume star2) of
                                   (port2_qty, star2_qty) \<Rightarrow>
                                 if \<not> check_min_utilization port2_qty (volume port2) min_util then None
                                 else if \<not> check_min_utilization star2_qty (volume star2) min_util then None
                                 else Some (deviation,
                                            [(tank_id port1, port1_qty), (tank_id star1, star1_qty),
                                             (tank_id port2, port2_qty), (tank_id star2, star2_qty)]))))))"

definition faz4_candidates ::
  "ship \<Rightarrow> stowage_plan \<Rightarrow> avail \<Rightarrow> real \<Rightarrow> real \<Rightarrow> real \<Rightarrow> (real \<times> placement) list" where
  "faz4_candidates s p av remaining_qty tolerance min_util =
     List.map_filter (faz4_candidate s p av remaining_qty tolerance min_util)
       (pairs_lt (get_tank_pairs s))"

definition faz4_step ::
  "ship \<Rightarrow> real \<Rightarrow> real \<Rightarrow> stowage_plan \<times> avail \<Rightarrow> real cargo \<Rightarrow> stowage_plan \<times> avail" where
  "faz4_step s tolerance min_util st c =
     (case select_best (faz4_candidates s (fst st) (snd st) (quantity c) tolerance min_util) None of
        None \<Rightarrow> st
      | Some (d, best_combination) \<Rightarrow> place_all c st best_combination)"

definition faz4_four_tank ::
  "stowage_plan \<Rightarrow> real cargo list \<Rightarrow> avail \<Rightarrow> ship \<Rightarrow> settings \<Rightarrow> real option \<Rightarrow> stowage_plan \<times> avail" where
  "faz4_four_tank p cargos av s st override_tolerance =
     foldl (faz4_step s (case override_tolerance of Some t \<Rightarrow> t | None \<Rightarrow> faz4_four_tank_tolerance st)
                      (min_utilization st))
           (p, av) cargos"

section \<open>Phase 5: five tanks (strategy 3+2)\<close>

definition split_triplet5 :: "real \<Rightarrow> real \<times> real \<Rightarrow> real \<times> real \<Rightarrow> real \<times> real \<Rightarrow> real \<times> real \<times> real" where
  "split_triplet5 qty_3 x1 x2 x3 =
     (case x1 of (a1, v1) \<Rightarrow> (case x2 of (a2, v2) \<Rightarrow> (case x3 of (a3, v3) \<Rightarrow>
       (let q1 = min (qty_3 / 3) (min a1 v1);
            q2 = min (qty_3 / 3) (min a2 v2);
            q3 = min (qty_3 - q1 - q2) (min a3 v3)
        in case (if q3 < qty_3 - q1 - q2 - 0.001
                 then (let q3' = min (qty_3 / 3) (min a3 v3);
                           remaining_triplet = qty_3 - q3';
                           q1' = min (remaining_triplet / 2) (min a1 v1);
                           q2' = min (remaining_triplet - q1') (min a2 v2)
                       in if q2' < remaining_triplet - q1' - 0.001
                          then (let q2'' = min (remaining_triplet / 2) (min a2 v2)
                                in (min (remaining_triplet - q2'') (min a1 v1), q2'', q3'))
                          else (q1', q2', q3'))
                 else (q1, q2, q3)) of
             (r1, r2, r3) \<Rightarrow> (min r1 (min a1 v1), min r2 (min a2 v2), min r3 (min a3 v3))))))"

text \<open>\<open>required_side\<close>: when the three tanks are on one side, the side opposite to it.\<close>

definition required_side :: "ship \<Rightarrow> string \<Rightarrow> string \<Rightarrow> string \<Rightarrow> side option" where
  "required_side s tid1 tid2 tid3 =
     (case (get_tank_position_info s tid1, get_tank_position_info s tid2, get_tank_position_info s tid3) of
        (Some pos1, Some pos2, Some pos3) \<Rightarrow>
           if pos_side pos1 = pos_side pos2 \<and> pos_side pos2 = pos_side pos3
           then Some (if pos_side pos1 = port then starboard else port)
           else None
      | _ \<Rightarrow> None)"

definition faz5_pair_ok :: "ship \<Rightarrow> side option \<Rightarrow> string \<Rightarrow> string \<Rightarrow> bool" where
  "faz5_pair_ok s req port_id starboard_id =
     (case req of
        None \<Rightarrow> True
      | Some rs \<Rightarrow>
          (case get_tank_position_info s (if rs = port then port_id else starboard_id) of
             None \<Rightarrow> False
           | Some pos_pair \<Rightarrow> pos_side pos_pair = rs))"

text \<open>One candidate of the inner loop: a triplet of available tanks (all three tank
  objects found) with one row pair.\<close>

definition faz5_candidate ::
  "ship \<Rightarrow> stowage_plan \<Rightarrow> avail \<Rightarrow> real \<Rightarrow> real \<Rightarrow> real
   \<Rightarrow> (string \<times> tank) \<times> (string \<times> tank) \<times> (string \<times> tank) \<Rightarrow> tank \<times> tank
   \<Rightarrow> (real \<times> placement) option" where
  "faz5_candidate s p av remaining_qty tolerance min_util x pr =
     (case x of ((tid1, t1), (tid2, t2), (tid3, t3)) \<Rightarrow> (case pr of (port_tank, starboard_tank) \<Rightarrow>
        if tank_id port_tank \<in> set [tid1, tid2, tid3] \<or> tank_id starboard_tank \<in> set [tid1, tid2, tid3]
        then None
        else if tank_id port_tank \<notin> set (map fst av) \<or> tank_id starboard_tank \<notin> set (map fst av)
        then None
        else if \<not> faz5_pair_ok s (required_side s tid1 tid2 tid3) (tank_id port_tank) (tank_id starboard_tank)
        then None
        else
          (let triplet_cap = volume t1 + volume t2 + volume t3;
               pair_cap = volume port_tank + volume starboard_tank;
               total_cap = triplet_cap + pair_cap
           in case calculate_tolerance_deviation remaining_qty total_cap of
                None \<Rightarrow> None
              | Some deviation \<Rightarrow>
                  if deviation > tolerance then None
                  else
                    (let a1 = get_tank_available_capacity tid1 p av s;
                         a2 = get_tank_available_capacity tid2 p av s;
                         a3 = get_tank_available_capacity tid3 p av s;
                         port_available = get_tank_available_capacity (tank_id port_tank) p av s;
                         starboard_available = get_tank_available_capacity (tank_id starboard_tank) p av s;
                         qty_3 = remaining_qty * (triplet_cap / total_cap);
                         qty_2 = remaining_qty - qty_3
                     in case split_triplet5 qty_3 (a1, volume t1) (a2, volume t2) (a3, volume t3) of
                          (q1, q2, q3) \<Rightarrow>
                        (case split_pair qty_2 port_available (volume port_tank)
                                starboard_available (volume starboard_tank) of
                           (port_qty, starboard_qty) \<Rightarrow>
                           if \<not> (check_min_utilization q1 (volume t1) min_util
                                  \<and> check_min_utilization q2 (volume t2) min_util
                                  \<and> check_min_utilization q3 (volume t3) min_util
                                  \<and> check_min_utilization port_qty (volume port_tank) min_util
                                  \<and> check_min_utilization starboard_qty (volume starboard_tank) min_util)
                           then None
                           else Some (deviation,
                                      [(tid1, q1), (tid2, q2), (tid3, q3),
                                       (tank_id port_tank, port_qty),
                                       (tank_id starboard_tank, starboard_qty)]))))))"

definition faz5_candidates ::
  "ship \<Rightarrow> stowage_plan \<Rightarrow> avail \<Rightarrow> real \<Rightarrow> real \<Rightarrow> real \<Rightarrow> (real \<times> placement) list" where
  "faz5_candidates s p av remaining_qty tolerance min_util =
     concat (map (\<lambda>((tid1, tank1), (tid2, tank2), (tid3, tank3)).
        case tank1 of None \<Rightarrow> [] | Some t1 \<Rightarrow>
        (case tank2 of None \<Rightarrow> [] | Some t2 \<Rightarrow>
        (case tank3 of None \<Rightarrow> [] | Some t3 \<Rightarrow>
           List.map_filter
             (faz5_candidate s p av remaining_qty tolerance min_util ((tid1, t1), (tid2, t2), (tid3, t3)))
             (get_tank_pairs s))))
       (triples_lt (map (\<lambda>tid. (tid, get_tank_by_id s tid)) (map fst av))))"

definition faz5_step ::
  "ship \<Rightarrow> real \<Rightarrow> real \<Rightarrow> stowage_plan \<times> avail \<Rightarrow> real cargo \<Rightarrow> stowage_plan \<times> avail" where
  "faz5_step s tolerance min_util st c =
     (case select_best (faz5_candidates s (fst st) (snd st) (quantity c) tolerance min_util) None of
        None \<Rightarrow> st
      | Some (d, best_solution) \<Rightarrow> place_all c st best_solution)"

definition faz5_five_tank ::
  "stowage_plan \<Rightarrow> real cargo list \<Rightarrow> avail \<Rightarrow> ship \<Rightarrow> settings \<Rightarrow> real option \<Rightarrow> stowage_plan \<times> avail" where
  "faz5_five_tank p cargos av s st override_tolerance =
     foldl (faz5_step s (case override_tolerance of Some t \<Rightarrow> t | None \<Rightarrow> faz5_five_tank_tolerance st)
                      (min_utilization st))
           (p, av) cargos"

section \<open>Phase 6: six tanks (three pairs)\<close>

text \<open>One candidate combination of three row pairs.\<close>

definition faz6_candidate ::
  "ship \<Rightarrow> stowage_plan \<Rightarrow> avail \<Rightarrow> real \<Rightarrow> real \<Rightarrow> real
   \<Rightarrow> (tank \<times> tank) \<times> (tank \<times> tank) \<times> (tank \<times> tank) \<Rightarrow> (real \<times> placement) option" where
  "faz6_candidate s p av remaining_qty tolerance min_util x =
     (case x of ((port1, star1), (port2, star2), (port3, star3)) \<Rightarrow>
        if tank_id port1 \<notin> set (map fst av) \<or> tank_id star1 \<notin> set (map fst av) then None
        else if tank_id port2 \<notin> set (map fst av) \<or> tank_id star2 \<notin> set (map fst av) then None
        else if tank_id port3 \<notin> set (map fst av) \<or> tank_id star3 \<notin> set (map fst av) then None
        else
          (let total_cap = volume port1 + volume star1 + volume port2 + volume star2
                           + volume port3 + volume star3
           in case calculate_tolerance_deviation remaining_qty total_cap of
                None \<Rightarrow> None
              | Some deviation \<Rightarrow>
                  if deviation > tolerance then None
                  else
                    (let p1_available = get_tank_available_capacity (tank_id port1) p av s;
                         s1_available = get_tank_available_capacity (tank_id star1) p av s;
                         p2_available = get_tank_available_capacity (tank_id port2) p av s;
                         s2_available = get_tank_available_capacity (tank_id star2) p av s;
                         p3_available = get_tank_available_capacity (tank_id port3) p av s;
                         s3_available = get_tank_available_capacity (tank_id star3) p av s;
                         qty_per_pair = remaining_qty / 3
                     in case split_pair qty_per_pair p1_available (volume port1) s1_available (volume star1) of
                          (p1_qty, s1_qty) \<Rightarrow>
                        (case split_pair qty_per_pair p2_available (volume port2) s2_available (volume star2) of
                           (p2_qty, s2_qty) \<Rightarrow>
                        (case split_pair qty_per_pair p3_available (volume port3) s3_available (volume star3) of
                           (p3_qty, s3_qty) \<Rightarrow>
                           if \<not> (check_min_utilization p1_qty (volume port1) min_util
                                  \<and> check_min_utilization s1_qty (volume star1) min_util
                                  \<and> check_min_utilization p2_qty (volume port2) min_util
                                  \<and> check_min_utilization s2_qty (volume star2) min_util
                                  \<and> check_min_utilization p3_qty (volume port3) min_util
                                  \<and> check_min_utilization s3_qty (volume star3) min_util)
                           then None
                           else Some (deviation,
                                      [(tank_id port1, p1_qty), (tank_id star1, s1_qty),
                                       (tank_id port2, p2_qty), (tank_id star2, s2_qty),
                                       (tank_id port3, p3_qty), (tank_id star3, s3_qty)]))))))"

definition faz6_candidates ::
  "ship \<Rightarrow> stowage_plan \<Rightarrow> avail \<Rightarrow> real \<Rightarrow> real \<Rightarrow> real \<Rightarrow> (real \<times> placement) list" where
  "faz6_candidates s p av remaining_qty tolerance min_util =
     List.map_filter (faz6_candidate s p av remaining_qty tolerance min_util)
       (triples_lt (get_tank_pairs s))"

definition faz6_step ::
  "ship \<Rightarrow> real \<Rightarrow> real \<Rightarrow> stowage_plan \<times> avail \<Rightarrow> real cargo \<Rightarrow> stowage_plan \<times> avail" where
  "faz6_step s tolerance min_util st c =
     (case select_best (faz6_candidates s (fst st) (snd st) (quantity c) tolerance min_util) None of
        None \<Rightarrow> st
      | Some (d, best_combination) \<Rightarrow> place_all c st best_combination)"

text \<open>Phase 6 reads its default tolerance from \<open>faz2_two_tank_tolerance\<close>.\<close>

definition faz6_six_tank ::
  "stowage_plan \<Rightarrow> real cargo list \<Rightarrow> avail \<Rightarrow> ship \<Rightarrow> settings \<Rightarrow> real option \<Rightarrow> stowage_plan \<times> avail" where
  "faz6_six_tank p cargos av s st override_tolerance =
     foldl (faz6_step s (case override_tolerance of Some t \<Rightarrow> t | None \<Rightarrow> faz2_two_tank_tolerance st)
                      (min_utilization st))
           (p, av) cargos"

section \<open>Phase 7: greedy multi-tank\<close>

text \<open>\<open>sorted(xs, key=k)\<close> is stable; \<open>sorted(xs, key=k, reverse=True)\<close> is stable too:
  elements of equal key keep their order.\<close>

definition py_sorted :: "('a \<Rightarrow> 'k::linorder) \<Rightarrow> 'a list \<Rightarrow> 'a list" where
  "py_sorted k xs = sort_key k xs"

definition py_sorted_reverse :: "('a \<Rightarrow> 'k::linorder) \<Rightarrow> 'a list \<Rightarrow> 'a list" where
  "py_sorted_reverse k xs = rev (sort_key k (rev xs))"

fun faz7_fill ::
  "ship \<Rightarrow> real \<Rightarrow> real cargo \<Rightarrow> (string \<times> real) list \<Rightarrow> stowage_plan \<times> avail \<Rightarrow> real \<Rightarrow> stowage_plan \<times> avail" where
  "faz7_fill s min_util c [] st remaining_qty = st"
| "faz7_fill s min_util c ((tid, available_vol) # rest) st remaining_qty =
     (if remaining_qty < 0.001 then st
      else (case get_tank_by_id s tid of
              None \<Rightarrow> faz7_fill s min_util c rest st remaining_qty
            | Some t \<Rightarrow>
                (let qty_to_place = min remaining_qty (min available_vol (volume t))
                 in if \<not> check_min_utilization qty_to_place (volume t) min_util
                    then faz7_fill s min_util c rest st remaining_qty
                    else faz7_fill s min_util c rest (place c st (tid, qty_to_place))
                           (remaining_qty - qty_to_place))))"

definition faz7_step :: "ship \<Rightarrow> real \<Rightarrow> stowage_plan \<times> avail \<Rightarrow> real cargo \<Rightarrow> stowage_plan \<times> avail" where
  "faz7_step s min_util st c =
     faz7_fill s min_util c
       (py_sorted_reverse snd (filter (\<lambda>(tid, vol). vol > 0.001) (snd st))) st (quantity c)"

definition faz7_multi_tank ::
  "stowage_plan \<Rightarrow> real cargo list \<Rightarrow> avail \<Rightarrow> ship \<Rightarrow> settings \<Rightarrow> stowage_plan \<times> avail" where
  "faz7_multi_tank p cargos av s st = foldl (faz7_step s (min_utilization st)) (p, av) cargos"


section \<open>Phase 0: mandatory cargo\<close>

text \<open>\<open>int(x)\<close> truncates towards zero.\<close>

definition py_int :: "real \<Rightarrow> int" where
  "py_int x = (if x \<ge> 0 then \<lfloor>x\<rfloor> else \<lceil>x\<rceil>)"

text \<open>\<open>max(available_tanks.values()) if available_tanks else 0\<close>\<close>

definition max_tank_vol :: "avail \<Rightarrow> real" where
  "max_tank_vol av = (case av of [] \<Rightarrow> 0 | x # rest \<Rightarrow> fold max (map snd rest) (snd x))"

text \<open>The dispatch on \<open>estimated_tanks\<close> in the retry loop: phases 1 to 6 with the
  tolerance of the attempt, phase 7 (which has no tolerance parameter) otherwise.\<close>

definition run_phase ::
  "int \<Rightarrow> stowage_plan \<Rightarrow> real cargo list \<Rightarrow> avail \<Rightarrow> ship \<Rightarrow> settings \<Rightarrow> real \<Rightarrow> stowage_plan \<times> avail" where
  "run_phase k p cargos av s st tolerance =
     (if k = 1 then faz1_single_tank p cargos av s st (Some tolerance)
      else if k = 2 then faz2_two_tank p cargos av s st (Some tolerance)
      else if k = 3 then faz3_three_tank p cargos av s st (Some tolerance)
      else if k = 4 then faz4_four_tank p cargos av s st (Some tolerance)
      else if k = 5 then faz5_five_tank p cargos av s st (Some tolerance)
      else if k = 6 then faz6_six_tank p cargos av s st (Some tolerance)
      else faz7_multi_tank p cargos av s st)"

definition assigned_tank_ids :: "stowage_plan \<Rightarrow> real cargo \<Rightarrow> string list" where
  "assigned_tank_ids temp_plan c =
     map fst (filter (\<lambda>(tid, ass). unique_id (a_cargo ass) = unique_id c) (assignments temp_plan))"

text \<open>\<open>for tank_id, assignment in temp_plan.assignments.items():
  plan.add_assignment(tank_id, assignment)\<close>\<close>

definition copy_assignments :: "stowage_plan \<Rightarrow> stowage_plan \<Rightarrow> stowage_plan" where
  "copy_assignments temp_plan p = foldl (\<lambda>q (tid, a). add_assignment q tid a) p (assignments temp_plan)"

text \<open>The retry loop of one mandatory cargo, \<open>for attempt in range(...)\<close>. The state is
  the plan, the available volumes and the local variable \<open>placed\<close>, which is \<open>None\<close>
  while it is unbound: the loop assigns it only after the test on \<open>max_tank_vol\<close>, and it
  is not reset between cargoes. The temporary plan's id and creation date are never
  read; they are taken from the same environment reading.\<close>

fun faz0_attempts ::
  "env \<Rightarrow> ship \<Rightarrow> settings \<Rightarrow> real cargo \<Rightarrow> nat list \<Rightarrow> stowage_plan \<times> avail \<times> bool option
   \<Rightarrow> stowage_plan \<times> avail \<times> bool option" where
  "faz0_attempts e s st c [] state = state"
| "faz0_attempts e s st c (attempt # rest) (p, av, placed) =
     (let remaining_qty = quantity c;
          tolerance = 0 + real attempt * mandatory_retry_increment st
      in if max_tank_vol av \<le> 0 then (p, av, placed)
         else
           (let estimated_tanks = max 1 (py_int (remaining_qty / max_tank_vol av + 0.5));
                temp_plan = StowagePlan_init e (p_ship_name p) (ship_profile_id p) [c] ''temp''
            in case run_phase estimated_tanks temp_plan [c] av s st tolerance of
                 (temp_plan', temp_available) \<Rightarrow>
                   if get_cargo_total_loaded temp_plan' (unique_id c) \<ge> remaining_qty - 0.001
                   then (if estimated_tanks = 4
                            \<and> length (assigned_tank_ids temp_plan' c) = 4
                            \<and> is_bow_or_stern_only (assigned_tank_ids temp_plan' c) s
                         then faz0_attempts e s st c rest (p, av, Some False)
                         else (copy_assignments temp_plan' p, temp_available, Some True))
                   else if tolerance \<ge> mandatory_max_relaxation st then (p, av, Some False)
                   else faz0_attempts e s st c rest (p, av, Some False)))"

text \<open>The fallback \<open>for faz_func in [...]\<close>, every function called with six arguments, the
  last being \<open>max_relaxation\<close>. \<open>_faz7_multi_tank\<close> takes five parameters: reaching it
  raises \<open>TypeError\<close>.\<close>

datatype faz_func = Faz1 | Faz2 | Faz3 | Faz4 | Faz5 | Faz6 | Faz7

definition call_faz ::
  "faz_func \<Rightarrow> stowage_plan \<Rightarrow> real cargo list \<Rightarrow> avail \<Rightarrow> ship \<Rightarrow> settings \<Rightarrow> real
   \<Rightarrow> error + stowage_plan \<times> avail" where
  "call_faz f p cargos av s st tol =
     (case f of
        Faz1 \<Rightarrow> Inr (faz1_single_tank p cargos av s st (Some tol))
      | Faz2 \<Rightarrow> Inr (faz2_two_tank p cargos av s st (Some tol))
      | Faz3 \<Rightarrow> Inr (faz3_three_tank p cargos av s st (Some tol))
      | Faz4 \<Rightarrow> Inr (faz4_four_tank p cargos av s st (Some tol))
      | Faz5 \<Rightarrow> Inr (faz5_five_tank p cargos av s st (Some tol))
      | Faz6 \<Rightarrow> Inr (faz6_six_tank p cargos av s st (Some tol))
      | Faz7 \<Rightarrow> Inl TypeError)"

fun faz0_fallback ::
  "env \<Rightarrow> ship \<Rightarrow> settings \<Rightarrow> real cargo \<Rightarrow> faz_func list \<Rightarrow> stowage_plan \<times> avail
   \<Rightarrow> error + stowage_plan \<times> avail" where
  "faz0_fallback e s st c [] state = Inr state"
| "faz0_fallback e s st c (f # rest) (p, av) =
     (let temp_plan = StowagePlan_init e (p_ship_name p) (ship_profile_id p) [c] ''temp''
      in case call_faz f temp_plan [c] av s st (mandatory_max_relaxation st) of
           Inl err \<Rightarrow> Inl err
         | Inr (temp_plan', temp_available) \<Rightarrow>
             if get_cargo_total_loaded temp_plan' (unique_id c) \<ge> quantity c - 0.001
             then (if length (assigned_tank_ids temp_plan' c) = 4
                      \<and> is_bow_or_stern_only (assigned_tank_ids temp_plan' c) s
                   then faz0_fallback e s st c rest (p, av)
                   else Inr (copy_assignments temp_plan' p, temp_available))
             else faz0_fallback e s st c rest (p, av))"

text \<open>The loop over the mandatory cargoes. \<open>range(int(max_relaxation / retry_increment) + 1)\<close>
  divides by the increment (\<open>ZeroDivisionError\<close> when it is zero); \<open>if not placed\<close> reads
  \<open>placed\<close> (\<open>UnboundLocalError\<close> when no attempt has assigned it yet).\<close>

fun faz0_cargos ::
  "env \<Rightarrow> ship \<Rightarrow> settings \<Rightarrow> real cargo list \<Rightarrow> stowage_plan \<times> avail \<times> bool option
   \<Rightarrow> error + stowage_plan \<times> avail" where
  "faz0_cargos e s st [] (p, av, placed) = Inr (p, av)"
| "faz0_cargos e s st (c # cs) state =
     (if mandatory_retry_increment st = 0 then Inl ZeroDivisionError
      else
        (case faz0_attempts e s st c
                [0 ..< nat (py_int (mandatory_max_relaxation st / mandatory_retry_increment st) + 1)]
                state of
           (p1, av1, placed1) \<Rightarrow>
             (case placed1 of
                None \<Rightarrow> Inl UnboundLocalError
              | Some True \<Rightarrow> faz0_cargos e s st cs (p1, av1, placed1)
              | Some False \<Rightarrow>
                  (case faz0_fallback e s st c [Faz1, Faz2, Faz3, Faz4, Faz5, Faz6, Faz7] (p1, av1) of
                     Inl err \<Rightarrow> Inl err
                   | Inr (p2, av2) \<Rightarrow> faz0_cargos e s st cs (p2, av2, placed1)))))"

definition faz0_mandatory_cargo ::
  "env \<Rightarrow> stowage_plan \<Rightarrow> real cargo list \<Rightarrow> avail \<Rightarrow> ship \<Rightarrow> settings \<Rightarrow> error + stowage_plan \<times> avail" where
  "faz0_mandatory_cargo e p mandatory_cargos av s st = faz0_cargos e s st mandatory_cargos (p, av, None)"

section \<open>optimize_advanced\<close>

text \<open>\<open>excluded_tanks\<close> is a set of tank ids and \<open>fixed_assignments\<close> a dictionary of which
  only the keys are read; \<open>None\<close> for either is the empty one (\<open>x or set()\<close>, \<open>x or {}\<close>).\<close>

definition initial_available :: "ship \<Rightarrow> string set \<Rightarrow> avail" where
  "initial_available s excluded =
     foldl (\<lambda>av t. if tank_id t \<notin> excluded then AList.update (tank_id t) (volume t) av else av)
           [] (tanks s)"

text \<open>\<open>[c for c in remaining_regular if plan.get_cargo_total_loaded(c.unique_id) <
  c.quantity - 0.001]\<close>\<close>

definition still_remaining :: "stowage_plan \<Rightarrow> real cargo list \<Rightarrow> real cargo list" where
  "still_remaining p cs = filter (\<lambda>c. get_cargo_total_loaded p (unique_id c) < quantity c - 0.001) cs"

definition regular_phases :: "ship \<Rightarrow> settings \<Rightarrow> real cargo list \<Rightarrow> stowage_plan \<times> avail \<Rightarrow> stowage_plan" where
  "regular_phases s st regular_cargos st0 =
     (case faz1_single_tank (fst st0) regular_cargos (snd st0) s st None of (p1, av1) \<Rightarrow>
      (let r1 = still_remaining p1 regular_cargos in
       case faz2_two_tank p1 r1 av1 s st None of (p2, av2) \<Rightarrow>
      (let r2 = still_remaining p2 r1 in
       case faz3_three_tank p2 r2 av2 s st None of (p3, av3) \<Rightarrow>
      (let r3 = still_remaining p3 r2 in
       case faz4_four_tank p3 r3 av3 s st None of (p4, av4) \<Rightarrow>
      (let r4 = still_remaining p4 r3 in
       case faz5_five_tank p4 r4 av4 s st None of (p5, av5) \<Rightarrow>
      (let r5 = still_remaining p5 r4 in
       case faz6_six_tank p5 r5 av5 s st None of (p6, av6) \<Rightarrow>
      (let r6 = still_remaining p6 r5 in
       case faz7_multi_tank p6 r6 av6 s st of (p7, av7) \<Rightarrow> p7)))))))"

definition optimize_advanced ::
  "env \<Rightarrow> ship \<Rightarrow> real cargo list \<Rightarrow> string set \<Rightarrow> (string \<times> tank_assignment) list \<Rightarrow> settings
   \<Rightarrow> error + stowage_plan" where
  "optimize_advanced e s cargos excluded_ids fixed_assignments st =
     (let plan = StowagePlan_init e (ship_name s) (ship_id s) cargos ''Yeni Plan'';
          excluded = excluded_ids \<union> set (map fst fixed_assignments);
          available_tanks = initial_available s excluded;
          mandatory_cargos = filter is_mandatory cargos;
          regular_cargos = filter (\<lambda>c. \<not> is_mandatory c) cargos
      in case (if mandatory_cargos \<noteq> []
               then faz0_mandatory_cargo e plan mandatory_cargos available_tanks s st
               else Inr (plan, available_tanks)) of
           Inl err \<Rightarrow> Inl err
         | Inr st0 \<Rightarrow> Inr (regular_phases s st regular_cargos st0))"

section \<open>Scores\<close>

text \<open>\<open>AdvancedStowageOptimizer._calculate_simple_score\<close>\<close>

definition calculate_simple_score :: "stowage_plan \<Rightarrow> ship \<Rightarrow> real" where
  "calculate_simple_score p s =
     (let total_requested = sum_list (map quantity (cargo_requests p));
          total_loaded = get_total_loaded p;
          completion_rate = (if total_requested > 0 then total_loaded / total_requested * 100 else 0);
          completion_score = completion_rate * 0.6;
          total_capacity = get_total_capacity s;
          utilization = (if total_capacity > 0 then total_loaded / total_capacity * 100 else 0);
          utilization_score = utilization * 0.4
      in min (completion_score + utilization_score) 100)"

text \<open>\<open>StowageOptimizer.score_plan\<close>\<close>

definition score_plan :: "stowage_plan \<Rightarrow> ship \<Rightarrow> real" where
  "score_plan p s =
     (if length (tanks s) = 0 then 0
      else
        (let total_requested = sum_list (map quantity (cargo_requests p));
             total_loaded = get_total_loaded p;
             completion_rate = (if total_requested > 0 then total_loaded / total_requested * 100 else 0);
             completion_score = completion_rate * 0.4;
             total_capacity = get_total_capacity s;
             tank_utilization = (if total_capacity > 0 then total_loaded / total_capacity * 100 else 0);
             utilization_score = tank_utilization * 0.3;
             fill_rates = List.map_filter (\<lambda>t.
                 case get_assignment p (tank_id t) of
                   None \<Rightarrow> None
                 | Some a \<Rightarrow> Some (if volume t > 0 then quantity_loaded a / volume t * 100 else 0)) (tanks s);
             avg_fill_rate = (if fill_rates \<noteq> [] then sum_list fill_rates / real (length fill_rates) else 0);
             fill_score = avg_fill_rate * 0.2;
             empty_tanks = length (filter (\<lambda>t. get_assignment p (tank_id t) = None) (tanks s));
             empty_penalty = (real empty_tanks / real (length (tanks s)) * 100) * 0.1;
             empty_score = 10 - empty_penalty
         in min (completion_score + utilization_score + fill_score + empty_score) 100))"

section \<open>optimize_with_fixed_and_retry\<close>

text \<open>The table of cargo orderings. A key that is a Python tuple is a pair, ordered
  lexicographically; \<open>False < True\<close>. \<open>copy.deepcopy\<close> of the cargo list is the same list
  of values.\<close>

definition receiver_count :: "real cargo \<Rightarrow> int" where
  "receiver_count c = (if receivers c \<noteq> [] then int (length (receivers c)) else 0)"

definition neg_receiver_count :: "real cargo \<Rightarrow> int" where
  "neg_receiver_count c = (if receivers c \<noteq> [] then - int (length (receivers c)) else 0)"

definition strategies :: "(string \<times> (real cargo list \<Rightarrow> real cargo list)) list" where
  "strategies =
     [(''default'', py_sorted_reverse quantity),
      (''receiver_count'', py_sorted_reverse receiver_count),
      (''mandatory_first'', py_sorted_reverse (\<lambda>c. (\<not> is_mandatory c, quantity c))),
      (''quantity_small_first'', py_sorted quantity),
      (''mixed'', py_sorted_reverse (\<lambda>c. (is_mandatory c, neg_receiver_count c, quantity c)))]"

text \<open>\<open>xs[:n]\<close> for an integer \<open>n\<close>: the first \<open>n\<close> elements, all but the last \<open>-n\<close> when
  \<open>n\<close> is negative.\<close>

definition py_slice_to :: "'a list \<Rightarrow> int \<Rightarrow> 'a list" where
  "py_slice_to xs n = (if n \<ge> 0 then take (nat n) xs else take (length xs - nat (- n)) xs)"

text \<open>The loop over the strategies. A strategy whose run raises is skipped
  (\<open>except Exception: continue\<close>); a plan replaces the best one only when its score is
  strictly greater. Each run builds its plan from an environment reading of its own,
  \<open>envs i\<close> for the \<open>i\<close>-th run.\<close>

fun retry_loop ::
  "(nat \<Rightarrow> env) \<Rightarrow> ship \<Rightarrow> real cargo list \<Rightarrow> string set \<Rightarrow> (string \<times> tank_assignment) list \<Rightarrow> settings
   \<Rightarrow> nat \<Rightarrow> (string \<times> (real cargo list \<Rightarrow> real cargo list)) list \<Rightarrow> stowage_plan option \<times> real
   \<Rightarrow> stowage_plan option \<times> real" where
  "retry_loop envs s cargos ex fx st i [] best = best"
| "retry_loop envs s cargos ex fx st i ((strategy_name, sort_func) # rest) (best_plan, best_score) =
     (case optimize_advanced (envs i) s (sort_func cargos) ex fx st of
        Inl err \<Rightarrow> retry_loop envs s cargos ex fx st (Suc i) rest (best_plan, best_score)
      | Inr plan \<Rightarrow>
          (let score = calculate_simple_score plan s
           in if score > best_score
              then retry_loop envs s cargos ex fx st (Suc i) rest (Some plan, score)
              else retry_loop envs s cargos ex fx st (Suc i) rest (best_plan, best_score)))"

definition optimize_with_fixed_and_retry ::
  "(nat \<Rightarrow> env) \<Rightarrow> ship \<Rightarrow> real cargo list \<Rightarrow> string set \<Rightarrow> (string \<times> tank_assignment) list \<Rightarrow> int
   \<Rightarrow> settings \<Rightarrow> error + stowage_plan" where
  "optimize_with_fixed_and_retry envs s cargos ex fx num_retries st =
     (let tried = py_slice_to strategies num_retries
      in case retry_loop envs s cargos ex fx st 0 tried (None, -1) of
           (Some best_plan, best_score) \<Rightarrow> Inr best_plan
         | (None, best_score) \<Rightarrow> optimize_advanced (envs (length tried)) s cargos ex fx st)"

section \<open>validate_plan\<close>

text \<open>The message is an f-string with the two totals formatted \<open>:.2f\<close>; the formatting
  of a float is the parameter \<open>fmt\<close>. The Turkish text is kept in ASCII transliteration.\<close>

definition StowageOptimizer_validate_plan :: "(real \<Rightarrow> string) \<Rightarrow> ship \<Rightarrow> real cargo list \<Rightarrow> bool \<times> string" where
  "StowageOptimizer_validate_plan fmt s cargos =
     (let total_cargo_quantity = sum_list (map quantity cargos);
          total_capacity = get_total_capacity s
      in if total_cargo_quantity > total_capacity
         then (False, ''Toplam yuk miktari ('' @ fmt total_cargo_quantity
                      @ '') geminin toplam kapasitesini ('' @ fmt total_capacity @ '') asiyor'')
         else if length cargos > length (tanks s) then (True, [])
         else (True, []))"

definition GeneticOptimizer_validate_plan :: "(real \<Rightarrow> string) \<Rightarrow> ship \<Rightarrow> real cargo list \<Rightarrow> bool \<times> string" where
  "GeneticOptimizer_validate_plan fmt s cargos =
     (let total_cargo_quantity = sum_list (map quantity cargos);
          total_capacity = get_total_capacity s
      in if total_cargo_quantity > total_capacity * 1.1
         then (False, ''Toplam yuk miktari ('' @ fmt total_cargo_quantity
                      @ '') geminin toplam kapasitesini ('' @ fmt total_capacity @ '') cok fazla asiyor'')
         else (True, []))"


section \<open>optimizer/genetic_optimizer.py: the random source\<close>

text \<open>
  The module \<open>random\<close> is an explicit argument: an endless sequence of raw draws and
  the position of the next one. The genetic solver calls \<open>random.randint\<close>,
  \<open>random.random\<close>, \<open>random.choice\<close> and \<open>random.sample\<close>; each is modelled by a fixed
  decoding of draws which can return every value the Python function can return, and
  nothing else. The Mersenne Twister itself is not modelled: a seed is a choice of the
  sequence, and what is proved holds for every sequence.
\<close>

record rng =
  int_draws :: "nat \<Rightarrow> nat"
  unit_draws :: "nat \<Rightarrow> real"
  rng_pos :: nat

definition next_nat :: "rng \<Rightarrow> nat \<times> rng" where
  "next_nat g = (int_draws g (rng_pos g), g\<lparr>rng_pos := Suc (rng_pos g)\<rparr>)"

text \<open>\<open>random.randint(a, b)\<close>: an integer of \<open>[a, b]\<close>, \<open>ValueError\<close> when the range is
  empty.\<close>

definition randint :: "int \<Rightarrow> int \<Rightarrow> rng \<Rightarrow> error + int \<times> rng" where
  "randint a b g =
     (if b < a then Inl ValueError
      else (case next_nat g of (n, g') \<Rightarrow> Inr (a + int (n mod nat (b - a + 1)), g')))"

text \<open>\<open>random.random()\<close>: a float of \<open>[0, 1)\<close>.\<close>

definition random_unit :: "rng \<Rightarrow> real \<times> rng" where
  "random_unit g =
     (let u = unit_draws g (rng_pos g)
      in (if 0 \<le> u \<and> u < 1 then u else 0, g\<lparr>rng_pos := Suc (rng_pos g)\<rparr>))"

text \<open>\<open>random.choice(seq)\<close>: \<open>IndexError\<close> on an empty sequence.\<close>

definition choice :: "'a list \<Rightarrow> rng \<Rightarrow> error + 'a \<times> rng" where
  "choice xs g =
     (if xs = [] then Inl IndexError
      else (case next_nat g of (n, g') \<Rightarrow> Inr (xs ! (n mod length xs), g')))"

text \<open>\<open>random.sample(population, k)\<close>: \<open>k\<close> elements at distinct positions, in the order
  drawn; \<open>ValueError\<close> when \<open>k\<close> is negative or larger than the population.\<close>

fun sample_from :: "'a list \<Rightarrow> nat \<Rightarrow> rng \<Rightarrow> 'a list \<times> rng" where
  "sample_from xs 0 g = ([], g)"
| "sample_from xs (Suc k) g =
     (if xs = [] then ([], g)
      else (case next_nat g of (n, g') \<Rightarrow>
              (let i = n mod length xs
               in case sample_from (take i xs @ drop (Suc i) xs) k g' of
                    (ys, g'') \<Rightarrow> (xs ! i # ys, g''))))"

definition sample :: "'a list \<Rightarrow> int \<Rightarrow> rng \<Rightarrow> error + 'a list \<times> rng" where
  "sample xs k g =
     (if k < 0 \<or> k > int (length xs) then Inl ValueError else Inr (sample_from xs (nat k) g))"

section \<open>Chromosome and GeneticOptimizer\<close>

type_synonym gene = "string option \<times> real"

record chromosome =
  genes :: "gene list"
  c_tank_ids :: "string list"

text \<open>The constructor with \<open>__post_init__\<close>; \<open>copy()\<close> goes through it as well.\<close>

definition Chromosome_init :: "gene list \<Rightarrow> string list \<Rightarrow> error + chromosome" where
  "Chromosome_init gs tids =
     (if length gs \<noteq> length tids then Inl ValueError else Inr \<lparr>genes = gs, c_tank_ids = tids\<rparr>)"

definition chromosome_copy :: "chromosome \<Rightarrow> error + chromosome" where
  "chromosome_copy c = Chromosome_init (genes c) (c_tank_ids c)"

text \<open>The fields of a \<open>GeneticOptimizer\<close> that are not plain copies of a setting. The
  parameters \<open>population_size\<close>, \<open>receiver_tolerance\<close>, ... are read from
  \<open>opt_settings\<close>.\<close>

record genetic_optimizer =
  opt_ship :: ship
  opt_cargo_requests :: "real cargo list"
  opt_excluded_tanks :: "string set"
  opt_settings :: settings
  mandatory_cargos :: "real cargo list"
  regular_cargos :: "real cargo list"
  mandatory_assignments :: "(string \<times> tank_assignment) list"
  available_tanks :: "tank list"
  tank_ids :: "string list"
  tank_volumes :: "(string \<times> real) list"
  best_fitness_history :: "real list"

definition GeneticOptimizer_init ::
  "ship \<Rightarrow> real cargo list \<Rightarrow> string set \<Rightarrow> (string \<times> tank_assignment) list \<Rightarrow> settings
   \<Rightarrow> genetic_optimizer" where
  "GeneticOptimizer_init s cargos excluded_ids fixed_assignments st =
     (let excluded = excluded_ids \<union> set (map fst fixed_assignments);
          avail_tanks = filter (\<lambda>t. tank_id t \<notin> excluded) (tanks s)
      in \<lparr> opt_ship = s,
           opt_cargo_requests = cargos,
           opt_excluded_tanks = excluded,
           opt_settings = st,
           mandatory_cargos = filter is_mandatory cargos,
           regular_cargos = filter (\<lambda>c. \<not> is_mandatory c) cargos,
           mandatory_assignments = [],
           available_tanks = avail_tanks,
           tank_ids = map tank_id avail_tanks,
           tank_volumes = initial_available s excluded,
           best_fitness_history = [] \<rparr>)"

definition opt_total_rows :: "genetic_optimizer \<Rightarrow> nat" where
  "opt_total_rows g = total_rows (opt_ship g)"

definition ideal_lcg_position :: "genetic_optimizer \<Rightarrow> real" where
  "ideal_lcg_position g =
     (case ga_ideal_lcg_position (opt_settings g) of
        Some x \<Rightarrow> x
      | None \<Rightarrow> real (opt_total_rows g) / 2)"

section \<open>Mandatory placer of the genetic solver\<close>

text \<open>The greedy loop of one mandatory cargo over the tanks sorted by available volume.
  \<open>qty_to_place / tank.volume\<close> is a division: \<open>ZeroDivisionError\<close> for a tank of volume
  zero.\<close>

fun place_mandatory_fill ::
  "ship \<Rightarrow> real \<Rightarrow> real cargo \<Rightarrow> (string \<times> real) list
   \<Rightarrow> (string \<times> tank_assignment) list \<times> avail \<Rightarrow> real
   \<Rightarrow> error + (string \<times> tank_assignment) list \<times> avail" where
  "place_mandatory_fill s min_util c [] st remaining_qty = Inr st"
| "place_mandatory_fill s min_util c ((tid, available_vol) # rest) st remaining_qty =
     (if remaining_qty < 0.001 then Inr st
      else (case get_tank_by_id s tid of
              None \<Rightarrow> place_mandatory_fill s min_util c rest st remaining_qty
            | Some t \<Rightarrow>
                (let qty_to_place = min remaining_qty (min available_vol (volume t))
                 in if volume t = 0 then Inl ZeroDivisionError
                    else if qty_to_place / volume t < min_util
                    then place_mandatory_fill s min_util c rest st remaining_qty
                    else
                      (let ma = AList.update tid
                                  \<lparr>a_tank_id = tid, a_cargo = c, quantity_loaded = qty_to_place\<rparr> (fst st);
                           av1 = avail_sub (snd st) tid qty_to_place;
                           av2 = (case map_of av1 tid of
                                    None \<Rightarrow> av1
                                  | Some v \<Rightarrow> if v < 0.001 then AList.update tid 0 av1 else av1)
                       in place_mandatory_fill s min_util c rest (ma, av2)
                            (remaining_qty - qty_to_place)))))"

fun place_mandatory_loop ::
  "ship \<Rightarrow> real \<Rightarrow> real cargo list \<Rightarrow> (string \<times> tank_assignment) list \<times> avail
   \<Rightarrow> error + (string \<times> tank_assignment) list \<times> avail" where
  "place_mandatory_loop s min_util [] st = Inr st"
| "place_mandatory_loop s min_util (c # cs) st =
     (case place_mandatory_fill s min_util c
             (py_sorted_reverse snd (filter (\<lambda>(tid, vol). vol > 0.001) (snd st))) st (quantity c) of
        Inl err \<Rightarrow> Inl err
      | Inr st' \<Rightarrow> place_mandatory_loop s min_util cs st')"

text \<open>\<open>_place_mandatory_cargos\<close> resets \<open>self.mandatory_assignments\<close> and returns the
  updated dictionary of available volumes.\<close>

definition place_mandatory_cargos ::
  "genetic_optimizer \<Rightarrow> avail \<Rightarrow> settings \<Rightarrow> error + genetic_optimizer \<times> avail" where
  "place_mandatory_cargos g av st =
     (case place_mandatory_loop (opt_ship g) (min_utilization st) (mandatory_cargos g) ([], av) of
        Inl err \<Rightarrow> Inl err
      | Inr (ma, av') \<Rightarrow> Inr (g\<lparr>mandatory_assignments := ma\<rparr>, av'))"

section \<open>Repair\<close>

text \<open>\<open>self.tank_volumes[tank_id]\<close>: \<open>KeyError\<close> for an id that is not a key.\<close>

definition volume_of :: "genetic_optimizer \<Rightarrow> string \<Rightarrow> error + real" where
  "volume_of g tid = (case map_of (tank_volumes g) tid of None \<Rightarrow> Inl KeyError | Some v \<Rightarrow> Inr v)"

text \<open>The loops of the repair run over \<open>enumerate(chromosome.genes)\<close> and assign to the
  gene at the current index only: each is a pass over the genes, paired with their tank
  ids, that rebuilds the list and carries the quantity still to add or remove.\<close>

definition cons_gene :: "gene \<Rightarrow> error + gene list \<times> real \<Rightarrow> error + gene list \<times> real" where
  "cons_gene x r = (case r of Inl err \<Rightarrow> Inl err | Inr (gs, rem) \<Rightarrow> Inr (x # gs, rem))"

text \<open>First loop of \<open>_repair_chromosome\<close>: cap a gene at its tank volume.\<close>

fun cap_genes :: "genetic_optimizer \<Rightarrow> (gene \<times> string) list \<Rightarrow> error + gene list" where
  "cap_genes g [] = Inr []"
| "cap_genes g (((cargo_id, qty), tid) # rest) =
     (if cargo_id \<noteq> None \<and> qty > 0
      then (case volume_of g tid of
              Inl err \<Rightarrow> Inl err
            | Inr tank_volume \<Rightarrow>
                (case cap_genes g rest of
                   Inl err \<Rightarrow> Inl err
                 | Inr gs \<Rightarrow> Inr ((if qty > tank_volume then (cargo_id, tank_volume) else (cargo_id, qty)) # gs)))
      else (case cap_genes g rest of Inl err \<Rightarrow> Inl err | Inr gs \<Rightarrow> Inr ((cargo_id, qty) # gs)))"

text \<open>\<open>_add_cargo_to_chromosome\<close>, first loop: tanks that already hold the cargo.\<close>

fun add_to_existing ::
  "genetic_optimizer \<Rightarrow> string \<Rightarrow> (gene \<times> string) list \<Rightarrow> real \<Rightarrow> error + gene list \<times> real" where
  "add_to_existing g cargo_id [] remaining = Inr ([], remaining)"
| "add_to_existing g cargo_id (((existing_cargo_id, existing_qty), tid) # rest) remaining =
     (if existing_cargo_id = Some cargo_id \<and> remaining > 0.001
      then (case volume_of g tid of
              Inl err \<Rightarrow> Inl err
            | Inr tank_volume \<Rightarrow>
                (let available = tank_volume - existing_qty;
                     to_add = min remaining available
                 in if to_add > 0.001
                    then cons_gene (Some cargo_id, existing_qty + to_add)
                           (add_to_existing g cargo_id rest (remaining - to_add))
                    else cons_gene (existing_cargo_id, existing_qty)
                           (add_to_existing g cargo_id rest remaining)))
      else cons_gene (existing_cargo_id, existing_qty) (add_to_existing g cargo_id rest remaining))"

text \<open>Second loop: empty tanks.\<close>

fun add_to_empty ::
  "genetic_optimizer \<Rightarrow> string \<Rightarrow> (gene \<times> string) list \<Rightarrow> real \<Rightarrow> error + gene list \<times> real" where
  "add_to_empty g cargo_id [] remaining = Inr ([], remaining)"
| "add_to_empty g cargo_id (((existing_cargo_id, existing_qty), tid) # rest) remaining =
     (if existing_cargo_id = None \<and> remaining > 0.001
      then (case volume_of g tid of
              Inl err \<Rightarrow> Inl err
            | Inr tank_volume \<Rightarrow>
                (let to_add = min remaining tank_volume
                 in if to_add > 0.001
                    then cons_gene (Some cargo_id, to_add)
                           (add_to_empty g cargo_id rest (remaining - to_add))
                    else cons_gene (existing_cargo_id, existing_qty)
                           (add_to_empty g cargo_id rest remaining)))
      else cons_gene (existing_cargo_id, existing_qty) (add_to_empty g cargo_id rest remaining))"

definition add_cargo_to_chromosome ::
  "genetic_optimizer \<Rightarrow> chromosome \<Rightarrow> string \<Rightarrow> real \<Rightarrow> error + chromosome" where
  "add_cargo_to_chromosome g c cargo_id qty =
     (case add_to_existing g cargo_id (zip (genes c) (c_tank_ids c)) qty of
        Inl err \<Rightarrow> Inl err
      | Inr (gs1, remaining) \<Rightarrow>
          (case add_to_empty g cargo_id (zip gs1 (c_tank_ids c)) remaining of
             Inl err \<Rightarrow> Inl err
           | Inr (gs2, remaining') \<Rightarrow> Inr (c\<lparr>genes := gs2\<rparr>)))"

fun remove_from_genes :: "string \<Rightarrow> gene list \<Rightarrow> real \<Rightarrow> gene list" where
  "remove_from_genes cargo_id [] remaining = []"
| "remove_from_genes cargo_id ((existing_cargo_id, existing_qty) # rest) remaining =
     (if existing_cargo_id = Some cargo_id \<and> remaining > 0.001
      then (let to_remove = min remaining existing_qty;
                new_qty = existing_qty - to_remove
            in (if new_qty < 0.001 then (None, 0) else (Some cargo_id, new_qty))
               # remove_from_genes cargo_id rest (remaining - to_remove))
      else (existing_cargo_id, existing_qty) # remove_from_genes cargo_id rest remaining)"

definition remove_cargo_from_chromosome :: "chromosome \<Rightarrow> string \<Rightarrow> real \<Rightarrow> chromosome" where
  "remove_cargo_from_chromosome c cargo_id qty = c\<lparr>genes := remove_from_genes cargo_id (genes c) qty\<rparr>"

definition cargo_total :: "gene list \<Rightarrow> string \<Rightarrow> real" where
  "cargo_total gs cargo_id = sum_list (map snd (filter (\<lambda>(cid, qty). cid = Some cargo_id) gs))"

text \<open>Second loop of \<open>_repair_chromosome\<close>, one regular cargo after the other.\<close>

fun repair_cargos :: "genetic_optimizer \<Rightarrow> real cargo list \<Rightarrow> chromosome \<Rightarrow> error + chromosome" where
  "repair_cargos g [] c = Inr c"
| "repair_cargos g (cargo # rest) c =
     (let total_loaded = cargo_total (genes c) (unique_id cargo);
          min_allowed = quantity cargo * (1 - ga_receiver_tolerance (opt_settings g));
          max_allowed = quantity cargo * (1 + ga_receiver_tolerance (opt_settings g))
      in if total_loaded < min_allowed
         then (case add_cargo_to_chromosome g c (unique_id cargo) (min_allowed - total_loaded) of
                 Inl err \<Rightarrow> Inl err
               | Inr c' \<Rightarrow> repair_cargos g rest c')
         else if total_loaded > max_allowed
         then repair_cargos g rest
                (remove_cargo_from_chromosome c (unique_id cargo) (total_loaded - max_allowed))
         else repair_cargos g rest c)"

definition repair_chromosome :: "genetic_optimizer \<Rightarrow> chromosome \<Rightarrow> error + chromosome" where
  "repair_chromosome g c =
     (case chromosome_copy c of
        Inl err \<Rightarrow> Inl err
      | Inr repaired \<Rightarrow>
          (case cap_genes g (zip (genes repaired) (c_tank_ids repaired)) of
             Inl err \<Rightarrow> Inl err
           | Inr gs \<Rightarrow> repair_cargos g (regular_cargos g) (repaired\<lparr>genes := gs\<rparr>)))"


section \<open>Initial population\<close>

text \<open>The \<open>while remaining_qty > 0.001 and attempts < max_attempts\<close> loop of
  \<open>_create_random_chromosome\<close> for one cargo; the numeric argument is the number of
  attempts left.\<close>

fun random_place ::
  "genetic_optimizer \<Rightarrow> real cargo \<Rightarrow> nat \<Rightarrow> gene list \<Rightarrow> real \<Rightarrow> rng \<Rightarrow> error + gene list \<times> rng" where
  "random_place g cargo 0 gs remaining_qty r = Inr (gs, r)"
| "random_place g cargo (Suc k) gs remaining_qty r =
     (if remaining_qty > 0.001
      then (case randint 0 (int (length (tank_ids g)) - 1) r of
              Inl err \<Rightarrow> Inl err
            | Inr (tank_idx, r') \<Rightarrow>
                (case volume_of g (tank_ids g ! nat tank_idx) of
                   Inl err \<Rightarrow> Inl err
                 | Inr tank_volume \<Rightarrow>
                     (case gs ! nat tank_idx of (current_cargo_id, current_qty) \<Rightarrow>
                        if current_cargo_id = None \<or> current_cargo_id = Some (unique_id cargo)
                        then (let available_space =
                                    (if current_cargo_id = None then tank_volume
                                     else tank_volume - current_qty);
                                  current_qty' = (if current_cargo_id = None then 0 else current_qty);
                                  qty_to_add = min remaining_qty available_space
                              in if qty_to_add > 0.001
                                 then random_place g cargo k
                                        (gs[nat tank_idx := (Some (unique_id cargo), current_qty' + qty_to_add)])
                                        (remaining_qty - qty_to_add) r'
                                 else random_place g cargo k gs remaining_qty r')
                        else random_place g cargo k gs remaining_qty r')))
      else Inr (gs, r))"

fun random_place_all ::
  "genetic_optimizer \<Rightarrow> real cargo list \<Rightarrow> gene list \<Rightarrow> rng \<Rightarrow> error + gene list \<times> rng" where
  "random_place_all g [] gs r = Inr (gs, r)"
| "random_place_all g (cargo # rest) gs r =
     (case random_place g cargo (length (tank_ids g) * 2) gs (quantity cargo) r of
        Inl err \<Rightarrow> Inl err
      | Inr (gs', r') \<Rightarrow> random_place_all g rest gs' r')"

definition create_random_chromosome :: "genetic_optimizer \<Rightarrow> rng \<Rightarrow> error + chromosome \<times> rng" where
  "create_random_chromosome g r =
     (case random_place_all g (regular_cargos g) (map (\<lambda>_. (None, 0)) (tank_ids g)) r of
        Inl err \<Rightarrow> Inl err
      | Inr (gs, r') \<Rightarrow>
          (case Chromosome_init gs (tank_ids g) of
             Inl err \<Rightarrow> Inl err
           | Inr c \<Rightarrow> Inr (c, r')))"

text \<open>\<open>create_initial_population\<close>: \<open>for _ in range(self.population_size)\<close>.\<close>

fun create_population :: "genetic_optimizer \<Rightarrow> nat \<Rightarrow> rng \<Rightarrow> error + chromosome list \<times> rng" where
  "create_population g 0 r = Inr ([], r)"
| "create_population g (Suc n) r =
     (case create_random_chromosome g r of
        Inl err \<Rightarrow> Inl err
      | Inr (c, r') \<Rightarrow>
          (case repair_chromosome g c of
             Inl err \<Rightarrow> Inl err
           | Inr c' \<Rightarrow>
               (case create_population g n r' of
                  Inl err \<Rightarrow> Inl err
                | Inr (cs, r'') \<Rightarrow> Inr (c' # cs, r''))))"

definition create_initial_population :: "genetic_optimizer \<Rightarrow> rng \<Rightarrow> error + chromosome list \<times> rng" where
  "create_initial_population g r = create_population g (nat (ga_population_size (opt_settings g))) r"

section \<open>Fitness\<close>

text \<open>\<open>d[k].append(x)\<close> on a dictionary of lists, a missing key starting from the empty
  list.\<close>

definition append_to :: "string \<Rightarrow> 'a \<Rightarrow> (string \<times> 'a list) list \<Rightarrow> (string \<times> 'a list) list" where
  "append_to k x d = AList.update k ((case map_of d k of None \<Rightarrow> [] | Some l \<Rightarrow> l) @ [x]) d"

text \<open>The tanks of every cargo with more than \<open>0.001\<close> loaded, in gene order; the second
  argument lists what is recorded for each gene (its tank id, or its index).\<close>

definition cargo_groups :: "gene list \<Rightarrow> 'a list \<Rightarrow> (string \<times> 'a list) list" where
  "cargo_groups gs xs =
     foldl (\<lambda>d ((cargo_id, qty), x).
              case cargo_id of
                None \<Rightarrow> d
              | Some cid \<Rightarrow> if qty > 0.001 then append_to cid x d else d)
           [] (zip gs xs)"

definition all_tanks_same_side :: "genetic_optimizer \<Rightarrow> string list \<Rightarrow> bool" where
  "all_tanks_same_side g tids =
     (case tids of
        [] \<Rightarrow> False
      | first # others \<Rightarrow>
          (case get_tank_position_info (opt_ship g) first of
             None \<Rightarrow> False
           | Some first_pos \<Rightarrow>
               list_all (\<lambda>tid. case get_tank_position_info (opt_ship g) tid of
                                  None \<Rightarrow> False
                                | Some pos \<Rightarrow> pos_side pos = pos_side first_pos) others))"

definition pair_imbalance_penalty :: "genetic_optimizer \<Rightarrow> chromosome \<Rightarrow> tank \<times> tank \<Rightarrow> real" where
  "pair_imbalance_penalty g c pr =
     (case pr of (port_tank, starboard_tank) \<Rightarrow>
        (case (first_index (\<lambda>t. t = tank_id port_tank) (tank_ids g),
               first_index (\<lambda>t. t = tank_id starboard_tank) (tank_ids g)) of
           (Some port_idx, Some starboard_idx) \<Rightarrow>
              (let port_qty = snd (genes c ! port_idx);
                   starboard_qty = snd (genes c ! starboard_idx);
                   weight_diff = \<bar>port_qty - starboard_qty\<bar>;
                   avg_weight = (port_qty + starboard_qty) / 2
               in if avg_weight > 0.001 \<and> weight_diff / avg_weight > 0.1
                  then ga_symmetry_penalty_coef (opt_settings g) * (weight_diff / avg_weight) * 0.1
                  else 0)
         | _ \<Rightarrow> 0))"

definition calculate_symmetry_penalty :: "genetic_optimizer \<Rightarrow> chromosome \<Rightarrow> real" where
  "calculate_symmetry_penalty g c =
     sum_list (map (\<lambda>(cargo_id, tids).
                      if length tids \<ge> 2 \<and> all_tanks_same_side g tids
                      then ga_symmetry_penalty_coef (opt_settings g) * real (length tids) else 0)
                   (cargo_groups (genes c) (c_tank_ids c)))
     + sum_list (map (pair_imbalance_penalty g c) (get_tank_pairs (opt_ship g)))"

definition calculate_trim_penalty :: "genetic_optimizer \<Rightarrow> chromosome \<Rightarrow> real" where
  "calculate_trim_penalty g c =
     (if length (tank_ids g) = 0 then 0
      else
        (let loaded = List.map_filter (\<lambda>((cargo_id, qty), tid).
                        if cargo_id \<noteq> None \<and> qty > 0.001
                        then map_option (\<lambda>pos. (qty, real (row_number pos)))
                               (get_tank_position_info (opt_ship g) tid)
                        else None) (zip (genes c) (c_tank_ids c));
             total_weight = sum_list (map fst loaded);
             weighted_position = sum_list (map (\<lambda>(qty, row). qty * row) loaded)
         in if total_weight < 0.001 then 0
            else
              (let actual_lcg = weighted_position / total_weight;
                   deviation = \<bar>actual_lcg - ideal_lcg_position g\<bar>;
                   normalized_deviation =
                     (if opt_total_rows g > 0 then deviation / real (opt_total_rows g) else 0)
               in ga_trim_penalty_coef (opt_settings g) * normalized_deviation)))"

definition calculate_operational_penalty :: "genetic_optimizer \<Rightarrow> chromosome \<Rightarrow> real" where
  "calculate_operational_penalty g c =
     sum_list (map (\<lambda>(cargo_id, idxs).
                      if length idxs > 1
                      then ga_operational_penalty_coef (opt_settings g) * (real (length idxs) - 1) ^ 2
                      else 0)
                   (cargo_groups (genes c) [0 ..< length (genes c)]))"

definition calculate_fitness :: "genetic_optimizer \<Rightarrow> chromosome \<Rightarrow> real" where
  "calculate_fitness g c =
     sum_list (map snd (genes c))
     - calculate_symmetry_penalty g c - calculate_trim_penalty g c - calculate_operational_penalty g c"

section \<open>Selection, crossover, mutation\<close>

text \<open>The tournament: the first sampled index whose fitness is strictly greater than
  all sampled before it.\<close>

definition tournament_selection ::
  "genetic_optimizer \<Rightarrow> chromosome list \<Rightarrow> real list \<Rightarrow> rng \<Rightarrow> error + chromosome \<times> rng" where
  "tournament_selection g population fitness_scores r =
     (case sample [0 ..< length population]
             (min (ga_tournament_size (opt_settings g)) (int (length population))) r of
        Inl err \<Rightarrow> Inl err
      | Inr (tournament_indices, r') \<Rightarrow>
          (case tournament_indices of
             [] \<Rightarrow> Inl IndexError
           | i0 # others \<Rightarrow>
               (let best_idx = foldl (\<lambda>b idx. if fitness_scores ! idx > fitness_scores ! b then idx else b)
                                     i0 others
                in case chromosome_copy (population ! best_idx) of
                     Inl err \<Rightarrow> Inl err
                   | Inr c \<Rightarrow> Inr (c, r'))))"

definition two_point_crossover ::
  "genetic_optimizer \<Rightarrow> chromosome \<Rightarrow> chromosome \<Rightarrow> rng \<Rightarrow> error + (chromosome \<times> chromosome) \<times> rng" where
  "two_point_crossover g parent1 parent2 r =
     (if length (genes parent1) < 2
      then (case chromosome_copy parent1 of
              Inl err \<Rightarrow> Inl err
            | Inr c1 \<Rightarrow> (case chromosome_copy parent2 of
                           Inl err \<Rightarrow> Inl err
                         | Inr c2 \<Rightarrow> Inr ((c1, c2), r)))
      else
        (case randint 0 (int (length (genes parent1)) - 1) r of
           Inl err \<Rightarrow> Inl err
         | Inr (x1, r1) \<Rightarrow>
        (case randint 0 (int (length (genes parent1)) - 1) r1 of
           Inl err \<Rightarrow> Inl err
         | Inr (x2, r2) \<Rightarrow>
            (let point1 = nat (min x1 x2); point2 = nat (max x1 x2)
             in case Chromosome_init
                       (take point1 (genes parent1)
                        @ drop point1 (take point2 (genes parent2))
                        @ drop point2 (genes parent1)) (c_tank_ids parent1) of
                  Inl err \<Rightarrow> Inl err
                | Inr offspring1 \<Rightarrow>
             (case Chromosome_init
                       (take point1 (genes parent2)
                        @ drop point1 (take point2 (genes parent1))
                        @ drop point2 (genes parent2)) (c_tank_ids parent2) of
                  Inl err \<Rightarrow> Inl err
                | Inr offspring2 \<Rightarrow>
             (case repair_chromosome g offspring1 of
                  Inl err \<Rightarrow> Inl err
                | Inr o1 \<Rightarrow>
             (case repair_chromosome g offspring2 of
                  Inl err \<Rightarrow> Inl err
                | Inr o2 \<Rightarrow> Inr ((o1, o2), r2))))))))"

definition mutate_swap :: "chromosome \<Rightarrow> rng \<Rightarrow> error + chromosome \<times> rng" where
  "mutate_swap c r =
     (if length (genes c) < 2 then Inr (c, r)
      else (case sample [0 ..< length (genes c)] 2 r of
              Inl err \<Rightarrow> Inl err
            | Inr (idxs, r') \<Rightarrow>
                (let idx1 = idxs ! 0; idx2 = idxs ! 1
                 in Inr (c\<lparr>genes := (genes c)[idx1 := genes c ! idx2, idx2 := genes c ! idx1]\<rparr>, r'))))"

definition filled_tanks :: "chromosome \<Rightarrow> nat list" where
  "filled_tanks c =
     filter (\<lambda>i. fst (genes c ! i) \<noteq> None \<and> snd (genes c ! i) > 0.001) [0 ..< length (genes c)]"

text \<open>The target gene is read before the source gene is written, and written after it:
  when source and target are the same tank the target assignment wins.\<close>

definition mutate_transfer :: "genetic_optimizer \<Rightarrow> chromosome \<Rightarrow> rng \<Rightarrow> error + chromosome \<times> rng" where
  "mutate_transfer g c r =
     (if filled_tanks c = [] then Inr (c, r)
      else
        (case choice (filled_tanks c) r of
           Inl err \<Rightarrow> Inl err
         | Inr (source_idx, r1) \<Rightarrow>
            (case genes c ! source_idx of (source_cargo_id, source_qty) \<Rightarrow>
               if source_qty < 0.001 then Inr (c, r1)
               else
                 (case randint 0 (int (length (genes c)) - 1) r1 of
                    Inl err \<Rightarrow> Inl err
                  | Inr (t, r2) \<Rightarrow>
                     (case genes c ! nat t of (target_cargo_id, target_qty) \<Rightarrow>
                       (case volume_of g (c_tank_ids c ! nat t) of
                          Inl err \<Rightarrow> Inl err
                        | Inr target_volume \<Rightarrow>
                            (let transfer_amount = min (source_qty * 0.3) (target_volume - target_qty)
                             in if transfer_amount > 0.001
                                then
                                  (let new_source_qty = source_qty - transfer_amount;
                                       gs1 = (genes c)[source_idx :=
                                                (if new_source_qty < 0.001 then (None, 0)
                                                 else (source_cargo_id, new_source_qty))];
                                       gs2 = (if target_cargo_id = source_cargo_id
                                              then gs1[nat t := (source_cargo_id, target_qty + transfer_amount)]
                                              else if target_cargo_id = None
                                              then gs1[nat t := (source_cargo_id, transfer_amount)]
                                              else gs1)
                                   in Inr (c\<lparr>genes := gs2\<rparr>, r2))
                                else Inr (c, r2))))))))"

definition mutate_shift :: "genetic_optimizer \<Rightarrow> chromosome \<Rightarrow> rng \<Rightarrow> error + chromosome \<times> rng" where
  "mutate_shift g c r =
     (let cargo_tanks = cargo_groups (genes c) (zip [0 ..< length (genes c)] (map snd (genes c)));
          suitable_cargos = map fst (filter (\<lambda>(cargo_id, tks). length tks > 1) cargo_tanks)
      in if suitable_cargos = [] then Inr (c, r)
         else
           (case choice suitable_cargos r of
              Inl err \<Rightarrow> Inl err
            | Inr (cargo_id, r1) \<Rightarrow>
           (case choice (case map_of cargo_tanks cargo_id of None \<Rightarrow> [] | Some tks \<Rightarrow> tks) r1 of
              Inl err \<Rightarrow> Inl err
            | Inr ((source_idx, source_qty), r2) \<Rightarrow>
           (case randint 0 (int (length (genes c)) - 1) r2 of
              Inl err \<Rightarrow> Inl err
            | Inr (t, r3) \<Rightarrow>
           (case volume_of g (c_tank_ids c ! nat t) of
              Inl err \<Rightarrow> Inl err
            | Inr target_volume \<Rightarrow>
               (case genes c ! nat t of (target_cargo_id, target_qty) \<Rightarrow>
                 (let shift_amount = min (source_qty * 0.5) (target_volume - target_qty)
                  in if shift_amount > 0.001 \<and> (target_cargo_id = None \<or> target_cargo_id = Some cargo_id)
                     then
                       (let new_source_qty = source_qty - shift_amount;
                            gs1 = (genes c)[source_idx :=
                                     (if new_source_qty < 0.001 then (None, 0)
                                      else (Some cargo_id, new_source_qty))];
                            gs2 = (if target_cargo_id = Some cargo_id
                                   then gs1[nat t := (Some cargo_id, target_qty + shift_amount)]
                                   else gs1[nat t := (Some cargo_id, shift_amount)])
                        in Inr (c\<lparr>genes := gs2\<rparr>, r3))
                     else Inr (c, r3))))))))"

datatype mutation_type = Swap | Transfer | Shift

definition mutate :: "genetic_optimizer \<Rightarrow> chromosome \<Rightarrow> rng \<Rightarrow> error + chromosome \<times> rng" where
  "mutate g c r =
     (case chromosome_copy c of
        Inl err \<Rightarrow> Inl err
      | Inr mutated \<Rightarrow>
          (case choice [Swap, Transfer, Shift] r of
             Inl err \<Rightarrow> Inl err
           | Inr (mutation_type, r1) \<Rightarrow>
               (case (case mutation_type of
                        Swap \<Rightarrow> mutate_swap mutated r1
                      | Transfer \<Rightarrow> mutate_transfer g mutated r1
                      | Shift \<Rightarrow> mutate_shift g mutated r1) of
                  Inl err \<Rightarrow> Inl err
                | Inr (m, r2) \<Rightarrow>
                    (case repair_chromosome g m of
                       Inl err \<Rightarrow> Inl err
                     | Inr m' \<Rightarrow> Inr (m', r2)))))"


section \<open>The generations\<close>

text \<open>\<open>max(range(len(xs)), key=lambda i: xs[i])\<close>: the first index of a greatest
  element, \<open>ValueError\<close> on the empty range.\<close>

definition argmax_index :: "real list \<Rightarrow> error + nat" where
  "argmax_index fs =
     (if fs = [] then Inl ValueError
      else Inr (foldl (\<lambda>b i. if fs ! i > fs ! b then i else b) 0 [1 ..< length fs]))"

text \<open>\<open>xs[i]\<close> for an integer index, negative indices counting from the end.\<close>

definition py_nth :: "'a list \<Rightarrow> int \<Rightarrow> error + 'a" where
  "py_nth xs i =
     (let j = (if i < 0 then i + int (length xs) else i)
      in if 0 \<le> j \<and> j < int (length xs) then Inr (xs ! nat j) else Inl IndexError)"

text \<open>Copies of the \<open>min(elitism_count, len(population))\<close> fittest chromosomes.\<close>

fun copy_all :: "chromosome list \<Rightarrow> error + chromosome list" where
  "copy_all [] = Inr []"
| "copy_all (c # cs) =
     (case chromosome_copy c of
        Inl err \<Rightarrow> Inl err
      | Inr c' \<Rightarrow> (case copy_all cs of Inl err \<Rightarrow> Inl err | Inr cs' \<Rightarrow> Inr (c' # cs')))"

definition elites :: "genetic_optimizer \<Rightarrow> chromosome list \<Rightarrow> real list \<Rightarrow> error + chromosome list" where
  "elites g population fitness_scores =
     (if ga_use_elitism (opt_settings g)
      then (let sorted_indices = py_sorted_reverse (\<lambda>i. fitness_scores ! i) [0 ..< length population]
            in copy_all (map (\<lambda>i. population ! (sorted_indices ! i))
                  [0 ..< nat (min (ga_elitism_count (opt_settings g)) (int (length population)))]))
      else Inr [])"

text \<open>One pass of the body of \<open>while len(new_population) < self.population_size\<close> up to
  the two offspring: selection twice, crossover or copies, the two mutation draws.\<close>

definition breed ::
  "genetic_optimizer \<Rightarrow> chromosome list \<Rightarrow> real list \<Rightarrow> rng \<Rightarrow> error + (chromosome \<times> chromosome) \<times> rng" where
  "breed g population fitness_scores r =
     (case tournament_selection g population fitness_scores r of
        Inl err \<Rightarrow> Inl err
      | Inr (parent1, r1) \<Rightarrow>
     (case tournament_selection g population fitness_scores r1 of
        Inl err \<Rightarrow> Inl err
      | Inr (parent2, r2) \<Rightarrow>
     (case random_unit r2 of (u, r3) \<Rightarrow>
     (case (if u < ga_crossover_rate (opt_settings g)
            then two_point_crossover g parent1 parent2 r3
            else (case chromosome_copy parent1 of
                    Inl err \<Rightarrow> Inl err
                  | Inr c1 \<Rightarrow> (case chromosome_copy parent2 of
                                 Inl err \<Rightarrow> Inl err
                               | Inr c2 \<Rightarrow> Inr ((c1, c2), r3)))) of
        Inl err \<Rightarrow> Inl err
      | Inr ((offspring1, offspring2), r4) \<Rightarrow>
     (case random_unit r4 of (u1, r5) \<Rightarrow>
     (case (if u1 < ga_mutation_rate (opt_settings g) then mutate g offspring1 r5
            else Inr (offspring1, r5)) of
        Inl err \<Rightarrow> Inl err
      | Inr (o1, r6) \<Rightarrow>
     (case random_unit r6 of (u2, r7) \<Rightarrow>
     (case (if u2 < ga_mutation_rate (opt_settings g) then mutate g offspring2 r7
            else Inr (offspring2, r7)) of
        Inl err \<Rightarrow> Inl err
      | Inr (o2, r8) \<Rightarrow> Inr ((o1, o2), r8)))))))))"

text \<open>The \<open>while\<close> loop; the numeric argument is \<open>population_size - len(new_population)\<close>.
  The second offspring is appended only while the population is not full.\<close>

fun make_offspring ::
  "genetic_optimizer \<Rightarrow> chromosome list \<Rightarrow> real list \<Rightarrow> nat \<Rightarrow> chromosome list \<Rightarrow> rng
   \<Rightarrow> error + chromosome list \<times> rng" where
  "make_offspring g population fitness_scores 0 new_population r = Inr (new_population, r)"
| "make_offspring g population fitness_scores (Suc 0) new_population r =
     (case breed g population fitness_scores r of
        Inl err \<Rightarrow> Inl err
      | Inr ((o1, o2), r') \<Rightarrow> Inr (new_population @ [o1], r'))"
| "make_offspring g population fitness_scores (Suc (Suc k)) new_population r =
     (case breed g population fitness_scores r of
        Inl err \<Rightarrow> Inl err
      | Inr ((o1, o2), r') \<Rightarrow>
          make_offspring g population fitness_scores k (new_population @ [o1, o2]) r')"

text \<open>\<open>for generation in range(self.max_generations)\<close>. The state is the population
  with its fitness scores, the best chromosome and fitness so far, the history of best
  fitness values and the random source; the result is the best chromosome.\<close>

fun evolve ::
  "genetic_optimizer \<Rightarrow> nat \<Rightarrow> chromosome list \<Rightarrow> real list \<Rightarrow> chromosome \<Rightarrow> real \<Rightarrow> real list \<Rightarrow> rng
   \<Rightarrow> error + chromosome" where
  "evolve g 0 population fitness_scores best_chromosome best_fitness history r = Inr best_chromosome"
| "evolve g (Suc n) population fitness_scores best_chromosome best_fitness history r =
     (case elites g population fitness_scores of
        Inl err \<Rightarrow> Inl err
      | Inr new0 \<Rightarrow>
     (case make_offspring g population fitness_scores
             (nat (ga_population_size (opt_settings g) - int (length new0))) new0 r of
        Inl err \<Rightarrow> Inl err
      | Inr (new1, r') \<Rightarrow>
        (let new_population = py_slice_to new1 (ga_population_size (opt_settings g));
             fitness_scores' = map (calculate_fitness g) new_population
         in case argmax_index fitness_scores' of
              Inl err \<Rightarrow> Inl err
            | Inr current_best_idx \<Rightarrow>
                (case (if fitness_scores' ! current_best_idx > best_fitness
                       then (case chromosome_copy (new_population ! current_best_idx) of
                               Inl err \<Rightarrow> Inl err
                             | Inr c \<Rightarrow> Inr (c, fitness_scores' ! current_best_idx))
                       else Inr (best_chromosome, best_fitness)) of
                   Inl err \<Rightarrow> Inl err
                 | Inr (best_chromosome', best_fitness') \<Rightarrow>
                     (let history' = history @ [best_fitness']
                      in if int (length history') \<ge> ga_convergence_generations (opt_settings g)
                         then (case py_nth history' (- ga_convergence_generations (opt_settings g)) of
                                 Inl err \<Rightarrow> Inl err
                               | Inr old \<Rightarrow>
                                   if last history' - old < ga_convergence_threshold (opt_settings g)
                                   then Inr best_chromosome'
                                   else evolve g n new_population fitness_scores' best_chromosome'
                                          best_fitness' history' r')
                         else evolve g n new_population fitness_scores' best_chromosome'
                                best_fitness' history' r')))))"

section \<open>From the best chromosome to the plan\<close>

text \<open>\<open>cargo_map = {cargo.unique_id: cargo for cargo in self.cargo_requests}\<close>: for an id
  that occurs twice the later cargo wins.\<close>

definition cargo_map_get :: "real cargo list \<Rightarrow> string \<Rightarrow> real cargo option" where
  "cargo_map_get cargos cid = find (\<lambda>c. unique_id c = cid) (rev cargos)"

definition chromosome_to_plan :: "env \<Rightarrow> genetic_optimizer \<Rightarrow> chromosome \<Rightarrow> stowage_plan" where
  "chromosome_to_plan e g c =
     (let plan0 = StowagePlan_init e (ship_name (opt_ship g)) (ship_id (opt_ship g))
                    (opt_cargo_requests g) (''Genetik Algoritma Plan'' @ [CHR 0xC4, CHR 0xB1]);
          plan1 = foldl (\<lambda>p (tid, a). add_assignment p tid a) plan0 (mandatory_assignments g)
      in foldl (\<lambda>p ((cargo_id, qty), tid).
                  case cargo_id of
                    None \<Rightarrow> p
                  | Some cid \<Rightarrow>
                      if qty > 0.001
                      then (if tid \<in> set (map fst (mandatory_assignments g)) then p
                            else (case cargo_map_get (opt_cargo_requests g) cid of
                                    None \<Rightarrow> p
                                  | Some cargo \<Rightarrow>
                                      add_assignment p tid
                                        \<lparr>a_tank_id = tid, a_cargo = cargo, quantity_loaded = qty\<rparr>))
                      else p)
               plan1 (zip (genes c) (c_tank_ids c)))"

text \<open>The inner loop of the post-fill over the empty tanks sorted by volume.\<close>

fun fill_tanks ::
  "real \<Rightarrow> real cargo \<Rightarrow> tank list \<Rightarrow> stowage_plan \<Rightarrow> real \<Rightarrow> error + stowage_plan" where
  "fill_tanks min_util cargo [] p remaining_qty = Inr p"
| "fill_tanks min_util cargo (t # rest) p remaining_qty =
     (if remaining_qty < 0.001 then Inr p
      else (let qty_to_place = min remaining_qty (volume t)
            in if volume t = 0 then Inl ZeroDivisionError
               else if qty_to_place / volume t < min_util
               then fill_tanks min_util cargo rest p remaining_qty
               else fill_tanks min_util cargo rest
                      (add_assignment p (tank_id t)
                         \<lparr>a_tank_id = tank_id t, a_cargo = cargo, quantity_loaded = qty_to_place\<rparr>)
                      (remaining_qty - qty_to_place)))"

text \<open>The outer loop over the remaining cargoes, most needed first.\<close>

fun fill_cargos ::
  "real \<Rightarrow> tank list \<Rightarrow> (real cargo \<times> real) list \<Rightarrow> stowage_plan \<Rightarrow> error + stowage_plan" where
  "fill_cargos min_util empty_tanks [] p = Inr p"
| "fill_cargos min_util empty_tanks ((cargo, remaining_qty) # rest) p =
     (if remaining_qty < 0.001 then fill_cargos min_util empty_tanks rest p
      else (let available_empty_tanks = filter (\<lambda>t. get_assignment p (tank_id t) = None) empty_tanks
            in if available_empty_tanks = [] then Inr p
               else (case fill_tanks min_util cargo (py_sorted volume available_empty_tanks) p remaining_qty of
                       Inl err \<Rightarrow> Inl err
                     | Inr p' \<Rightarrow> fill_cargos min_util empty_tanks rest p')))"

definition fill_empty_tanks_with_remaining_cargo ::
  "genetic_optimizer \<Rightarrow> stowage_plan \<Rightarrow> settings \<Rightarrow> error + stowage_plan" where
  "fill_empty_tanks_with_remaining_cargo g p st =
     (let empty_tanks = filter (\<lambda>t. tank_id t \<notin> opt_excluded_tanks g \<and> get_assignment p (tank_id t) = None)
                          (available_tanks g)
      in if empty_tanks = [] then Inr p
         else
           (let remaining_cargos =
                  List.map_filter (\<lambda>cargo.
                     let remaining = quantity cargo - get_cargo_total_loaded p (unique_id cargo)
                     in if remaining > 0.001 then Some (cargo, remaining) else None) (regular_cargos g)
            in if remaining_cargos = [] then Inr p
               else fill_cargos (min_utilization st) empty_tanks
                      (py_sorted_reverse snd remaining_cargos) p))"

section \<open>GeneticOptimizer.optimize\<close>

text \<open>\<open>self.tank_volumes\<close> after the mandatory placement: every key that is also a key of
  \<open>available_tanks\<close> takes the remaining capacity.\<close>

definition update_tank_volumes :: "avail \<Rightarrow> (string \<times> real) list \<Rightarrow> (string \<times> real) list" where
  "update_tank_volumes av tv =
     foldl (\<lambda>d (tid, remaining_capacity).
              if tid \<in> set (map fst d) then AList.update tid remaining_capacity d else d) tv av"

definition GeneticOptimizer_optimize :: "env \<Rightarrow> rng \<Rightarrow> genetic_optimizer \<Rightarrow> error + stowage_plan" where
  "GeneticOptimizer_optimize e r g0 =
     (let av0 = foldl (\<lambda>d t. AList.update (tank_id t) (volume t) d) [] (available_tanks g0)
      in case (if mandatory_cargos g0 \<noteq> [] then place_mandatory_cargos g0 av0 (opt_settings g0)
               else Inr (g0, av0)) of
           Inl err \<Rightarrow> Inl err
         | Inr (g1, av) \<Rightarrow>
             (let g = g1\<lparr>tank_volumes := update_tank_volumes av (tank_volumes g1)\<rparr>
              in if regular_cargos g = []
                 then Inr (foldl (\<lambda>p (tid, a). add_assignment p tid a)
                             (StowagePlan_init e (ship_name (opt_ship g)) (ship_id (opt_ship g))
                                (opt_cargo_requests g)
                                (''Genetik Algoritma Plan'' @ [CHR 0xC4, CHR 0xB1]))
                             (mandatory_assignments g))
                 else
                   (case create_initial_population g r of
                      Inl err \<Rightarrow> Inl err
                    | Inr (population, r1) \<Rightarrow>
                        (let fitness_scores = map (calculate_fitness g) population
                         in case argmax_index fitness_scores of
                              Inl err \<Rightarrow> Inl err
                            | Inr best_idx \<Rightarrow>
                                (case chromosome_copy (population ! best_idx) of
                                   Inl err \<Rightarrow> Inl err
                                 | Inr best_chromosome \<Rightarrow>
                                     (case evolve g (nat (ga_max_generations (opt_settings g)))
                                             population fitness_scores best_chromosome
                                             (fitness_scores ! best_idx)
                                             [fitness_scores ! best_idx] r1 of
                                        Inl err \<Rightarrow> Inl err
                                      | Inr best \<Rightarrow>
                                          fill_empty_tanks_with_remaining_cargo g
                                            (chromosome_to_plan e g best) (opt_settings g)))))))"

section \<open>Predicates of the proofs\<close>

text \<open>\<open>fits\<close>: the quantity is strictly positive and at most the volume of the tank that
  \<open>ship.get_tank_by_id\<close> finds for the id. \<open>entry_ok\<close>: an assignment on an admissible
  tank id which, when the minimum utilisation is positive, fits its tank. \<open>state_ok\<close>: the
  invariant of a solver state (plan and available volumes). \<open>cand_ok\<close>: what the search
  of a phase guarantees for each tank of the combination it returns.\<close>

definition fits :: "ship \<Rightarrow> string \<Rightarrow> real \<Rightarrow> bool" where
  "fits s tid q = (case get_tank_by_id s tid of None \<Rightarrow> False | Some t \<Rightarrow> 0 < q \<and> q \<le> volume t)"

definition entry_ok :: "real \<Rightarrow> ship \<Rightarrow> string set \<Rightarrow> string \<times> real \<Rightarrow> bool" where
  "entry_ok mu s A x = (fst x \<in> A \<and> (0 < mu \<longrightarrow> fits s (fst x) (snd x)))"

definition state_ok :: "real \<Rightarrow> ship \<Rightarrow> string set \<Rightarrow> stowage_plan \<times> avail \<Rightarrow> bool" where
  "state_ok mu s A st =
     (set (map fst (snd st)) \<subseteq> A
      \<and> (\<forall>x \<in> set (assignments (fst st)). entry_ok mu s A (fst x, quantity_loaded (snd x))))"

definition cand_ok :: "real \<Rightarrow> ship \<Rightarrow> stowage_plan \<Rightarrow> avail \<Rightarrow> string \<times> real \<Rightarrow> bool" where
  "cand_ok mu s p av x =
     (fst x \<in> set (map fst av)
      \<and> (0 < mu \<longrightarrow> 0 < snd x \<and> snd x \<le> get_tank_available_capacity (fst x) p av s))"

text \<open>
  For the genetic solver. \<open>res_ok\<close>: a property of the value of a computation that may
  raise. \<open>gene_ok\<close>: a loaded gene holds at most the volume \<open>tank_volumes\<close> records for its
  tank; \<open>wfc\<close>: a chromosome over the tank ids of the optimiser whose genes are all
  \<open>gene_ok\<close>. \<open>alist_ok\<close>: \<open>entry_ok\<close> for a dictionary of assignments. \<open>vol_le\<close>: every
  recorded volume is at most the volume of the tank the ship finds for the id.
  \<open>ship_ok\<close>: when the invariant is the strong one, tank ids are distinct and volumes
  positive. \<open>minv\<close>: the invariant of the mandatory placer.
\<close>

definition res_ok :: "('a \<Rightarrow> bool) \<Rightarrow> error + 'a \<Rightarrow> bool" where
  "res_ok P x = (case x of Inl err \<Rightarrow> True | Inr v \<Rightarrow> P v)"

definition gene_ok :: "genetic_optimizer \<Rightarrow> gene \<Rightarrow> string \<Rightarrow> bool" where
  "gene_ok g x tid =
     (fst x \<noteq> None \<and> 0 < snd x
      \<longrightarrow> (case map_of (tank_volumes g) tid of None \<Rightarrow> False | Some v \<Rightarrow> snd x \<le> v))"

definition wfc :: "genetic_optimizer \<Rightarrow> chromosome \<Rightarrow> bool" where
  "wfc g c = (c_tank_ids c = tank_ids g \<and> list_all2 (gene_ok g) (genes c) (c_tank_ids c))"

definition alist_ok :: "real \<Rightarrow> ship \<Rightarrow> string set \<Rightarrow> (string \<times> tank_assignment) list \<Rightarrow> bool" where
  "alist_ok mu s A ma = (\<forall>x \<in> set ma. entry_ok mu s A (fst x, quantity_loaded (snd x)))"

definition vol_le :: "ship \<Rightarrow> avail \<Rightarrow> bool" where
  "vol_le s av =
     (\<forall>x \<in> set av. case get_tank_by_id s (fst x) of None \<Rightarrow> False | Some t \<Rightarrow> snd x \<le> volume t)"

definition ship_ok :: "real \<Rightarrow> ship \<Rightarrow> bool" where
  "ship_ok mu s = (0 < mu \<longrightarrow> distinct (map tank_id (tanks s)) \<and> (\<forall>t \<in> set (tanks s). 0 < volume t))"

definition minv :: "real \<Rightarrow> ship \<Rightarrow> string set \<Rightarrow> (string \<times> tank_assignment) list \<times> avail \<Rightarrow> bool" where
  "minv mu s A st =
     (fst ` set (snd st) \<subseteq> A \<and> alist_ok mu s A (fst st) \<and> (0 < mu \<longrightarrow> vol_le s (snd st)))"

section \<open>Concrete inputs\<close>

definition tank_of :: "string \<Rightarrow> real \<Rightarrow> tank" where
  "tank_of i v = \<lparr>tank_id = i, tank_name = i, volume = v\<rparr>"

definition cargo_of :: "string \<Rightarrow> real \<Rightarrow> bool \<Rightarrow> real cargo" where
  "cargo_of i q m =
     \<lparr>cargo_type = i, quantity = q, receivers = [], unique_id = i, is_mandatory = m,
      ton = None, density = None\<rparr>"

definition ship_of :: "tank list \<Rightarrow> ship" where
  "ship_of ts = \<lparr>ship_name = ''ship'', tanks = ts, ship_id = ''ship-1''\<rparr>"

definition env0 :: env where
  "env0 = \<lparr>uuid4 = ''00000000-0000-4000-8000-000000000000'', now = ''20260101_000000''\<rparr>"

definition env1 :: env where
  "env1 = \<lparr>uuid4 = ''11111111-1111-4111-8111-111111111111'', now = ''20260101_000001''\<rparr>"

text \<open>The assignments of a plan as (tank id, cargo id, quantity loaded).\<close>

definition loads :: "stowage_plan \<Rightarrow> (string \<times> string \<times> real) list" where
  "loads p = map (\<lambda>(tid, a). (tid, unique_id (a_cargo a), quantity_loaded a)) (assignments p)"

text \<open>A four-row ship whose two aft rows are the large ones.\<close>

definition ship_four_rows :: ship where
  "ship_four_rows =
     ship_of [tank_of ''1P'' 100, tank_of ''1S'' 100, tank_of ''2P'' 100, tank_of ''2S'' 100,
              tank_of ''3P'' 500, tank_of ''3S'' 500, tank_of ''4P'' 500, tank_of ''4S'' 500]"

definition ship_96 :: ship where
  "ship_96 = ship_of [tank_of ''A'' 96, tank_of ''B'' 10, tank_of ''C'' 50, tank_of ''D'' 50]"

definition ship_retry :: ship where
  "ship_retry = ship_of [tank_of ''T1'' 100, tank_of ''T2'' 10, tank_of ''T3'' 50, tank_of ''T4'' 50]"

definition ship_two :: ship where
  "ship_two = ship_of [tank_of ''T1'' 100, tank_of ''T2'' 100]"

definition plan_after_phase1 :: stowage_plan where
  "plan_after_phase1 =
     add_assignment (StowagePlan_init env0 ''ship'' ''ship-1''
                       [cargo_of ''A'' 96 False, cargo_of ''B'' 200 False] ''Yeni Plan'')
       ''T1'' \<lparr>a_tank_id = ''T1'', a_cargo = cargo_of ''A'' 96 False, quantity_loaded = 96\<rparr>"

section \<open>Lemmas: dictionaries and plans\<close>

lemma receivers_from_dicts_Inl:
  "receivers_from_dicts l = Inl err \<Longrightarrow> err = KeyError \<and> (\<exists>r \<in> set l. d_name r = Absent)"
proof (induction l)
  case Nil
  then show ?case by simp
next
  case (Cons r l)
  show ?case
  proof (cases "d_name r")
    case Absent
    with Cons.prems show ?thesis
      by (simp add: Receiver_from_dict_def dict_item_def)
  next
    case Null
    with Cons show ?thesis
      by (auto simp: Receiver_from_dict_def dict_item_def split: sum.splits)
  next
    case (Val n)
    with Cons show ?thesis
      by (auto simp: Receiver_from_dict_def dict_item_def split: sum.splits)
  qed
qed

lemma receivers_round_trip: "receivers_from_dicts (map Receiver_to_dict rs) = Inr rs"
proof (induction rs)
  case Nil
  then show ?case by simp
next
  case (Cons r rs)
  have "Receiver_from_dict (Receiver_to_dict r) = Inr r"
    by (cases "receiver_name r")
       (simp_all add: Receiver_from_dict_def Receiver_to_dict_def dict_item_def json_of_def)
  with Cons show ?case by simp
qed

lemma sum_filter_update:
  fixes f :: "('k \<times> 'v) \<Rightarrow> real"
  assumes "distinct (map fst al)" "map_of al k = Some old"
  shows "sum_list (map f (filter P (AList.update k v al)))
         = sum_list (map f (filter P al)) - (if P (k, old) then f (k, old) else 0)
           + (if P (k, v) then f (k, v) else 0)"
  using assms
proof (induction al)
  case Nil
  then show ?case by simp
next
  case (Cons x al)
  obtain k' v' where x: "x = (k', v')" by (cases x)
  show ?case
  proof (cases "k' = k")
    case True
    with Cons.prems x have "v' = old" by simp
    with True x show ?thesis by simp
  next
    case False
    with Cons x show ?thesis by simp
  qed
qed

lemma set_update_subset: "set (AList.update k v al) \<subseteq> insert (k, v) (set al)"
  by (induction al) auto

lemma keys_avail_sub: "fst ` set (avail_sub av tid q) = fst ` set av"
proof (cases "map_of av tid")
  case None
  then show ?thesis by (simp add: avail_sub_def)
next
  case (Some v)
  then have "(tid, v) \<in> set av" by (rule map_of_SomeD)
  then have "tid \<in> fst ` set av" by force
  with Some show ?thesis by (auto simp: avail_sub_def dom_update)
qed

lemma state_ok_add:
  assumes "state_ok mu s A (p, av)" "entry_ok mu s A (tid, q)" "fst ` set av' \<subseteq> A"
  shows "state_ok mu s A (add_assignment p tid \<lparr>a_tank_id = tid, a_cargo = c, quantity_loaded = q\<rparr>, av')"
  using assms set_update_subset [of tid "\<lparr>a_tank_id = tid, a_cargo = c, quantity_loaded = q\<rparr>" "assignments p"]
  by (auto simp: state_ok_def add_assignment_def)

lemma state_ok_place:
  assumes "state_ok mu s A st" "entry_ok mu s A x"
  shows "state_ok mu s A (place c st x)"
proof -
  obtain p av where st: "st = (p, av)" by (cases st)
  obtain tid q where x: "x = (tid, q)" by (cases x)
  from assms(1) st have "fst ` set (avail_sub av tid q) \<subseteq> A"
    by (simp add: keys_avail_sub state_ok_def)
  with assms st x show ?thesis
    by (simp add: place_def state_ok_add)
qed

lemma state_ok_place_all:
  "state_ok mu s A st \<Longrightarrow> \<forall>x \<in> set xs. entry_ok mu s A x \<Longrightarrow> state_ok mu s A (place_all c st xs)"
  unfolding place_all_def
  by (induction xs arbitrary: st) (simp_all add: state_ok_place)

lemma cand_entry_ok:
  assumes ok: "state_ok mu s A (p, av)" and c: "cand_ok mu s p av x"
  shows "entry_ok mu s A x"
proof -
  obtain tid q where x: "x = (tid, q)" by (cases x)
  from ok c x have inA: "tid \<in> A" by (auto simp: state_ok_def cand_ok_def)
  have "fits s tid q" if mu: "0 < mu"
  proof -
    from c x mu have q: "0 < q" "q \<le> get_tank_available_capacity tid p av s"
      by (simp_all add: cand_ok_def)
    show ?thesis
    proof (cases "get_tank_by_id s tid")
      case None
      with q show ?thesis by (simp add: get_tank_available_capacity_def)
    next
      case (Some t)
      show ?thesis
      proof (cases "get_assignment p tid")
        case None
        with Some q show ?thesis by (simp add: get_tank_available_capacity_def fits_def)
      next
        case (Some ea)
        then have "(tid, ea) \<in> set (assignments p)"
          by (simp add: get_assignment_def map_of_SomeD)
        with ok mu have "fits s tid (quantity_loaded ea)"
          by (force simp: state_ok_def entry_ok_def)
        with \<open>get_tank_by_id s tid = Some t\<close> have "0 < quantity_loaded ea" by (simp add: fits_def)
        with Some \<open>get_tank_by_id s tid = Some t\<close> q show ?thesis
          by (simp add: get_tank_available_capacity_def fits_def)
      qed
    qed
  qed
  with inA x show ?thesis by (simp add: entry_ok_def)
qed

lemma select_best_cases:
  "select_best cs b = Some r \<Longrightarrow> r \<in> set cs \<or> b = Some r"
  by (induction cs arbitrary: b) (auto split: option.splits if_splits)

lemma select_best_mem: "select_best cs None = Some r \<Longrightarrow> r \<in> set cs"
  using select_best_cases by fastforce

lemma set_map_filter: "set (List.map_filter f xs) = {y. \<exists>x \<in> set xs. f x = Some y}"
  by (induction xs) (auto simp: List.map_filter_simps split: option.splits)

lemma check_min_utilization_pos:
  assumes "check_min_utilization q v mu" "0 < mu"
  shows "0 < q"
proof -
  from assms(1) have v: "0 < v" and "mu \<le> q / v"
    by (auto simp: check_min_utilization_def split: if_splits)
  with assms(2) have "0 < q / v" by linarith
  with v show ?thesis by (simp add: zero_less_divide_iff)
qed

lemma min3_le: "min (x::real) (min a v) \<le> a"
  by simp

lemma split_pair_le:
  assumes "split_pair q a1 v1 a2 v2 = (q1, q2)"
  shows "q1 \<le> a1 \<and> q2 \<le> a2"
proof -
  from assms obtain x y where "q1 = min x (min a1 v1)" "q2 = min y (min a2 v2)"
    unfolding split_pair_def Let_def by blast
  then show ?thesis by (simp add: min3_le)
qed

lemma foldl_state_ok:
  assumes "\<And>st c. state_ok mu s A st \<Longrightarrow> state_ok mu s A (f st c)"
  shows "state_ok mu s A st \<Longrightarrow> state_ok mu s A (foldl f st cs)"
  by (induction cs arbitrary: st) (simp_all add: assms)

lemma step_from_candidates:
  assumes ok: "state_ok mu s A st"
    and cands: "\<And>d xs. best = Some (d, xs) \<Longrightarrow> \<forall>x \<in> set xs. cand_ok mu s (fst st) (snd st) x"
  shows "state_ok mu s A (case best of None \<Rightarrow> st | Some (d, xs) \<Rightarrow> place_all c st xs)"
proof (cases best)
  case None
  with ok show ?thesis by simp
next
  case (Some r)
  obtain d xs where r: "r = (d, xs)" by (cases r)
  from ok have ok': "state_ok mu s A (fst st, snd st)" by simp
  from cands Some r have "\<forall>x \<in> set xs. cand_ok mu s (fst st) (snd st) x" by simp
  with ok' have "\<forall>x \<in> set xs. entry_ok mu s A x" using cand_entry_ok by blast
  with ok Some r show ?thesis by (simp add: state_ok_place_all)
qed


lemma keys_subset_A: "state_ok mu s A st \<Longrightarrow> tid \<in> fst ` set (snd st) \<Longrightarrow> tid \<in> A"
  by (auto simp: state_ok_def)

lemma faz1_candidates_keys:
  "(d, tid) \<in> set (faz1_candidates s av q tol mu) \<Longrightarrow> tid \<in> fst ` set av"
  by (force simp: faz1_candidates_def set_map_filter split: if_splits option.splits)

lemma faz1_place_ok:
  assumes ok: "state_ok mu s A st" and key: "tid \<in> fst ` set (snd st)"
  shows "state_ok mu s A (faz1_place s c st tid)"
proof -
  obtain p av where st: "st = (p, av)" by (cases st)
  from ok key have inA: "tid \<in> A" by (rule keys_subset_A)
  from ok st have keys: "fst ` set av \<subseteq> A" by (simp add: state_ok_def)
  show ?thesis
  proof (cases "get_tank_by_id s tid")
    case None
    with ok st show ?thesis by (simp add: faz1_place_def)
  next
    case (Some t)
    define qty0 where "qty0 = min (quantity c) (min (get_tank_available_capacity tid p av s) (volume t))"
    define qty where "qty = (case get_assignment p tid of None \<Rightarrow> qty0
        | Some existing \<Rightarrow> if quantity_loaded existing + qty0 > volume t
                         then max 0 (volume t - quantity_loaded existing) else qty0)"
    define av1 where "av1 = avail_sub av tid qty"
    define av2 where "av2 = (case map_of av1 tid of None \<Rightarrow> av1
        | Some v \<Rightarrow> if v < 0.001 then AList.update tid 0 av1 else av1)"
    have eq: "faz1_place s c st tid =
      (if qty > 0.001
       then (add_assignment p tid \<lparr>a_tank_id = tid, a_cargo = c, quantity_loaded = qty\<rparr>, av2)
       else (p, av))"
      unfolding faz1_place_def Let_def qty0_def qty_def av1_def av2_def st
      by (simp add: Some)
    have k1: "fst ` set av1 = fst ` set av" by (simp add: av1_def keys_avail_sub)
    have "fst ` set av2 \<subseteq> insert tid (fst ` set av1)"
      by (auto simp: av2_def dom_update split: option.splits if_splits)
    moreover from key st have "tid \<in> fst ` set av" by simp
    ultimately have "fst ` set av2 \<subseteq> fst ` set av" using k1 by blast
    then have k2: "fst ` set av2 \<subseteq> A" using keys by (rule subset_trans)
    have q0: "qty0 \<le> volume t" by (simp add: qty0_def)
    have fit: "fits s tid qty" if mu: "0 < mu" and pos: "qty > 0.001"
    proof (cases "get_assignment p tid")
      case None
      with q0 pos Some show ?thesis by (simp add: qty_def fits_def)
    next
      case (Some ea)
      then have "(tid, ea) \<in> set (assignments p)"
        by (simp add: get_assignment_def map_of_SomeD)
      with ok st mu have "fits s tid (quantity_loaded ea)"
        by (force simp: state_ok_def entry_ok_def)
      with \<open>get_tank_by_id s tid = Some t\<close> have "0 < quantity_loaded ea" by (simp add: fits_def)
      with Some q0 pos have "qty \<le> volume t" by (simp add: qty_def split: if_splits)
      with pos \<open>get_tank_by_id s tid = Some t\<close> show ?thesis by (simp add: fits_def)
    qed
    show ?thesis
    proof (cases "qty > 0.001")
      case True
      with fit inA have "entry_ok mu s A (tid, qty)" by (simp add: entry_ok_def)
      with ok st k2 True eq show ?thesis by (simp add: state_ok_add)
    next
      case False
      with ok st eq show ?thesis by simp
    qed
  qed
qed

lemma faz1_step_ok:
  assumes "state_ok mu s A st"
  shows "state_ok mu s A (faz1_step s tol mu' st c)"
proof (cases "select_best (faz1_candidates s (snd st) (quantity c) tol mu') None")
  case None
  with assms show ?thesis by (simp add: faz1_step_def)
next
  case (Some r)
  obtain d tid where r: "r = (d, tid)" by (cases r)
  from Some r have "(d, tid) \<in> set (faz1_candidates s (snd st) (quantity c) tol mu')"
    by (simp add: select_best_mem)
  then have "tid \<in> fst ` set (snd st)" by (rule faz1_candidates_keys)
  with assms Some r show ?thesis by (simp add: faz1_step_def faz1_place_ok)
qed

lemma faz1_single_tank_ok:
  "state_ok mu s A (p, av) \<Longrightarrow> state_ok mu s A (faz1_single_tank p cargos av s st ov)"
  unfolding faz1_single_tank_def by (rule foldl_state_ok) (rule faz1_step_ok)

lemma pair_candidate_ok:
  assumes c: "pair_candidate s p av q tol mu (id1, t1) (id2, t2) = Some (d, xs)"
    and k: "id1 \<in> fst ` set av" "id2 \<in> fst ` set av"
  shows "\<forall>x \<in> set xs. cand_ok mu s p av x"
proof -
  obtain q1 q2 where sp: "split_pair q (get_tank_available_capacity id1 p av s) (volume t1)
        (get_tank_available_capacity id2 p av s) (volume t2) = (q1, q2)"
    by (cases "split_pair q (get_tank_available_capacity id1 p av s) (volume t1)
        (get_tank_available_capacity id2 p av s) (volume t2)")
  from c sp have xs: "xs = [(id1, q1), (id2, q2)]"
    and u: "check_min_utilization q1 (volume t1) mu" "check_min_utilization q2 (volume t2) mu"
    by (auto simp: pair_candidate_def Let_def split: option.splits if_splits)
  from sp have le: "q1 \<le> get_tank_available_capacity id1 p av s"
      "q2 \<le> get_tank_available_capacity id2 p av s"
    using split_pair_le by blast+
  from u have "0 < mu \<Longrightarrow> 0 < q1" "0 < mu \<Longrightarrow> 0 < q2"
    using check_min_utilization_pos by blast+
  with xs le k show ?thesis by (simp add: cand_ok_def)
qed

lemma pairs_lt_set: "(x, y) \<in> set (pairs_lt xs) \<Longrightarrow> x \<in> set xs \<and> y \<in> set xs"
  by (induction xs) auto

lemma triples_lt_set: "(x, y, z) \<in> set (triples_lt xs) \<Longrightarrow> x \<in> set xs \<and> y \<in> set xs \<and> z \<in> set xs"
  by (induction xs) (auto dest: pairs_lt_set)

lemma faz2a_candidates_ok:
  assumes "(d, xs) \<in> set (faz2a_candidates s p av q tol mu)"
  shows "\<forall>x \<in> set xs. cand_ok mu s p av x"
proof -
  from assms obtain pt st where
    "(if tank_id pt \<notin> set (map fst av) \<or> tank_id st \<notin> set (map fst av) then None
      else pair_candidate s p av q tol mu (tank_id pt, pt) (tank_id st, st)) = Some (d, xs)"
    by (auto simp: faz2a_candidates_def set_map_filter)
  then have "pair_candidate s p av q tol mu (tank_id pt, pt) (tank_id st, st) = Some (d, xs)"
    and "tank_id pt \<in> fst ` set av" "tank_id st \<in> fst ` set av"
    by (auto split: if_splits)
  then show ?thesis by (rule pair_candidate_ok)
qed

lemma faz2b_candidates_ok:
  assumes "(d, xs) \<in> set (faz2b_candidates s p av q tol mu)"
  shows "\<forall>x \<in> set xs. cand_ok mu s p av x"
proof -
  from assms obtain id1 id2 where
    "(if id1 \<notin> set (map fst av) \<or> id2 \<notin> set (map fst av) then None
      else (case get_tank_by_id s id1 of None \<Rightarrow> None
            | Some tank1 \<Rightarrow> (case get_tank_by_id s id2 of None \<Rightarrow> None
                | Some tank2 \<Rightarrow> pair_candidate s p av q tol mu (id1, tank1) (id2, tank2))))
     = Some (d, xs)"
    unfolding faz2b_candidates_def set_map_filter by fast
  then obtain t1 t2 where "pair_candidate s p av q tol mu (id1, t1) (id2, t2) = Some (d, xs)"
    and "id1 \<in> fst ` set av" "id2 \<in> fst ` set av"
    by (auto split: if_splits option.splits)
  then show ?thesis by (rule pair_candidate_ok)
qed

lemma faz2c_candidates_ok:
  assumes "(d, xs) \<in> set (faz2c_candidates s p av q tol mu)"
  shows "\<forall>x \<in> set xs. cand_ok mu s p av x"
proof -
  from assms obtain id1 tk1 id2 tk2 where
    mem: "((id1, tk1), (id2, tk2)) \<in> set (pairs_lt (map (\<lambda>tid. (tid, get_tank_by_id s tid)) (map fst av)))"
    and c: "(case tk1 of None \<Rightarrow> None | Some t1 \<Rightarrow>
        (case get_tank_position_info s id1 of None \<Rightarrow> None | Some pos1 \<Rightarrow>
        (case tk2 of None \<Rightarrow> None | Some t2 \<Rightarrow>
        (case get_tank_position_info s id2 of None \<Rightarrow> None | Some pos2 \<Rightarrow>
           if pos_side pos2 \<noteq> pos_side pos1 then None
           else pair_candidate s p av q tol mu (id1, t1) (id2, t2))))) = Some (d, xs)"
    unfolding faz2c_candidates_def set_map_filter by fast
  from mem have "id1 \<in> fst ` set av" "id2 \<in> fst ` set av"
    by (auto dest!: pairs_lt_set)
  moreover from c obtain t1 t2 where "pair_candidate s p av q tol mu (id1, t1) (id2, t2) = Some (d, xs)"
    by (auto split: if_splits option.splits)
  ultimately show ?thesis using pair_candidate_ok by blast
qed

lemma faz2_best_ok:
  assumes "faz2_best s p av q tol atol mu = Some (d, xs)"
  shows "\<forall>x \<in> set xs. cand_ok mu s p av x"
proof -
  from assms have "(d, xs) \<in> set (faz2a_candidates s p av q tol mu)
      \<or> (d, xs) \<in> set (faz2b_candidates s p av q tol mu)
      \<or> (d, xs) \<in> set (faz2c_candidates s p av q atol mu)"
    by (auto simp: faz2_best_def split: option.splits dest: select_best_mem)
  then show ?thesis
  proof (elim disjE)
    assume "(d, xs) \<in> set (faz2a_candidates s p av q tol mu)"
    then show ?thesis by (rule faz2a_candidates_ok)
  next
    assume "(d, xs) \<in> set (faz2b_candidates s p av q tol mu)"
    then show ?thesis by (rule faz2b_candidates_ok)
  next
    assume "(d, xs) \<in> set (faz2c_candidates s p av q atol mu)"
    then show ?thesis by (rule faz2c_candidates_ok)
  qed
qed

lemma faz2_step_ok:
  assumes "state_ok mu s A st"
  shows "state_ok mu s A (faz2_step s tol atol mu st c)"
  unfolding faz2_step_def
  by (rule step_from_candidates [OF assms]) (rule faz2_best_ok)

lemma faz2_two_tank_ok:
  "state_ok (min_utilization st) s A (p, av) \<Longrightarrow> state_ok (min_utilization st) s A (faz2_two_tank p cargos av s st ov)"
  unfolding faz2_two_tank_def Let_def by (rule foldl_state_ok) (rule faz2_step_ok)


lemma cand_okI:
  "tid \<in> fst ` set av \<Longrightarrow> q \<le> get_tank_available_capacity tid p av s
   \<Longrightarrow> check_min_utilization q v mu \<Longrightarrow> cand_ok mu s p av (tid, q)"
  by (auto simp: cand_ok_def dest: check_min_utilization_pos)

lemma split_three_le:
  assumes "split_three q (a1, v1) (a2, v2) (a3, v3) = (q1, q2, q3)"
  shows "q1 \<le> a1 \<and> q2 \<le> a2 \<and> q3 \<le> a3"
proof -
  from assms obtain x y z where
    "q1 = min x (min a1 v1)" "q2 = min y (min a2 v2)" "q3 = min z (min a3 v3)"
    unfolding split_three_def Let_def prod.case by blast
  then show ?thesis by (simp add: min3_le)
qed

lemma split_triplet5_le:
  assumes "split_triplet5 q (a1, v1) (a2, v2) (a3, v3) = (q1, q2, q3)"
  shows "q1 \<le> a1 \<and> q2 \<le> a2 \<and> q3 \<le> a3"
proof -
  from assms obtain x y z where
    "q1 = min x (min a1 v1)" "q2 = min y (min a2 v2)" "q3 = min z (min a3 v3)"
    unfolding split_triplet5_def Let_def prod.case
    by (auto split: prod.splits)
  then show ?thesis by (simp add: min3_le)
qed

lemma faz3_candidate_ok:
  assumes c: "faz3_candidate s p av q tol mu ((id1, tk1), (id2, tk2), (id3, tk3)) = Some (d, xs)"
    and k: "id1 \<in> fst ` set av" "id2 \<in> fst ` set av" "id3 \<in> fst ` set av"
  shows "\<forall>x \<in> set xs. cand_ok mu s p av x"
proof -
  from c obtain t1 t2 t3 where t: "tk1 = Some t1" "tk2 = Some t2" "tk3 = Some t3"
    by (auto simp: faz3_candidate_def split: option.splits)
  obtain q1 q2 q3 where sp: "split_three q (get_tank_available_capacity id1 p av s, volume t1)
      (get_tank_available_capacity id2 p av s, volume t2)
      (get_tank_available_capacity id3 p av s, volume t3) = (q1, q2, q3)"
    using prod_cases3 by blast
  from c t sp have xs: "xs = [(id1, q1), (id2, q2), (id3, q3)]"
    and u: "check_min_utilization q1 (volume t1) mu" "check_min_utilization q2 (volume t2) mu"
       "check_min_utilization q3 (volume t3) mu"
    by (auto simp: faz3_candidate_def Let_def split: option.splits if_splits)
  from split_three_le [OF sp] k u xs show ?thesis
    by (simp add: cand_okI)
qed

lemma faz3_candidates_ok:
  assumes "(d, xs) \<in> set (faz3_candidates s p av q tol mu)"
  shows "\<forall>x \<in> set xs. cand_ok mu s p av x"
proof -
  from assms obtain x where
    mem: "x \<in> set (triples_lt (map (\<lambda>tid. (tid, get_tank_by_id s tid)) (map fst av)))"
    and c: "faz3_candidate s p av q tol mu x = Some (d, xs)"
    unfolding faz3_candidates_def set_map_filter by fast
  obtain id1 tk1 id2 tk2 id3 tk3 where x: "x = ((id1, tk1), (id2, tk2), (id3, tk3))"
    by (metis prod.collapse)
  from mem x have "id1 \<in> fst ` set av" "id2 \<in> fst ` set av" "id3 \<in> fst ` set av"
    by (auto dest!: triples_lt_set)
  with c x show ?thesis using faz3_candidate_ok by blast
qed

lemma faz3_step_ok:
  assumes "state_ok mu s A st"
  shows "state_ok mu s A (faz3_step s tol mu st c)"
  unfolding faz3_step_def
  by (rule step_from_candidates [OF assms]) (auto dest!: select_best_mem faz3_candidates_ok)

lemma faz3_three_tank_ok:
  "state_ok (min_utilization st) s A (p, av) \<Longrightarrow> state_ok (min_utilization st) s A (faz3_three_tank p cargos av s st ov)"
  unfolding faz3_three_tank_def by (rule foldl_state_ok) (rule faz3_step_ok)

lemma faz4_candidate_ok:
  assumes c: "faz4_candidate s p av q tol mu ((p1, s1), (p2, s2)) = Some (d, xs)"
  shows "\<forall>x \<in> set xs. cand_ok mu s p av x"
proof -
  from c have k: "tank_id p1 \<in> fst ` set av" "tank_id s1 \<in> fst ` set av"
      "tank_id p2 \<in> fst ` set av" "tank_id s2 \<in> fst ` set av"
    by (auto simp: faz4_candidate_def split: if_splits)
  define qty1 where "qty1 = q * ((volume p1 + volume s1) / (volume p1 + volume s1 + (volume p2 + volume s2)))"
  obtain a b where sp1: "split_pair qty1 (get_tank_available_capacity (tank_id p1) p av s) (volume p1)
       (get_tank_available_capacity (tank_id s1) p av s) (volume s1) = (a, b)"
    by fastforce
  obtain a' b' where sp2: "split_pair (q - qty1) (get_tank_available_capacity (tank_id p2) p av s) (volume p2)
       (get_tank_available_capacity (tank_id s2) p av s) (volume s2) = (a', b')"
    by fastforce
  from c k sp1 sp2 have xs: "xs = [(tank_id p1, a), (tank_id s1, b), (tank_id p2, a'), (tank_id s2, b')]"
    and u: "check_min_utilization a (volume p1) mu" "check_min_utilization b (volume s1) mu"
       "check_min_utilization a' (volume p2) mu" "check_min_utilization b' (volume s2) mu"
    unfolding faz4_candidate_def Let_def qty1_def
    by (auto split: option.splits if_splits)
  from split_pair_le [OF sp1] split_pair_le [OF sp2] k u xs show ?thesis
    by (simp add: cand_okI)
qed

lemma faz4_step_ok:
  assumes "state_ok mu s A st"
  shows "state_ok mu s A (faz4_step s tol mu st c)"
  unfolding faz4_step_def
  by (rule step_from_candidates [OF assms])
     (auto simp: faz4_candidates_def set_map_filter dest!: select_best_mem faz4_candidate_ok)

lemma faz4_four_tank_ok:
  "state_ok (min_utilization st) s A (p, av) \<Longrightarrow> state_ok (min_utilization st) s A (faz4_four_tank p cargos av s st ov)"
  unfolding faz4_four_tank_def by (rule foldl_state_ok) (rule faz4_step_ok)


lemma faz5_candidate_ok:
  assumes c: "faz5_candidate s p av q tol mu ((id1, t1), (id2, t2), (id3, t3)) (pt, sb) = Some (d, xs)"
    and k3: "id1 \<in> fst ` set av" "id2 \<in> fst ` set av" "id3 \<in> fst ` set av"
  shows "\<forall>x \<in> set xs. cand_ok mu s p av x"
proof -
  from c have k: "tank_id pt \<in> fst ` set av" "tank_id sb \<in> fst ` set av"
    by (auto simp: faz5_candidate_def split: if_splits)
  define qty_3 where "qty_3 = q * ((volume t1 + volume t2 + volume t3)
      / (volume t1 + volume t2 + volume t3 + (volume pt + volume sb)))"
  obtain q1 q2 q3 where sp3: "split_triplet5 qty_3 (get_tank_available_capacity id1 p av s, volume t1)
      (get_tank_available_capacity id2 p av s, volume t2)
      (get_tank_available_capacity id3 p av s, volume t3) = (q1, q2, q3)"
    using prod_cases3 by blast
  obtain a b where sp2: "split_pair (q - qty_3) (get_tank_available_capacity (tank_id pt) p av s) (volume pt)
       (get_tank_available_capacity (tank_id sb) p av s) (volume sb) = (a, b)"
    by fastforce
  from c k sp3 sp2 have xs: "xs = [(id1, q1), (id2, q2), (id3, q3), (tank_id pt, a), (tank_id sb, b)]"
    and u: "check_min_utilization q1 (volume t1) mu" "check_min_utilization q2 (volume t2) mu"
       "check_min_utilization q3 (volume t3) mu"
       "check_min_utilization a (volume pt) mu" "check_min_utilization b (volume sb) mu"
    unfolding faz5_candidate_def Let_def qty_3_def
    by (auto split: option.splits if_splits)
  from split_triplet5_le [OF sp3] split_pair_le [OF sp2] k k3 u xs show ?thesis
    by (simp add: cand_okI)
qed

lemma faz5_candidates_ok:
  assumes "(d, xs) \<in> set (faz5_candidates s p av q tol mu)"
  shows "\<forall>x \<in> set xs. cand_ok mu s p av x"
proof -
  from assms obtain x where
    mem: "x \<in> set (triples_lt (map (\<lambda>tid. (tid, get_tank_by_id s tid)) (map fst av)))"
    and c: "(d, xs) \<in> set ((\<lambda>((tid1, tank1), (tid2, tank2), (tid3, tank3)).
        case tank1 of None \<Rightarrow> [] | Some t1 \<Rightarrow>
        (case tank2 of None \<Rightarrow> [] | Some t2 \<Rightarrow>
        (case tank3 of None \<Rightarrow> [] | Some t3 \<Rightarrow>
           List.map_filter
             (faz5_candidate s p av q tol mu ((tid1, t1), (tid2, t2), (tid3, t3)))
             (get_tank_pairs s)))) x)"
    unfolding faz5_candidates_def by auto
  obtain id1 tk1 id2 tk2 id3 tk3 where x: "x = ((id1, tk1), (id2, tk2), (id3, tk3))"
    by (metis prod.collapse)
  from mem x have k: "id1 \<in> fst ` set av" "id2 \<in> fst ` set av" "id3 \<in> fst ` set av"
    by (auto dest!: triples_lt_set)
  from c x obtain t1 t2 t3 pr where
    "faz5_candidate s p av q tol mu ((id1, t1), (id2, t2), (id3, t3)) pr = Some (d, xs)"
    by (auto simp: set_map_filter split: option.splits)
  with k show ?thesis using faz5_candidate_ok by (cases pr) blast
qed

lemma faz5_step_ok:
  assumes "state_ok mu s A st"
  shows "state_ok mu s A (faz5_step s tol mu st c)"
  unfolding faz5_step_def
  by (rule step_from_candidates [OF assms]) (auto dest!: select_best_mem faz5_candidates_ok)

lemma faz5_five_tank_ok:
  "state_ok (min_utilization st) s A (p, av) \<Longrightarrow> state_ok (min_utilization st) s A (faz5_five_tank p cargos av s st ov)"
  unfolding faz5_five_tank_def by (rule foldl_state_ok) (rule faz5_step_ok)

lemma faz6_candidate_ok:
  assumes c: "faz6_candidate s p av q tol mu ((p1, s1), (p2, s2), (p3, s3)) = Some (d, xs)"
  shows "\<forall>x \<in> set xs. cand_ok mu s p av x"
proof -
  from c have k: "tank_id p1 \<in> fst ` set av" "tank_id s1 \<in> fst ` set av"
      "tank_id p2 \<in> fst ` set av" "tank_id s2 \<in> fst ` set av"
      "tank_id p3 \<in> fst ` set av" "tank_id s3 \<in> fst ` set av"
    by (auto simp: faz6_candidate_def split: if_splits)
  obtain a1 b1 where sp1: "split_pair (q / 3) (get_tank_available_capacity (tank_id p1) p av s) (volume p1)
       (get_tank_available_capacity (tank_id s1) p av s) (volume s1) = (a1, b1)"
    by fastforce
  obtain a2 b2 where sp2: "split_pair (q / 3) (get_tank_available_capacity (tank_id p2) p av s) (volume p2)
       (get_tank_available_capacity (tank_id s2) p av s) (volume s2) = (a2, b2)"
    by fastforce
  obtain a3 b3 where sp3: "split_pair (q / 3) (get_tank_available_capacity (tank_id p3) p av s) (volume p3)
       (get_tank_available_capacity (tank_id s3) p av s) (volume s3) = (a3, b3)"
    by fastforce
  from c k sp1 sp2 sp3 have xs: "xs = [(tank_id p1, a1), (tank_id s1, b1), (tank_id p2, a2),
        (tank_id s2, b2), (tank_id p3, a3), (tank_id s3, b3)]"
    and u: "check_min_utilization a1 (volume p1) mu" "check_min_utilization b1 (volume s1) mu"
       "check_min_utilization a2 (volume p2) mu" "check_min_utilization b2 (volume s2) mu"
       "check_min_utilization a3 (volume p3) mu" "check_min_utilization b3 (volume s3) mu"
    unfolding faz6_candidate_def Let_def
    by (auto split: option.splits if_splits)
  from split_pair_le [OF sp1] split_pair_le [OF sp2] split_pair_le [OF sp3] k u xs show ?thesis
    by (simp add: cand_okI)
qed

lemma faz6_step_ok:
  assumes "state_ok mu s A st"
  shows "state_ok mu s A (faz6_step s tol mu st c)"
  unfolding faz6_step_def
  by (rule step_from_candidates [OF assms])
     (auto simp: faz6_candidates_def set_map_filter dest!: select_best_mem faz6_candidate_ok)

lemma faz6_six_tank_ok:
  "state_ok (min_utilization st) s A (p, av) \<Longrightarrow> state_ok (min_utilization st) s A (faz6_six_tank p cargos av s st ov)"
  unfolding faz6_six_tank_def by (rule foldl_state_ok) (rule faz6_step_ok)

lemma faz7_fill_ok:
  "state_ok mu s A st \<Longrightarrow> fst ` set l \<subseteq> A \<Longrightarrow> state_ok mu s A (faz7_fill s mu c l st r)"
proof (induction s mu c l st r rule: faz7_fill.induct)
  case (1 s min_util c st remaining_qty)
  then show ?case by simp
next
  case (2 s min_util c tid available_vol rest st remaining_qty)
  show ?case
  proof (cases "remaining_qty < 0.001")
    case True
    with 2 show ?thesis by simp
  next
    case nb: False
    show ?thesis
    proof (cases "get_tank_by_id s tid")
      case None
      with 2 nb show ?thesis by simp
    next
      case (Some t)
      define qty where "qty = min remaining_qty (min available_vol (volume t))"
      show ?thesis
      proof (cases "check_min_utilization qty (volume t) min_util")
        case False
        with 2 nb Some show ?thesis by (simp add: qty_def Let_def)
      next
        case True
        have "qty \<le> volume t" by (simp add: qty_def)
        moreover from True have "0 < min_util \<Longrightarrow> 0 < qty" by (rule check_min_utilization_pos)
        moreover from "2.prems" have "tid \<in> A" by simp
        ultimately have "entry_ok min_util s A (tid, qty)"
          using Some by (simp add: entry_ok_def fits_def)
        with "2.prems" have "state_ok min_util s A (place c st (tid, qty))"
          by (simp add: state_ok_place)
        moreover from "2.prems" have "fst ` set rest \<subseteq> A" by simp
        ultimately show ?thesis
          using "2.IH"(3) [OF nb Some qty_def] True nb Some
          by (simp add: qty_def Let_def)
      qed
    qed
  qed
qed

lemma faz7_step_ok:
  assumes "state_ok mu s A st"
  shows "state_ok mu s A (faz7_step s mu st c)"
proof -
  define l where "l = py_sorted_reverse snd (filter (\<lambda>(tid, vol). vol > 0.001) (snd st))"
  have "fst ` set l \<subseteq> fst ` set (snd st)"
    by (auto simp: l_def py_sorted_reverse_def)
  also from assms have "\<dots> \<subseteq> A" by (simp add: state_ok_def)
  finally have sub: "fst ` set l \<subseteq> A" .
  show ?thesis unfolding faz7_step_def l_def [symmetric]
    by (rule faz7_fill_ok [OF assms sub])
qed

lemma faz7_multi_tank_ok:
  "state_ok (min_utilization st) s A (p, av) \<Longrightarrow> state_ok (min_utilization st) s A (faz7_multi_tank p cargos av s st)"
  unfolding faz7_multi_tank_def by (rule foldl_state_ok) (rule faz7_step_ok)

section \<open>Lemmas: the phases keep the invariant\<close>

lemma run_phase_ok:
  "state_ok (min_utilization st) s A (p, av)
   \<Longrightarrow> state_ok (min_utilization st) s A (run_phase k p cargos av s st tol)"
  by (simp add: run_phase_def faz1_single_tank_ok faz2_two_tank_ok faz3_three_tank_ok
        faz4_four_tank_ok faz5_five_tank_ok faz6_six_tank_ok faz7_multi_tank_ok)

lemma call_faz_ok:
  "state_ok (min_utilization st) s A (p, av) \<Longrightarrow> call_faz f p cargos av s st tol = Inr r
   \<Longrightarrow> state_ok (min_utilization st) s A r"
  by (cases f)
     (auto simp: call_faz_def faz1_single_tank_ok faz2_two_tank_ok faz3_three_tank_ok
        faz4_four_tank_ok faz5_five_tank_ok faz6_six_tank_ok)

lemma temp_plan_ok:
  "state_ok mu s A (p, av) \<Longrightarrow> state_ok mu s A (StowagePlan_init e n i cs nm, av)"
  by (simp add: state_ok_def StowagePlan_init_def)

lemma copy_assignments_ok:
  assumes t: "state_ok mu s A (tp, tav)" and m: "state_ok mu s A (p, av)"
  shows "state_ok mu s A (copy_assignments tp p, tav)"
proof -
  have "\<And>q. \<forall>x \<in> set l. entry_ok mu s A (fst x, quantity_loaded (snd x))
      \<Longrightarrow> \<forall>x \<in> set (assignments q). entry_ok mu s A (fst x, quantity_loaded (snd x))
      \<Longrightarrow> \<forall>x \<in> set (assignments (foldl (\<lambda>q (tid, a). add_assignment q tid a) q l)).
            entry_ok mu s A (fst x, quantity_loaded (snd x))" for l
  proof (induction l)
    case Nil
    then show ?case by simp
  next
    case (Cons y l)
    obtain tid a where y: "y = (tid, a)" by (cases y)
    have "\<forall>x \<in> set (assignments (add_assignment q tid a)). entry_ok mu s A (fst x, quantity_loaded (snd x))"
      using Cons.prems y set_update_subset [of tid a "assignments q"]
      by (auto simp: add_assignment_def)
    with Cons y show ?case by simp
  qed
  note step = this
  from t have a1: "\<forall>x \<in> set (assignments tp). entry_ok mu s A (fst x, quantity_loaded (snd x))"
    and k: "fst ` set tav \<subseteq> A"
    by (simp_all add: state_ok_def)
  from m have a2: "\<forall>x \<in> set (assignments p). entry_ok mu s A (fst x, quantity_loaded (snd x))"
    by (simp add: state_ok_def)
  from a1 a2 have "\<forall>x \<in> set (assignments (foldl (\<lambda>q (tid, a). add_assignment q tid a) p (assignments tp))).
            entry_ok mu s A (fst x, quantity_loaded (snd x))"
    by (rule step)
  with k show ?thesis by (simp add: state_ok_def copy_assignments_def)
qed

lemma faz0_attempts_ok:
  assumes "state_ok (min_utilization st) s A (p, av)"
    and "faz0_attempts e s st c l (p, av, pl) = (p', av', pl')"
  shows "state_ok (min_utilization st) s A (p', av')"
  using assms
proof (induction l arbitrary: p av pl)
  case Nil
  then show ?case by simp
next
  case (Cons attempt rest)
  let ?tp = "StowagePlan_init e (p_ship_name p) (ship_profile_id p) [c] ''temp''"
  have tok: "state_ok (min_utilization st) s A (copy_assignments tp' p, tav)"
    if "run_phase k ?tp [c] av s st tol = (tp', tav)" for k tol tp' tav
  proof -
    have "state_ok (min_utilization st) s A (?tp, av)"
      using Cons.prems(1) by (rule temp_plan_ok)
    then have "state_ok (min_utilization st) s A (run_phase k ?tp [c] av s st tol)"
      by (rule run_phase_ok)
    with that have "state_ok (min_utilization st) s A (tp', tav)" by simp
    then show ?thesis using Cons.prems(1) by (rule copy_assignments_ok)
  qed
  note ih = Cons.IH [OF Cons.prems(1)]
  from Cons.prems(2) show ?case
    apply (simp add: Let_def split: if_splits prod.splits)
    using Cons.prems(1) tok ih apply blast+
    done
qed

lemma faz0_fallback_ok:
  assumes "state_ok (min_utilization st) s A (p, av)"
    and "faz0_fallback e s st c fs (p, av) = Inr r"
  shows "state_ok (min_utilization st) s A r"
  using assms
proof (induction fs)
  case Nil
  then show ?case by simp
next
  case (Cons f rest)
  let ?tp = "StowagePlan_init e (p_ship_name p) (ship_profile_id p) [c] ''temp''"
  have tok: "state_ok (min_utilization st) s A (copy_assignments tp' p, tav)"
    if "call_faz f ?tp [c] av s st tol = Inr (tp', tav)" for tol tp' tav
  proof -
    have "state_ok (min_utilization st) s A (?tp, av)"
      using Cons.prems(1) by (rule temp_plan_ok)
    from this that have "state_ok (min_utilization st) s A (tp', tav)"
      by (rule call_faz_ok)
    then show ?thesis using Cons.prems(1) by (rule copy_assignments_ok)
  qed
  note ih = Cons.IH [OF Cons.prems(1)]
  from Cons.prems(2) show ?case
    apply (simp add: Let_def split: if_splits prod.splits sum.splits)
    using tok ih apply blast+
    done
qed

lemma faz0_cargos_ok:
  assumes "state_ok (min_utilization st) s A (p, av)"
    and "faz0_cargos e s st cs (p, av, pl) = Inr r"
  shows "state_ok (min_utilization st) s A r"
  using assms
proof (induction cs arbitrary: p av pl)
  case Nil
  then show ?case by simp
next
  case (Cons c cs)
  define l where
    "l = [0 ..< nat (py_int (mandatory_max_relaxation st / mandatory_retry_increment st) + 1)]"
  obtain p1 av1 pl1 where a: "faz0_attempts e s st c l (p, av, pl) = (p1, av1, pl1)"
    using prod_cases3 by blast
  with Cons.prems(1) have ok1: "state_ok (min_utilization st) s A (p1, av1)"
    by (rule faz0_attempts_ok)
  have eq: "faz0_cargos e s st (c # cs) (p, av, pl) =
     (if mandatory_retry_increment st = 0 then Inl ZeroDivisionError
      else (case pl1 of
                None \<Rightarrow> Inl UnboundLocalError
              | Some True \<Rightarrow> faz0_cargos e s st cs (p1, av1, pl1)
              | Some False \<Rightarrow>
                  (case faz0_fallback e s st c [Faz1, Faz2, Faz3, Faz4, Faz5, Faz6, Faz7] (p1, av1) of
                     Inl err \<Rightarrow> Inl err
                   | Inr (p2, av2) \<Rightarrow> faz0_cargos e s st cs (p2, av2, pl1))))"
    by (simp only: faz0_cargos.simps l_def [symmetric] a prod.case)
  from Cons.prems(2) have nz: "mandatory_retry_increment st \<noteq> 0"
    unfolding eq by (cases "mandatory_retry_increment st = 0") simp_all
  show ?case
  proof (cases pl1)
    case None
    with Cons.prems(2) nz show ?thesis unfolding eq by simp
  next
    case (Some b)
    show ?thesis
    proof (cases b)
      case True
      with Cons.prems(2) nz Some have "faz0_cargos e s st cs (p1, av1, pl1) = Inr r"
        unfolding eq by simp
      with Cons.IH ok1 show ?thesis by blast
    next
      case False
      show ?thesis
      proof (cases "faz0_fallback e s st c [Faz1, Faz2, Faz3, Faz4, Faz5, Faz6, Faz7] (p1, av1)")
        case (Inl err)
        with Cons.prems(2) nz Some False show ?thesis unfolding eq by simp
      next
        case (Inr x)
        obtain p2 av2 where x: "x = (p2, av2)" by (cases x)
        from ok1 Inr x have ok2: "state_ok (min_utilization st) s A (p2, av2)"
          using faz0_fallback_ok by blast
        from Cons.prems(2) nz Some False Inr x
        have "faz0_cargos e s st cs (p2, av2, pl1) = Inr r" unfolding eq by simp
        with Cons.IH ok2 show ?thesis by blast
      qed
    qed
  qed
qed

lemma initial_available_keys:
  "fst ` set (initial_available s ex) \<subseteq> {tid. tid \<notin> ex}"
proof -
  have "\<And>av. fst ` set av \<subseteq> {tid. tid \<notin> ex} \<Longrightarrow>
     fst ` set (foldl (\<lambda>av t. if tank_id t \<notin> ex then AList.update (tank_id t) (volume t) av else av) av ts)
       \<subseteq> {tid. tid \<notin> ex}" for ts
    by (induction ts) (auto simp: dom_update)
  from this [of "[]" "tanks s"] show ?thesis by (simp add: initial_available_def)
qed

lemma regular_phases_ok:
  assumes "state_ok (min_utilization st) s A st0"
  shows "state_ok (min_utilization st) s A (regular_phases s st cs st0, [])"
proof -
  have drop: "state_ok mu s A (p, av) \<Longrightarrow> state_ok mu s A (p, [])" for mu p av
    by (simp add: state_ok_def)
  obtain p0 av0 where st0: "st0 = (p0, av0)" by (cases st0)
  obtain p1 av1 where 1: "faz1_single_tank p0 cs av0 s st None = (p1, av1)" by fastforce
  define r1 where "r1 = still_remaining p1 cs"
  obtain p2 av2 where 2: "faz2_two_tank p1 r1 av1 s st None = (p2, av2)" by fastforce
  define r2 where "r2 = still_remaining p2 r1"
  obtain p3 av3 where 3: "faz3_three_tank p2 r2 av2 s st None = (p3, av3)" by fastforce
  define r3 where "r3 = still_remaining p3 r2"
  obtain p4 av4 where 4: "faz4_four_tank p3 r3 av3 s st None = (p4, av4)" by fastforce
  define r4 where "r4 = still_remaining p4 r3"
  obtain p5 av5 where 5: "faz5_five_tank p4 r4 av4 s st None = (p5, av5)" by fastforce
  define r5 where "r5 = still_remaining p5 r4"
  obtain p6 av6 where 6: "faz6_six_tank p5 r5 av5 s st None = (p6, av6)" by fastforce
  define r6 where "r6 = still_remaining p6 r5"
  obtain p7 av7 where 7: "faz7_multi_tank p6 r6 av6 s st = (p7, av7)" by fastforce
  from assms st0 have "state_ok (min_utilization st) s A (p0, av0)" by simp
  then have "state_ok (min_utilization st) s A (faz1_single_tank p0 cs av0 s st None)"
    by (rule faz1_single_tank_ok)
  then have "state_ok (min_utilization st) s A (p1, av1)" by (simp only: 1)
  then have "state_ok (min_utilization st) s A (faz2_two_tank p1 r1 av1 s st None)"
    by (rule faz2_two_tank_ok)
  then have "state_ok (min_utilization st) s A (p2, av2)" by (simp only: 2)
  then have "state_ok (min_utilization st) s A (faz3_three_tank p2 r2 av2 s st None)"
    by (rule faz3_three_tank_ok)
  then have "state_ok (min_utilization st) s A (p3, av3)" by (simp only: 3)
  then have "state_ok (min_utilization st) s A (faz4_four_tank p3 r3 av3 s st None)"
    by (rule faz4_four_tank_ok)
  then have "state_ok (min_utilization st) s A (p4, av4)" by (simp only: 4)
  then have "state_ok (min_utilization st) s A (faz5_five_tank p4 r4 av4 s st None)"
    by (rule faz5_five_tank_ok)
  then have "state_ok (min_utilization st) s A (p5, av5)" by (simp only: 5)
  then have "state_ok (min_utilization st) s A (faz6_six_tank p5 r5 av5 s st None)"
    by (rule faz6_six_tank_ok)
  then have "state_ok (min_utilization st) s A (p6, av6)" by (simp only: 6)
  then have "state_ok (min_utilization st) s A (faz7_multi_tank p6 r6 av6 s st)"
    by (rule faz7_multi_tank_ok)
  then have "state_ok (min_utilization st) s A (p7, av7)" by (simp only: 7)
  then have "state_ok (min_utilization st) s A (p7, [])" by (rule drop)
  moreover have "regular_phases s st cs st0 = p7"
    unfolding regular_phases_def Let_def st0 fst_conv snd_conv
      1 prod.case r1_def [symmetric] 2 r2_def [symmetric] 3 r3_def [symmetric] 4
      r4_def [symmetric] 5 r5_def [symmetric] 6 r6_def [symmetric] 7 ..
  ultimately show ?thesis by simp
qed

lemma optimize_advanced_ok:
  assumes "optimize_advanced e s cargos ex fx st = Inr plan"
  shows "state_ok (min_utilization st) s {tid. tid \<notin> ex \<union> set (map fst fx)} (plan, [])"
proof -
  let ?A = "{tid. tid \<notin> ex \<union> set (map fst fx)}"
  let ?p = "StowagePlan_init e (ship_name s) (ship_id s) cargos ''Yeni Plan''"
  let ?av = "initial_available s (ex \<union> set (map fst fx))"
  let ?r = "if filter is_mandatory cargos \<noteq> []
           then faz0_mandatory_cargo e ?p (filter is_mandatory cargos) ?av s st
           else Inr (?p, ?av)"
  have init: "state_ok (min_utilization st) s ?A (?p, ?av)"
    using initial_available_keys [of s "ex \<union> set (map fst fx)"]
    by (simp add: state_ok_def StowagePlan_init_def)
  have eq: "optimize_advanced e s cargos ex fx st =
      (case ?r of Inl err \<Rightarrow> Inl err
       | Inr st0 \<Rightarrow> Inr (regular_phases s st (filter (\<lambda>c. \<not> is_mandatory c) cargos) st0))"
    unfolding optimize_advanced_def Let_def ..
  show ?thesis
  proof (cases ?r)
    case (Inl err)
    with assms eq show ?thesis by simp
  next
    case (Inr st0)
    have "state_ok (min_utilization st) s ?A st0"
    proof (cases "filter is_mandatory cargos \<noteq> []")
      case True
      with Inr have "faz0_cargos e s st (filter is_mandatory cargos) (?p, ?av, None) = Inr st0"
        by (simp add: faz0_mandatory_cargo_def)
      with init show ?thesis by (rule faz0_cargos_ok)
    next
      case False
      with Inr init show ?thesis by simp
    qed
    then have "state_ok (min_utilization st) s ?A
        (regular_phases s st (filter (\<lambda>c. \<not> is_mandatory c) cargos) st0, [])"
      by (rule regular_phases_ok)
    moreover from assms eq Inr
    have "plan = regular_phases s st (filter (\<lambda>c. \<not> is_mandatory c) cargos) st0" by simp
    ultimately show ?thesis by simp
  qed
qed

lemma retry_loop_best:
  assumes "retry_loop envs s cargos ex fx st i l (bp, bs) = (bp', bs')"
  shows "bs \<le> bs'
     \<and> (\<forall>k < length l. \<forall>q. optimize_advanced (envs (i + k)) s (snd (l ! k) cargos) ex fx st = Inr q
            \<longrightarrow> calculate_simple_score q s \<le> bs')
     \<and> ((bp', bs') = (bp, bs)
         \<or> (\<exists>k < length l. \<exists>p'. optimize_advanced (envs (i + k)) s (snd (l ! k) cargos) ex fx st = Inr p'
                \<and> bp' = Some p' \<and> bs' = calculate_simple_score p' s \<and> bs < bs'))"
  using assms
proof (induction l arbitrary: i bp bs)
  case Nil
  then show ?case by simp
next
  case (Cons x l)
  obtain nm f where x: "x = (nm, f)" by (cases x)
  let ?run = "optimize_advanced (envs i) s (f cargos) ex fx st"
  have shift: "\<And>k. optimize_advanced (envs (Suc i + k)) s (snd (l ! k) cargos) ex fx st
      = optimize_advanced (envs (i + Suc k)) s (snd ((x # l) ! Suc k) cargos) ex fx st"
    by simp
  show ?case
  proof (cases ?run)
    case (Inl err)
    with Cons.prems x have "retry_loop envs s cargos ex fx st (Suc i) l (bp, bs) = (bp', bs')"
      by simp
    from Cons.IH [OF this] have ih1: "bs \<le> bs'"
      and ih2: "\<forall>k < length l. \<forall>q. optimize_advanced (envs (Suc i + k)) s (snd (l ! k) cargos) ex fx st = Inr q
            \<longrightarrow> calculate_simple_score q s \<le> bs'"
      and ih3: "(bp', bs') = (bp, bs)
         \<or> (\<exists>k < length l. \<exists>p'. optimize_advanced (envs (Suc i + k)) s (snd (l ! k) cargos) ex fx st = Inr p'
                \<and> bp' = Some p' \<and> bs' = calculate_simple_score p' s \<and> bs < bs')"
      by blast+
    have a: "\<forall>k < length (x # l). \<forall>q. optimize_advanced (envs (i + k)) s (snd ((x # l) ! k) cargos) ex fx st = Inr q
            \<longrightarrow> calculate_simple_score q s \<le> bs'"
    proof (intro allI impI)
      fix k q assume k: "k < length (x # l)"
        and q: "optimize_advanced (envs (i + k)) s (snd ((x # l) ! k) cargos) ex fx st = Inr q"
      show "calculate_simple_score q s \<le> bs'"
      proof (cases k)
        case 0
        with q x Inl show ?thesis by simp
      next
        case (Suc k')
        with k q ih2 show ?thesis by simp
      qed
    qed
    have b: "(bp', bs') = (bp, bs)
         \<or> (\<exists>k < length (x # l). \<exists>p'. optimize_advanced (envs (i + k)) s (snd ((x # l) ! k) cargos) ex fx st = Inr p'
                \<and> bp' = Some p' \<and> bs' = calculate_simple_score p' s \<and> bs < bs')"
      using ih3
    proof
      assume "(bp', bs') = (bp, bs)" then show ?thesis by simp
    next
      assume "\<exists>k < length l. \<exists>p'. optimize_advanced (envs (Suc i + k)) s (snd (l ! k) cargos) ex fx st = Inr p'
                \<and> bp' = Some p' \<and> bs' = calculate_simple_score p' s \<and> bs < bs'"
      then obtain k p' where "k < length l"
        "optimize_advanced (envs (Suc i + k)) s (snd (l ! k) cargos) ex fx st = Inr p'"
        "bp' = Some p'" "bs' = calculate_simple_score p' s" "bs < bs'" by blast
      then have "Suc k < length (x # l) \<and> optimize_advanced (envs (i + Suc k)) s (snd ((x # l) ! Suc k) cargos) ex fx st = Inr p'
            \<and> bp' = Some p' \<and> bs' = calculate_simple_score p' s \<and> bs < bs'" by simp
      then show ?thesis by blast
    qed
    from ih1 a b show ?thesis by blast
  next
    case (Inr plan)
    let ?sc = "calculate_simple_score plan s"
    show ?thesis
    proof (cases "?sc > bs")
      case True
      with Cons.prems x Inr have "retry_loop envs s cargos ex fx st (Suc i) l (Some plan, ?sc) = (bp', bs')"
        by (simp add: Let_def)
      from Cons.IH [OF this] have ih1: "?sc \<le> bs'"
        and ih2: "\<forall>k < length l. \<forall>q. optimize_advanced (envs (Suc i + k)) s (snd (l ! k) cargos) ex fx st = Inr q
            \<longrightarrow> calculate_simple_score q s \<le> bs'"
        and ih3: "(bp', bs') = (Some plan, ?sc)
         \<or> (\<exists>k < length l. \<exists>p'. optimize_advanced (envs (Suc i + k)) s (snd (l ! k) cargos) ex fx st = Inr p'
                \<and> bp' = Some p' \<and> bs' = calculate_simple_score p' s \<and> ?sc < bs')"
        by blast+
      from True ih1 have c1: "bs \<le> bs'" and lt: "bs < bs'" by linarith+
      have a: "\<forall>k < length (x # l). \<forall>q. optimize_advanced (envs (i + k)) s (snd ((x # l) ! k) cargos) ex fx st = Inr q
            \<longrightarrow> calculate_simple_score q s \<le> bs'"
      proof (intro allI impI)
        fix k q assume k: "k < length (x # l)"
          and q: "optimize_advanced (envs (i + k)) s (snd ((x # l) ! k) cargos) ex fx st = Inr q"
        show "calculate_simple_score q s \<le> bs'"
        proof (cases k)
          case 0
          with q x Inr ih1 show ?thesis by simp
        next
          case (Suc k')
          with k q ih2 show ?thesis by simp
        qed
      qed
      have b: "\<exists>k < length (x # l). \<exists>p'. optimize_advanced (envs (i + k)) s (snd ((x # l) ! k) cargos) ex fx st = Inr p'
                \<and> bp' = Some p' \<and> bs' = calculate_simple_score p' s \<and> bs < bs'"
        using ih3
      proof
        assume "(bp', bs') = (Some plan, ?sc)"
        with Inr x lt have "0 < length (x # l) \<and> optimize_advanced (envs (i + 0)) s (snd ((x # l) ! 0) cargos) ex fx st = Inr plan
            \<and> bp' = Some plan \<and> bs' = calculate_simple_score plan s \<and> bs < bs'" by simp
        then show ?thesis by blast
      next
        assume "\<exists>k < length l. \<exists>p'. optimize_advanced (envs (Suc i + k)) s (snd (l ! k) cargos) ex fx st = Inr p'
                \<and> bp' = Some p' \<and> bs' = calculate_simple_score p' s \<and> ?sc < bs'"
        then obtain k p' where "k < length l"
          "optimize_advanced (envs (Suc i + k)) s (snd (l ! k) cargos) ex fx st = Inr p'"
          "bp' = Some p'" "bs' = calculate_simple_score p' s" by blast
        with lt have "Suc k < length (x # l) \<and> optimize_advanced (envs (i + Suc k)) s (snd ((x # l) ! Suc k) cargos) ex fx st = Inr p'
            \<and> bp' = Some p' \<and> bs' = calculate_simple_score p' s \<and> bs < bs'" by simp
        then show ?thesis by blast
      qed
      from c1 a b show ?thesis by blast
    next
      case False
      with Cons.prems x Inr have "retry_loop envs s cargos ex fx st (Suc i) l (bp, bs) = (bp', bs')"
        by (simp add: Let_def)
      from Cons.IH [OF this] have ih1: "bs \<le> bs'"
        and ih2: "\<forall>k < length l. \<forall>q. optimize_advanced (envs (Suc i + k)) s (snd (l ! k) cargos) ex fx st = Inr q
            \<longrightarrow> calculate_simple_score q s \<le> bs'"
        and ih3: "(bp', bs') = (bp, bs)
         \<or> (\<exists>k < length l. \<exists>p'. optimize_advanced (envs (Suc i + k)) s (snd (l ! k) cargos) ex fx st = Inr p'
                \<and> bp' = Some p' \<and> bs' = calculate_simple_score p' s \<and> bs < bs')"
        by blast+
      have a: "\<forall>k < length (x # l). \<forall>q. optimize_advanced (envs (i + k)) s (snd ((x # l) ! k) cargos) ex fx st = Inr q
            \<longrightarrow> calculate_simple_score q s \<le> bs'"
      proof (intro allI impI)
        fix k q assume k: "k < length (x # l)"
          and q: "optimize_advanced (envs (i + k)) s (snd ((x # l) ! k) cargos) ex fx st = Inr q"
        show "calculate_simple_score q s \<le> bs'"
        proof (cases k)
          case 0
          with q x Inr False ih1 show ?thesis by simp
        next
          case (Suc k')
          with k q ih2 show ?thesis by simp
        qed
      qed
      have b: "(bp', bs') = (bp, bs)
         \<or> (\<exists>k < length (x # l). \<exists>p'. optimize_advanced (envs (i + k)) s (snd ((x # l) ! k) cargos) ex fx st = Inr p'
                \<and> bp' = Some p' \<and> bs' = calculate_simple_score p' s \<and> bs < bs')"
        using ih3
      proof
        assume "(bp', bs') = (bp, bs)" then show ?thesis by simp
      next
        assume "\<exists>k < length l. \<exists>p'. optimize_advanced (envs (Suc i + k)) s (snd (l ! k) cargos) ex fx st = Inr p'
                \<and> bp' = Some p' \<and> bs' = calculate_simple_score p' s \<and> bs < bs'"
        then obtain k p' where "k < length l"
          "optimize_advanced (envs (Suc i + k)) s (snd (l ! k) cargos) ex fx st = Inr p'"
          "bp' = Some p'" "bs' = calculate_simple_score p' s" "bs < bs'" by blast
        then have "Suc k < length (x # l) \<and> optimize_advanced (envs (i + Suc k)) s (snd ((x # l) ! Suc k) cargos) ex fx st = Inr p'
            \<and> bp' = Some p' \<and> bs' = calculate_simple_score p' s \<and> bs < bs'" by simp
        then show ?thesis by blast
      qed
      from ih1 a b show ?thesis by blast
    qed
  qed
qed

lemma retry_loop_first:
  assumes "retry_loop envs s cargos ex fx st i l (bp, bs) = (bp', bs')"
  shows "(bp', bs') = (bp, bs)
         \<or> (\<exists>k < length l. \<exists>p'. optimize_advanced (envs (i + k)) s (snd (l ! k) cargos) ex fx st = Inr p'
                \<and> bp' = Some p' \<and> bs' = calculate_simple_score p' s \<and> bs < bs'
                \<and> (\<forall>j < k. \<forall>q. optimize_advanced (envs (i + j)) s (snd (l ! j) cargos) ex fx st = Inr q
                       \<longrightarrow> calculate_simple_score q s < bs'))"
  using assms
proof (induction l arbitrary: i bp bs)
  case Nil
  then show ?case by simp
next
  case (Cons x l)
  obtain nm f where x: "x = (nm, f)" by (cases x)
  let ?run = "optimize_advanced (envs i) s (f cargos) ex fx st"
  let ?R = "\<lambda>l i k. optimize_advanced (envs (i + k)) s (snd (l ! k) cargos) ex fx st"
  have step: "(bp', bs') = (bp, bs)
         \<or> (\<exists>k < length (x # l). \<exists>p'. ?R (x # l) i k = Inr p'
                \<and> bp' = Some p' \<and> bs' = calculate_simple_score p' s \<and> bs < bs'
                \<and> (\<forall>j < k. \<forall>q. ?R (x # l) i j = Inr q \<longrightarrow> calculate_simple_score q s < bs'))"
    if k: "k < length l" and p': "?R l (Suc i) k = Inr p'" "bp' = Some p'" "bs' = calculate_simple_score p' s"
      and lt: "bs < bs'"
      and first: "\<forall>j < k. \<forall>q. ?R l (Suc i) j = Inr q \<longrightarrow> calculate_simple_score q s < bs'"
      and head: "\<forall>q. ?run = Inr q \<longrightarrow> calculate_simple_score q s < bs'"
    for k p'
  proof -
    have "\<forall>j < Suc k. \<forall>q. ?R (x # l) i j = Inr q \<longrightarrow> calculate_simple_score q s < bs'"
    proof (intro allI impI)
      fix j q assume j: "j < Suc k" and q: "?R (x # l) i j = Inr q"
      show "calculate_simple_score q s < bs'"
      proof (cases j)
        case 0
        with q x head show ?thesis by simp
      next
        case (Suc j')
        with j q first show ?thesis by simp
      qed
    qed
    moreover from k have "Suc k < length (x # l)" by simp
    moreover from p' have "?R (x # l) i (Suc k) = Inr p'" by simp
    ultimately show ?thesis using p' lt by blast
  qed
  show ?case
  proof (cases ?run)
    case (Inl err)
    with Cons.prems x have r: "retry_loop envs s cargos ex fx st (Suc i) l (bp, bs) = (bp', bs')"
      by simp
    from Inl have head: "\<forall>q. ?run = Inr q \<longrightarrow> calculate_simple_score q s < bs'" by simp
    from Cons.IH [OF r] show ?thesis
    proof
      assume "(bp', bs') = (bp, bs)" then show ?thesis by simp
    next
      assume "\<exists>k < length l. \<exists>p'. ?R l (Suc i) k = Inr p'
                \<and> bp' = Some p' \<and> bs' = calculate_simple_score p' s \<and> bs < bs'
                \<and> (\<forall>j < k. \<forall>q. ?R l (Suc i) j = Inr q \<longrightarrow> calculate_simple_score q s < bs')"
      then obtain k p' where "k < length l" "?R l (Suc i) k = Inr p'" "bp' = Some p'"
        "bs' = calculate_simple_score p' s" "bs < bs'"
        "\<forall>j < k. \<forall>q. ?R l (Suc i) j = Inr q \<longrightarrow> calculate_simple_score q s < bs'" by blast
      from step [OF this head] show ?thesis .
    qed
  next
    case (Inr plan)
    show ?thesis
    proof (cases "calculate_simple_score plan s > bs")
      case True
      with Cons.prems x Inr
      have r: "retry_loop envs s cargos ex fx st (Suc i) l (Some plan, calculate_simple_score plan s) = (bp', bs')"
        by (simp add: Let_def)
      from Cons.IH [OF r] show ?thesis
      proof
        assume "(bp', bs') = (Some plan, calculate_simple_score plan s)"
        with True Inr x have "0 < length (x # l) \<and> ?R (x # l) i 0 = Inr plan
                \<and> bp' = Some plan \<and> bs' = calculate_simple_score plan s \<and> bs < bs'
                \<and> (\<forall>j < 0. \<forall>q. ?R (x # l) i j = Inr q \<longrightarrow> calculate_simple_score q s < bs')"
          by simp
        then show ?thesis by blast
      next
        assume "\<exists>k < length l. \<exists>p'. ?R l (Suc i) k = Inr p'
                \<and> bp' = Some p' \<and> bs' = calculate_simple_score p' s \<and> calculate_simple_score plan s < bs'
                \<and> (\<forall>j < k. \<forall>q. ?R l (Suc i) j = Inr q \<longrightarrow> calculate_simple_score q s < bs')"
        then obtain k p' where kp: "k < length l" "?R l (Suc i) k = Inr p'" "bp' = Some p'"
          "bs' = calculate_simple_score p' s"
          and lt: "calculate_simple_score plan s < bs'"
          and first: "\<forall>j < k. \<forall>q. ?R l (Suc i) j = Inr q \<longrightarrow> calculate_simple_score q s < bs'" by blast
        from True lt have lt': "bs < bs'" by simp
        from Inr lt have head: "\<forall>q. ?run = Inr q \<longrightarrow> calculate_simple_score q s < bs'" by simp
        from step [OF kp lt' first head] show ?thesis .
      qed
    next
      case False
      with Cons.prems x Inr have r: "retry_loop envs s cargos ex fx st (Suc i) l (bp, bs) = (bp', bs')"
        by (simp add: Let_def)
      from Cons.IH [OF r] show ?thesis
      proof
        assume "(bp', bs') = (bp, bs)" then show ?thesis by simp
      next
        assume "\<exists>k < length l. \<exists>p'. ?R l (Suc i) k = Inr p'
                \<and> bp' = Some p' \<and> bs' = calculate_simple_score p' s \<and> bs < bs'
                \<and> (\<forall>j < k. \<forall>q. ?R l (Suc i) j = Inr q \<longrightarrow> calculate_simple_score q s < bs')"
        then obtain k p' where kp: "k < length l" "?R l (Suc i) k = Inr p'" "bp' = Some p'"
          "bs' = calculate_simple_score p' s" and lt: "bs < bs'"
          and first: "\<forall>j < k. \<forall>q. ?R l (Suc i) j = Inr q \<longrightarrow> calculate_simple_score q s < bs'" by blast
        from False lt Inr have head: "\<forall>q. ?run = Inr q \<longrightarrow> calculate_simple_score q s < bs'" by simp
        from step [OF kp lt first head] show ?thesis .
      qed
    qed
  qed
qed

section \<open>Lemmas: the genetic solver keeps the invariant\<close>

lemma cap_genes_ok: "cap_genes g zs = Inr gs \<Longrightarrow> list_all2 (gene_ok g) gs (map snd zs)"
proof (induction g zs arbitrary: gs rule: cap_genes.induct)
  case (1 g)
  then show ?case by simp
next
  case (2 g cargo_id qty tid rest)
  show ?case
  proof (cases "cargo_id \<noteq> None \<and> qty > 0")
    case True
    with "2.prems" obtain tv gs' where tv: "volume_of g tid = Inr tv"
      and r: "cap_genes g rest = Inr gs'"
      and gs: "gs = (if qty > tv then (cargo_id, tv) else (cargo_id, qty)) # gs'"
      by (auto split: sum.splits)
    have "gene_ok g (if qty > tv then (cargo_id, tv) else (cargo_id, qty)) tid"
      using tv by (auto simp: gene_ok_def volume_of_def split: option.splits)
    with "2.IH"(1) [OF True tv r] gs show ?thesis by simp
  next
    case False
    with "2.prems" obtain gs' where r: "cap_genes g rest = Inr gs'"
      and gs: "gs = (cargo_id, qty) # gs'"
      by (auto split: sum.splits)
    have "gene_ok g (cargo_id, qty) tid"
      using False by (auto simp: gene_ok_def)
    with "2.IH"(2) [OF False r] gs show ?thesis by simp
  qed
qed

lemma cons_gene_Inr:
  "cons_gene x r = Inr (gs, rem) \<Longrightarrow> \<exists>gs'. r = Inr (gs', rem) \<and> gs = x # gs'"
  by (auto simp: cons_gene_def split: sum.splits)

lemma add_to_existing_ok:
  "add_to_existing g cid zs rem = Inr (gs, rem') \<Longrightarrow> list_all2 (gene_ok g) (map fst zs) (map snd zs)
   \<Longrightarrow> list_all2 (gene_ok g) gs (map snd zs)"
proof (induction g cid zs rem arbitrary: gs rem' rule: add_to_existing.induct)
  case (1 g cargo_id remaining)
  then show ?case by simp
next
  case (2 g cargo_id existing_cargo_id existing_qty tid rest remaining)
  from "2.prems"(2) have rest: "list_all2 (gene_ok g) (map fst rest) (map snd rest)"
    and hd: "gene_ok g (existing_cargo_id, existing_qty) tid" by simp_all
  show ?case
  proof (cases "existing_cargo_id = Some cargo_id \<and> remaining > 0.001")
    case False
    with "2.prems"(1) obtain gs' where
      r: "add_to_existing g cargo_id rest remaining = Inr (gs', rem')"
      and gs: "gs = (existing_cargo_id, existing_qty) # gs'"
      by (auto dest!: cons_gene_Inr)
    from "2.IH"(3) [OF False r rest] hd gs show ?thesis by simp
  next
    case True
    with "2.prems"(1) obtain tv where tv: "volume_of g tid = Inr tv"
      by (auto split: sum.splits)
    define to_add where "to_add = min remaining (tv - existing_qty)"
    show ?thesis
    proof (cases "to_add > 0.001")
      case t: True
      from True tv have "add_to_existing g cargo_id (((existing_cargo_id, existing_qty), tid) # rest) remaining
          = (if to_add > 0.001
             then cons_gene (Some cargo_id, existing_qty + to_add) (add_to_existing g cargo_id rest (remaining - to_add))
             else cons_gene (existing_cargo_id, existing_qty) (add_to_existing g cargo_id rest remaining))"
        by (simp only: add_to_existing.simps Let_def to_add_def simp_thms if_True sum.case)
      with t have "add_to_existing g cargo_id (((existing_cargo_id, existing_qty), tid) # rest) remaining
          = cons_gene (Some cargo_id, existing_qty + to_add)
              (add_to_existing g cargo_id rest (remaining - to_add))"
        by simp
      with "2.prems"(1) have "cons_gene (Some cargo_id, existing_qty + to_add)
              (add_to_existing g cargo_id rest (remaining - to_add)) = Inr (gs, rem')" by simp
      from cons_gene_Inr [OF this] obtain gs' where
        r: "add_to_existing g cargo_id rest (remaining - to_add) = Inr (gs', rem')"
        and gs: "gs = (Some cargo_id, existing_qty + to_add) # gs'"
        by blast
      from t have t': "0.001 < min remaining (tv - existing_qty)" by (simp add: to_add_def)
      from "2.IH"(1) [OF True tv refl refl t' r [unfolded to_add_def] rest]
      have "list_all2 (gene_ok g) gs' (map snd rest)" .
      moreover have "gene_ok g (Some cargo_id, existing_qty + to_add) tid"
        using tv by (auto simp: gene_ok_def volume_of_def to_add_def split: option.splits)
      ultimately show ?thesis using gs by simp
    next
      case f: False
      from True tv have "add_to_existing g cargo_id (((existing_cargo_id, existing_qty), tid) # rest) remaining
          = (if to_add > 0.001
             then cons_gene (Some cargo_id, existing_qty + to_add) (add_to_existing g cargo_id rest (remaining - to_add))
             else cons_gene (existing_cargo_id, existing_qty) (add_to_existing g cargo_id rest remaining))"
        by (simp only: add_to_existing.simps Let_def to_add_def simp_thms if_True sum.case)
      with f "2.prems"(1) have "cons_gene (existing_cargo_id, existing_qty)
              (add_to_existing g cargo_id rest remaining) = Inr (gs, rem')" by simp
      from cons_gene_Inr [OF this] obtain gs' where
        r: "add_to_existing g cargo_id rest remaining = Inr (gs', rem')"
        and gs: "gs = (existing_cargo_id, existing_qty) # gs'"
        by blast
      from f have f': "\<not> 0.001 < min remaining (tv - existing_qty)" by (simp add: to_add_def)
      from "2.IH"(2) [OF True tv refl refl f' r rest] hd gs show ?thesis by simp
    qed
  qed
qed

lemma add_to_empty_ok:
  "add_to_empty g cid zs rem = Inr (gs, rem') \<Longrightarrow> list_all2 (gene_ok g) (map fst zs) (map snd zs)
   \<Longrightarrow> list_all2 (gene_ok g) gs (map snd zs)"
proof (induction g cid zs rem arbitrary: gs rem' rule: add_to_empty.induct)
  case (1 g cargo_id remaining)
  then show ?case by simp
next
  case (2 g cargo_id existing_cargo_id existing_qty tid rest remaining)
  from "2.prems"(2) have rest: "list_all2 (gene_ok g) (map fst rest) (map snd rest)"
    and hd: "gene_ok g (existing_cargo_id, existing_qty) tid" by simp_all
  show ?case
  proof (cases "existing_cargo_id = None \<and> remaining > 0.001")
    case False
    with "2.prems"(1) obtain gs' where
      r: "add_to_empty g cargo_id rest remaining = Inr (gs', rem')"
      and gs: "gs = (existing_cargo_id, existing_qty) # gs'"
      by (auto dest!: cons_gene_Inr)
    from "2.IH"(3) [OF False r rest] hd gs show ?thesis by simp
  next
    case True
    with "2.prems"(1) obtain tv where tv: "volume_of g tid = Inr tv"
      by (auto split: sum.splits)
    define to_add where "to_add = min remaining tv"
    show ?thesis
    proof (cases "to_add > 0.001")
      case t: True
      from True tv have "add_to_empty g cargo_id (((existing_cargo_id, existing_qty), tid) # rest) remaining
          = (if to_add > 0.001
             then cons_gene (Some cargo_id, to_add) (add_to_empty g cargo_id rest (remaining - to_add))
             else cons_gene (existing_cargo_id, existing_qty) (add_to_empty g cargo_id rest remaining))"
        by (simp only: add_to_empty.simps Let_def to_add_def simp_thms if_True sum.case)
      with t have "add_to_empty g cargo_id (((existing_cargo_id, existing_qty), tid) # rest) remaining
          = cons_gene (Some cargo_id, to_add)
              (add_to_empty g cargo_id rest (remaining - to_add))"
        by simp
      with "2.prems"(1) have "cons_gene (Some cargo_id, to_add)
              (add_to_empty g cargo_id rest (remaining - to_add)) = Inr (gs, rem')" by simp
      from cons_gene_Inr [OF this] obtain gs' where
        r: "add_to_empty g cargo_id rest (remaining - to_add) = Inr (gs', rem')"
        and gs: "gs = (Some cargo_id, to_add) # gs'"
        by blast
      from t have t': "0.001 < min remaining tv" by (simp add: to_add_def)
      from "2.IH"(1) [OF True tv refl t' r [unfolded to_add_def] rest]
      have "list_all2 (gene_ok g) gs' (map snd rest)" .
      moreover have "gene_ok g (Some cargo_id, to_add) tid"
        using tv by (auto simp: gene_ok_def volume_of_def to_add_def split: option.splits)
      ultimately show ?thesis using gs by simp
    next
      case f: False
      from True tv have "add_to_empty g cargo_id (((existing_cargo_id, existing_qty), tid) # rest) remaining
          = (if to_add > 0.001
             then cons_gene (Some cargo_id, to_add) (add_to_empty g cargo_id rest (remaining - to_add))
             else cons_gene (existing_cargo_id, existing_qty) (add_to_empty g cargo_id rest remaining))"
        by (simp only: add_to_empty.simps Let_def to_add_def simp_thms if_True sum.case)
      with f "2.prems"(1) have "cons_gene (existing_cargo_id, existing_qty)
              (add_to_empty g cargo_id rest remaining) = Inr (gs, rem')" by simp
      from cons_gene_Inr [OF this] obtain gs' where
        r: "add_to_empty g cargo_id rest remaining = Inr (gs', rem')"
        and gs: "gs = (existing_cargo_id, existing_qty) # gs'"
        by blast
      from f have f': "\<not> 0.001 < min remaining tv" by (simp add: to_add_def)
      from "2.IH"(2) [OF True tv refl f' r rest] hd gs show ?thesis by simp
    qed
  qed
qed

lemma zip_fst_snd:
  "length xs = length ys \<Longrightarrow> map fst (zip xs ys) = xs \<and> map snd (zip xs ys) = ys"
  by (simp add: map_fst_zip map_snd_zip)

lemma add_cargo_to_chromosome_ok:
  assumes "add_cargo_to_chromosome g c cid q = Inr c'"
    and ok: "list_all2 (gene_ok g) (genes c) (c_tank_ids c)"
  shows "c_tank_ids c' = c_tank_ids c \<and> list_all2 (gene_ok g) (genes c') (c_tank_ids c')"
proof -
  from ok have len: "length (genes c) = length (c_tank_ids c)" by (rule list_all2_lengthD)
  from assms(1) obtain gs1 r1 gs2 r2 where
    1: "add_to_existing g cid (zip (genes c) (c_tank_ids c)) q = Inr (gs1, r1)"
    and 2: "add_to_empty g cid (zip gs1 (c_tank_ids c)) r1 = Inr (gs2, r2)"
    and c': "c' = c\<lparr>genes := gs2\<rparr>"
    by (auto simp: add_cargo_to_chromosome_def split: sum.splits)
  from add_to_existing_ok [OF 1] ok len
  have ok1: "list_all2 (gene_ok g) gs1 (c_tank_ids c)" by (simp add: zip_fst_snd)
  then have len1: "length gs1 = length (c_tank_ids c)" by (rule list_all2_lengthD)
  from add_to_empty_ok [OF 2] ok1 len1
  have "list_all2 (gene_ok g) gs2 (c_tank_ids c)" by (simp add: zip_fst_snd)
  with c' show ?thesis by simp
qed

lemma remove_from_genes_ok:
  "list_all2 (gene_ok g) gs tids \<Longrightarrow> list_all2 (gene_ok g) (remove_from_genes cid gs rem) tids"
proof (induction cid gs rem arbitrary: tids rule: remove_from_genes.induct)
  case (1 cargo_id remaining)
  then show ?case by simp
next
  case (2 cargo_id existing_cargo_id existing_qty rest remaining)
  from "2.prems" obtain tid tids' where tids: "tids = tid # tids'"
    and hd: "gene_ok g (existing_cargo_id, existing_qty) tid"
    and rest: "list_all2 (gene_ok g) rest tids'"
    by (cases tids) auto
  show ?case
  proof (cases "existing_cargo_id = Some cargo_id \<and> remaining > 0.001")
    case False
    with "2.IH"(2) [OF False rest] hd tids show ?thesis by auto
  next
    case True
    define to_remove where "to_remove = min remaining existing_qty"
    have new: "gene_ok g (if existing_qty - to_remove < 0.001 then (None, 0)
                 else (Some cargo_id, existing_qty - to_remove)) tid"
      using hd True by (auto simp: gene_ok_def to_remove_def split: option.splits)
    from "2.IH"(1) [OF True refl refl rest]
    have "list_all2 (gene_ok g) (remove_from_genes cargo_id rest (remaining - to_remove)) tids'"
      by (simp add: to_remove_def)
    moreover have "remove_from_genes cargo_id ((existing_cargo_id, existing_qty) # rest) remaining
        = (if existing_qty - to_remove < 0.001 then (None, 0) else (Some cargo_id, existing_qty - to_remove))
          # remove_from_genes cargo_id rest (remaining - to_remove)"
      by (simp only: remove_from_genes.simps True Let_def to_remove_def simp_thms if_True)
    ultimately show ?thesis using new tids by simp
  qed
qed

lemma repair_cargos_ok:
  "repair_cargos g cs c = Inr c' \<Longrightarrow> list_all2 (gene_ok g) (genes c) (c_tank_ids c)
   \<Longrightarrow> c_tank_ids c' = c_tank_ids c \<and> list_all2 (gene_ok g) (genes c') (c_tank_ids c')"
proof (induction cs arbitrary: c)
  case Nil
  then show ?case by simp
next
  case (Cons cargo rest)
  define total_loaded where "total_loaded = cargo_total (genes c) (unique_id cargo)"
  define min_allowed where "min_allowed = quantity cargo * (1 - ga_receiver_tolerance (opt_settings g))"
  define max_allowed where "max_allowed = quantity cargo * (1 + ga_receiver_tolerance (opt_settings g))"
  consider (add) "total_loaded < min_allowed"
    | (remove) "\<not> total_loaded < min_allowed" "total_loaded > max_allowed"
    | (keep) "\<not> total_loaded < min_allowed" "\<not> total_loaded > max_allowed" by blast
  then show ?case
  proof cases
    case add
    with Cons.prems(1) obtain c1 where
      1: "add_cargo_to_chromosome g c (unique_id cargo) (min_allowed - total_loaded) = Inr c1"
      and 2: "repair_cargos g rest c1 = Inr c'"
      by (auto simp: Let_def total_loaded_def min_allowed_def split: sum.splits)
    from add_cargo_to_chromosome_ok [OF 1 Cons.prems(2)]
    have a: "c_tank_ids c1 = c_tank_ids c" "list_all2 (gene_ok g) (genes c1) (c_tank_ids c1)" by blast+
    from Cons.IH [OF 2 a(2)] a(1) show ?thesis by auto
  next
    case remove
    define c1 where "c1 = remove_cargo_from_chromosome c (unique_id cargo) (total_loaded - max_allowed)"
    from remove Cons.prems(1) have 2: "repair_cargos g rest c1 = Inr c'"
      by (simp add: Let_def total_loaded_def min_allowed_def max_allowed_def c1_def)
    have a: "c_tank_ids c1 = c_tank_ids c" "list_all2 (gene_ok g) (genes c1) (c_tank_ids c1)"
      using Cons.prems(2) by (simp_all add: c1_def remove_cargo_from_chromosome_def remove_from_genes_ok)
    from Cons.IH [OF 2 a(2)] a(1) show ?thesis by auto
  next
    case keep
    with Cons.prems(1) have 2: "repair_cargos g rest c = Inr c'"
      by (simp add: Let_def total_loaded_def min_allowed_def max_allowed_def)
    from Cons.IH [OF 2 Cons.prems(2)] show ?thesis .
  qed
qed

lemma chromosome_copy_Inr: "chromosome_copy c = Inr c' \<Longrightarrow> c' = c \<and> length (genes c) = length (c_tank_ids c)"
  by (auto simp: chromosome_copy_def Chromosome_init_def split: if_splits)

lemma repair_chromosome_ok:
  assumes "repair_chromosome g c = Inr c'"
  shows "c_tank_ids c' = c_tank_ids c \<and> list_all2 (gene_ok g) (genes c') (c_tank_ids c')"
proof -
  from assms obtain gs where len: "length (genes c) = length (c_tank_ids c)"
    and 1: "cap_genes g (zip (genes c) (c_tank_ids c)) = Inr gs"
    and 2: "repair_cargos g (regular_cargos g) (c\<lparr>genes := gs\<rparr>) = Inr c'"
    by (auto simp: repair_chromosome_def split: sum.splits dest!: chromosome_copy_Inr)
  from cap_genes_ok [OF 1] len have "list_all2 (gene_ok g) gs (c_tank_ids c)"
    by (simp add: zip_fst_snd)
  with repair_cargos_ok [OF 2] show ?thesis by auto
qed

lemma repair_chromosome_wfc:
  "repair_chromosome g c = Inr c' \<Longrightarrow> c_tank_ids c = tank_ids g \<Longrightarrow> wfc g c'"
  using repair_chromosome_ok [of g c c'] by (auto simp: wfc_def)

lemma sample_from_subset: "sample_from xs k r = (ys, r') \<Longrightarrow> set ys \<subseteq> set xs"
proof (induction xs k r arbitrary: ys r' rule: sample_from.induct)
  case (1 xs g)
  then show ?case by simp
next
  case (2 xs k g)
  show ?case
  proof (cases "xs = []")
    case True
    with "2.prems" show ?thesis by simp
  next
    case False
    obtain n g' where n: "next_nat g = (n, g')" by (cases "next_nat g")
    define i where "i = n mod length xs"
    obtain zs g'' where r: "sample_from (take i xs @ drop (Suc i) xs) k g' = (zs, g'')"
      by (cases "sample_from (take i xs @ drop (Suc i) xs) k g'")
    from False have i: "i < length xs" by (simp add: i_def)
    from "2.prems" False n r have ys: "ys = xs ! i # zs"
      by (simp add: Let_def i_def)
    from "2.IH" [OF False n [symmetric] i_def r]
    have "set zs \<subseteq> set (take i xs @ drop (Suc i) xs)" by (simp add: i_def)
    also have "\<dots> \<subseteq> set xs"
      using set_take_subset [of i xs] set_drop_subset [of "Suc i" xs] by auto
    finally show ?thesis using ys i by simp
  qed
qed

lemma foldl_pick: "foldl (\<lambda>b idx. if P idx b then idx else b) i0 xs \<in> insert i0 (set xs)"
proof (induction xs arbitrary: i0)
  case Nil
  then show ?case by simp
next
  case (Cons a xs)
  from Cons.IH [of "if P a i0 then a else i0"] show ?case by (auto split: if_splits)
qed

lemma argmax_index_lt: "argmax_index fs = Inr i \<Longrightarrow> i < length fs"
proof -
  assume a: "argmax_index fs = Inr i"
  then have ne: "fs \<noteq> []" and i: "i = foldl (\<lambda>b i. if fs ! i > fs ! b then i else b) 0 [1 ..< length fs]"
    by (auto simp: argmax_index_def split: if_splits)
  from foldl_pick [of "\<lambda>i b. fs ! i > fs ! b" 0 "[1 ..< length fs]"] i
  have "i \<in> insert 0 (set [1 ..< length fs])" by simp
  with ne show ?thesis by auto
qed

lemma tournament_selection_mem:
  assumes "tournament_selection g population fs r = Inr (c, r')"
  shows "c \<in> set population"
proof -
  from assms obtain i0 others where
    s: "sample [0 ..< length population]
          (min (ga_tournament_size (opt_settings g)) (int (length population))) r = Inr (i0 # others, r')"
    and c: "chromosome_copy (population ! foldl (\<lambda>b idx. if fs ! idx > fs ! b then idx else b) i0 others) = Inr c"
    by (auto simp: tournament_selection_def Let_def split: sum.splits list.splits)
  from s have "set (i0 # others) \<subseteq> set [0 ..< length population]"
    by (auto simp: sample_def split: if_splits dest!: sample_from_subset)
  with foldl_pick [of "\<lambda>idx b. fs ! idx > fs ! b" i0 others]
  have "foldl (\<lambda>b idx. if fs ! idx > fs ! b then idx else b) i0 others < length population"
    by auto
  with c show ?thesis by (auto dest!: chromosome_copy_Inr)
qed

lemma create_random_chromosome_ids:
  "create_random_chromosome g r = Inr (c, r') \<Longrightarrow> c_tank_ids c = tank_ids g"
  by (auto simp: create_random_chromosome_def Chromosome_init_def split: sum.splits if_splits)

lemma create_population_wfc:
  "create_population g n r = Inr (cs, r') \<Longrightarrow> \<forall>c \<in> set cs. wfc g c"
proof (induction n arbitrary: r cs)
  case 0
  then show ?case by simp
next
  case (Suc n)
  from Suc.prems obtain c r1 c1 cs1 where
    1: "create_random_chromosome g r = Inr (c, r1)"
    and 2: "repair_chromosome g c = Inr c1"
    and 3: "create_population g n r1 = Inr (cs1, r')"
    and cs: "cs = c1 # cs1"
    by (auto split: sum.splits)
  from repair_chromosome_wfc [OF 2 create_random_chromosome_ids [OF 1]] Suc.IH [OF 3] cs
  show ?case by simp
qed

lemma copy_all_Inr: "copy_all cs = Inr cs' \<Longrightarrow> cs' = cs"
  by (induction cs arbitrary: cs') (auto split: sum.splits dest!: chromosome_copy_Inr)

lemma py_sorted_reverse_set: "set (py_sorted_reverse k xs) = set xs \<and> length (py_sorted_reverse k xs) = length xs"
  by (simp add: py_sorted_reverse_def)

lemma elites_wfc:
  assumes "elites g population fs = Inr new0" "\<forall>c \<in> set population. wfc g c"
  shows "\<forall>c \<in> set new0. wfc g c"
proof (cases "ga_use_elitism (opt_settings g)")
  case False
  with assms(1) show ?thesis by (simp add: elites_def)
next
  case True
  define si where "si = py_sorted_reverse (\<lambda>i. fs ! i) [0 ..< length population]"
  define n where "n = nat (min (ga_elitism_count (opt_settings g)) (int (length population)))"
  from True assms(1) have "copy_all (map (\<lambda>i. population ! (si ! i)) [0 ..< n]) = Inr new0"
    by (simp add: elites_def Let_def si_def n_def)
  then have new0: "new0 = map (\<lambda>i. population ! (si ! i)) [0 ..< n]" by (rule copy_all_Inr)
  have si: "set si = set [0 ..< length population]" "length si = length population"
    using py_sorted_reverse_set [of "\<lambda>i. fs ! i" "[0 ..< length population]"] by (simp_all add: si_def)
  have n: "n \<le> length population" by (simp add: n_def)
  have "population ! (si ! i) \<in> set population" if "i < n" for i
  proof -
    from that n si have "i < length si" by simp
    then have "si ! i \<in> set si" by (rule nth_mem)
    with si have "si ! i < length population" by simp
    then show ?thesis by simp
  qed
  with assms(2) new0 show ?thesis by auto
qed

lemma py_slice_to_subset: "set (py_slice_to xs n) \<subseteq> set xs"
  by (auto simp: py_slice_to_def dest: in_set_takeD)

lemma res_ok_Inl: "res_ok P (Inl err)"
  by (simp add: res_ok_def)

lemma res_ok_Inr: "P v \<Longrightarrow> res_ok P (Inr v)"
  by (simp add: res_ok_def)

lemma res_ok_if: "res_ok P x \<Longrightarrow> res_ok P y \<Longrightarrow> res_ok P (if b then x else y)"
  by simp

lemma res_ok_case_sum:
  "(\<And>v. res_ok P (f v)) \<Longrightarrow> res_ok P (case s of Inl err \<Rightarrow> Inl err | Inr v \<Rightarrow> f v)"
  by (cases s) (simp_all add: res_ok_def)

lemma res_ok_case_prod: "(\<And>a b. res_ok P (f a b)) \<Longrightarrow> res_ok P (case p of (a, b) \<Rightarrow> f a b)"
  by (cases p) simp

lemma res_okD: "res_ok P x \<Longrightarrow> x = Inr v \<Longrightarrow> P v"
  by (simp add: res_ok_def)

lemmas res_ok_intros = res_ok_if res_ok_case_sum res_ok_case_prod res_ok_Inl res_ok_Inr

lemma mutate_swap_ids: "mutate_swap c r = Inr (c', r') \<Longrightarrow> c_tank_ids c' = c_tank_ids c"
proof -
  have "res_ok (\<lambda>x. c_tank_ids (fst x) = c_tank_ids c) (mutate_swap c r)"
    unfolding mutate_swap_def Let_def
    by (intro res_ok_intros) simp_all
  then show "mutate_swap c r = Inr (c', r') \<Longrightarrow> c_tank_ids c' = c_tank_ids c"
    by (auto dest: res_okD)
qed

lemma mutate_transfer_ids: "mutate_transfer g c r = Inr (c', r') \<Longrightarrow> c_tank_ids c' = c_tank_ids c"
proof -
  have "res_ok (\<lambda>x. c_tank_ids (fst x) = c_tank_ids c) (mutate_transfer g c r)"
    unfolding mutate_transfer_def Let_def
    by (intro res_ok_intros) simp_all
  then show "mutate_transfer g c r = Inr (c', r') \<Longrightarrow> c_tank_ids c' = c_tank_ids c"
    by (auto dest: res_okD)
qed

lemma mutate_shift_ids: "mutate_shift g c r = Inr (c', r') \<Longrightarrow> c_tank_ids c' = c_tank_ids c"
proof -
  have "res_ok (\<lambda>x. c_tank_ids (fst x) = c_tank_ids c) (mutate_shift g c r)"
    unfolding mutate_shift_def Let_def
    by (intro res_ok_intros) simp_all
  then show "mutate_shift g c r = Inr (c', r') \<Longrightarrow> c_tank_ids c' = c_tank_ids c"
    by (auto dest: res_okD)
qed

lemma res_ok_bind:
  "res_ok Q s \<Longrightarrow> (\<And>v. Q v \<Longrightarrow> res_ok P (f v))
   \<Longrightarrow> res_ok P (case s of Inl err \<Rightarrow> Inl err | Inr v \<Rightarrow> f v)"
  by (cases s) (simp_all add: res_ok_def)

lemma res_okI: "(\<And>v. x = Inr v \<Longrightarrow> P v) \<Longrightarrow> res_ok P x"
  by (cases x) (simp_all add: res_ok_def)

lemma mutate_wfc:
  assumes "mutate g c r = Inr (c', r')" "c_tank_ids c = tank_ids g"
  shows "wfc g c'"
proof -
  from assms(1) obtain mt r1 m where
    m: "(case mt of Swap \<Rightarrow> mutate_swap c r1 | Transfer \<Rightarrow> mutate_transfer g c r1
         | Shift \<Rightarrow> mutate_shift g c r1) = Inr (m, r')"
    and rp: "repair_chromosome g m = Inr c'"
    by (auto simp: mutate_def split: sum.splits dest!: chromosome_copy_Inr)
  from m have "c_tank_ids m = c_tank_ids c"
    by (cases mt) (auto dest: mutate_swap_ids mutate_transfer_ids mutate_shift_ids)
  with repair_chromosome_wfc [OF rp] assms(2) show ?thesis by simp
qed

lemma res_ok_prod_eq:
  "(\<And>a b. p = (a, b) \<Longrightarrow> res_ok P (f a b)) \<Longrightarrow> res_ok P (case p of (a, b) \<Rightarrow> f a b)"
  by (cases p) simp

lemma res_ok_prod_eq3:
  "(\<And>a b. p = (a, b) \<Longrightarrow> res_ok P (f a b c)) \<Longrightarrow> res_ok P (case_prod f p c)"
  by (cases p) simp

lemma copy_res: "res_ok (\<lambda>c'. c' = c) (chromosome_copy c)"
  by (rule res_okI) (simp add: chromosome_copy_Inr)

lemma init_res: "res_ok (\<lambda>c. c_tank_ids c = tids) (Chromosome_init gs tids)"
  by (rule res_okI) (auto simp: Chromosome_init_def split: if_splits)

lemma repair_res: "c_tank_ids c = tank_ids g \<Longrightarrow> res_ok (wfc g) (repair_chromosome g c)"
  by (rule res_okI) (simp add: repair_chromosome_wfc)

lemma tournament_res:
  "\<forall>c \<in> set population. wfc g c
   \<Longrightarrow> res_ok (\<lambda>x. wfc g (fst x)) (tournament_selection g population fs r)"
  by (rule res_okI) (auto dest: tournament_selection_mem)

lemma mutate_res: "c_tank_ids c = tank_ids g \<Longrightarrow> res_ok (\<lambda>x. wfc g (fst x)) (mutate g c r)"
  by (rule res_okI) (auto dest: mutate_wfc)

lemma crossover_res:
  assumes "wfc g p1" "wfc g p2"
  shows "res_ok (\<lambda>x. wfc g (fst (fst x)) \<and> wfc g (snd (fst x))) (two_point_crossover g p1 p2 r)"
  unfolding two_point_crossover_def Let_def
  apply (rule res_ok_if)
   apply (rule res_ok_bind [OF copy_res])
   apply (rule res_ok_bind [OF copy_res])
   apply (rule res_ok_Inr)
   apply (simp add: assms)
  apply (rule res_ok_case_sum)
  apply (rule res_ok_case_prod)
  apply (rule res_ok_case_sum)
  apply (rule res_ok_case_prod)
  apply (rule res_ok_bind [OF init_res])
  apply (rule res_ok_bind [OF init_res])
  apply (rule res_ok_bind [OF repair_res])
   apply (use assms in \<open>simp add: wfc_def\<close>)
  apply (rule res_ok_bind [OF repair_res])
   apply (use assms in \<open>simp add: wfc_def\<close>)
  apply (rule res_ok_Inr)
  apply simp
  done

lemma breed_res:
  assumes pop: "\<forall>c \<in> set population. wfc g c"
  shows "res_ok (\<lambda>x. wfc g (fst (fst x)) \<and> wfc g (snd (fst x))) (breed g population fs r)"
  unfolding breed_def
  apply (rule res_ok_bind [OF tournament_res [OF pop]])
  apply (rule res_ok_prod_eq)
  apply (rule res_ok_bind [OF tournament_res [OF pop]])
  apply (rule res_ok_prod_eq)
  apply (rule res_ok_prod_eq)
  apply (rule res_ok_bind [where Q = "\<lambda>x. wfc g (fst (fst x)) \<and> wfc g (snd (fst x))"])
   apply (rule res_ok_if)
    apply (rule crossover_res)
     apply simp
    apply simp
   apply (rule res_ok_bind [OF copy_res])
   apply (rule res_ok_bind [OF copy_res])
   apply (rule res_ok_Inr)
   apply simp
  apply (rule res_ok_prod_eq)
  apply (rule res_ok_prod_eq)
  apply (rule res_ok_prod_eq)
  apply (rule res_ok_bind [where Q = "\<lambda>x. wfc g (fst x)"])
   apply (rule res_ok_if)
    apply (rule mutate_res)
    apply (simp add: wfc_def)
   apply (rule res_ok_Inr)
   apply simp
  apply (rule res_ok_prod_eq)
  apply (rule res_ok_prod_eq)
  apply (rule res_ok_bind [where Q = "\<lambda>x. wfc g (fst x)"])
   apply (rule res_ok_if)
    apply (rule mutate_res)
    apply (simp add: wfc_def)
   apply (rule res_ok_Inr)
   apply simp
  apply (rule res_ok_prod_eq)
  apply (rule res_ok_Inr)
  apply simp
  done

lemma breed_wfc:
  assumes "breed g population fs r = Inr ((o1, o2), r')" "\<forall>c \<in> set population. wfc g c"
  shows "wfc g o1 \<and> wfc g o2"
  using res_okD [OF breed_res [OF assms(2)] assms(1)] by simp

lemma make_offspring_wfc:
  "make_offspring g population fs k new r = Inr (new', r') \<Longrightarrow> \<forall>c \<in> set population. wfc g c
   \<Longrightarrow> \<forall>c \<in> set new. wfc g c \<Longrightarrow> \<forall>c \<in> set new'. wfc g c"
proof (induction g population fs k new r arbitrary: new' r' rule: make_offspring.induct)
  case (1 g population fitness_scores new_population r)
  then show ?case by simp
next
  case (2 g population fitness_scores new_population r)
  from "2.prems"(1) obtain o1 o2 where
    b: "breed g population fitness_scores r = Inr ((o1, o2), r')" and n: "new' = new_population @ [o1]"
    by (auto split: sum.splits)
  from breed_wfc [OF b "2.prems"(2)] "2.prems"(3) n show ?case by auto
next
  case (3 g population fitness_scores k new_population r)
  from "3.prems"(1) obtain o1 o2 r1 where
    b: "breed g population fitness_scores r = Inr ((o1, o2), r1)"
    and m: "make_offspring g population fitness_scores k (new_population @ [o1, o2]) r1 = Inr (new', r')"
    by (auto split: sum.splits)
  from breed_wfc [OF b "3.prems"(2)] "3.prems"(3)
  have "\<forall>c \<in> set (new_population @ [o1, o2]). wfc g c" by auto
  from "3.IH" [OF b refl refl m "3.prems"(2) this] show ?case .
qed

lemma evolve_wfc:
  "evolve g n population fs best bf history r = Inr c \<Longrightarrow> \<forall>c \<in> set population. wfc g c
   \<Longrightarrow> wfc g best \<Longrightarrow> wfc g c"
proof (induction n arbitrary: population fs best bf history r)
  case 0
  then show ?case by simp
next
  case (Suc n)
  from Suc.prems(1) obtain new0 new1 r1 where
    e: "elites g population fs = Inr new0"
    and m: "make_offspring g population fs
             (nat (ga_population_size (opt_settings g) - int (length new0))) new0 r = Inr (new1, r1)"
    by (auto split: sum.splits)
  define np where "np = py_slice_to new1 (ga_population_size (opt_settings g))"
  define fs' where "fs' = map (calculate_fitness g) np"
  from Suc.prems(1) e m obtain idx where idx: "argmax_index fs' = Inr idx"
    by (auto simp: Let_def np_def fs'_def split: sum.splits)
  define nb where "nb = (if fs' ! idx > bf
                       then (case chromosome_copy (np ! idx) of
                               Inl err \<Rightarrow> Inl err
                             | Inr c \<Rightarrow> Inr (c, fs' ! idx))
                       else Inr (best, bf))"
  define cont where "cont = (\<lambda>best' bf'.
         (let history' = history @ [bf']
          in if int (length history') \<ge> ga_convergence_generations (opt_settings g)
             then (case py_nth history' (- ga_convergence_generations (opt_settings g)) of
                     Inl err \<Rightarrow> Inl err
                   | Inr old \<Rightarrow>
                       if last history' - old < ga_convergence_threshold (opt_settings g)
                       then Inr best'
                       else evolve g n np fs' best' bf' history' r1)
             else evolve g n np fs' best' bf' history' r1))"
  have eq: "evolve g (Suc n) population fs best bf history r
      = (case nb of Inl err \<Rightarrow> Inl err | Inr (best', bf') \<Rightarrow> cont best' bf')"
    unfolding evolve.simps e m sum.case prod.case Let_def np_def fs'_def idx [unfolded fs'_def np_def]
      nb_def cont_def ..
  from Suc.prems(1) eq obtain best' bf' where nb: "nb = Inr (best', bf')"
    and ct: "cont best' bf' = Inr c"
    by (cases nb) auto
  from make_offspring_wfc [OF m Suc.prems(2) elites_wfc [OF e Suc.prems(2)]]
  have new1: "\<forall>c \<in> set new1. wfc g c" .
  with py_slice_to_subset [of new1] have np: "\<forall>c \<in> set np. wfc g c"
    by (auto simp: np_def)
  from argmax_index_lt [OF idx] have "idx < length np" by (simp add: fs'_def)
  then have "np ! idx \<in> set np" by simp
  with np have "wfc g (np ! idx)" by simp
  with nb Suc.prems(3) have best': "wfc g best'"
    by (auto simp: nb_def split: if_splits sum.splits dest!: chromosome_copy_Inr)
  from ct have "c = best' \<or> evolve g n np fs' best' bf' (history @ [bf']) r1 = Inr c"
    by (auto simp: cont_def Let_def split: sum.splits if_splits)
  then show ?case
  proof
    assume "c = best'"
    with best' show ?thesis by simp
  next
    assume "evolve g n np fs' best' bf' (history @ [bf']) r1 = Inr c"
    from Suc.IH [OF this np best'] show ?thesis .
  qed
qed

lemma get_tank_by_id_SomeD:
  "get_tank_by_id s tid = Some t \<Longrightarrow> t \<in> set (tanks s) \<and> tank_id t = tid"
  by (auto simp: get_tank_by_id_def find_Some_iff)

lemma find_distinct:
  "distinct (map f xs) \<Longrightarrow> x \<in> set xs \<Longrightarrow> find (\<lambda>t. f t = f x) xs = Some x"
  by (induction xs) force+

lemma get_tank_by_id_distinct:
  "distinct (map tank_id (tanks s)) \<Longrightarrow> t \<in> set (tanks s) \<Longrightarrow> get_tank_by_id s (tank_id t) = Some t"
  unfolding get_tank_by_id_def by (rule find_distinct)

lemma vol_le_update:
  assumes "vol_le s av" "case get_tank_by_id s k of None \<Rightarrow> False | Some t \<Rightarrow> v \<le> volume t"
  shows "vol_le s (AList.update k v av)"
  unfolding vol_le_def
proof
  fix x assume "x \<in> set (AList.update k v av)"
  with set_update_subset [of k v av] have "x = (k, v) \<or> x \<in> set av" by auto
  with assms show "case get_tank_by_id s (fst x) of None \<Rightarrow> False | Some t \<Rightarrow> snd x \<le> volume t"
    by (auto simp: vol_le_def split: option.splits)
qed

lemma keys_update_subset: "fst ` set (AList.update k v av) \<subseteq> insert k (fst ` set av)"
  using set_update_subset [of k v av] by auto

lemma alist_ok_update:
  "alist_ok mu s A ma \<Longrightarrow> entry_ok mu s A (tid, quantity_loaded a) \<Longrightarrow> alist_ok mu s A (AList.update tid a ma)"
  using set_update_subset [of tid a ma] by (auto simp: alist_ok_def)

lemma place_mandatory_fill_ok:
  "place_mandatory_fill s min_util c l st rem = Inr st' \<Longrightarrow> ship_ok mu s
   \<Longrightarrow> \<forall>x \<in> set l. fst x \<in> A \<and> 0 < snd x \<Longrightarrow> minv mu s A st \<Longrightarrow> minv mu s A st'"
proof (induction s min_util c l st rem rule: place_mandatory_fill.induct)
  case (1 s min_util c st remaining_qty)
  then show ?case by simp
next
  case (2 s min_util c tid available_vol rest st remaining_qty)
  from "2.prems"(3) have rest: "\<forall>x \<in> set rest. fst x \<in> A \<and> 0 < snd x"
    and tid: "tid \<in> A" and avp: "0 < available_vol" by simp_all
  show ?case
  proof (cases "remaining_qty < 0.001")
    case True
    with "2.prems" show ?thesis by simp
  next
    case nb: False
    show ?thesis
    proof (cases "get_tank_by_id s tid")
      case None
      with "2.prems"(1) nb have "place_mandatory_fill s min_util c rest st remaining_qty = Inr st'"
        by simp
      from "2.IH"(1) [OF nb None this "2.prems"(2) rest "2.prems"(4)] show ?thesis .
    next
      case (Some t)
      define qty where "qty = min remaining_qty (min available_vol (volume t))"
      from "2.prems"(1) nb Some have nz: "volume t \<noteq> 0"
        by (auto simp: Let_def split: if_splits)
      show ?thesis
      proof (cases "qty / volume t < min_util")
        case True
        with "2.prems"(1) nb Some nz
        have "place_mandatory_fill s min_util c rest st remaining_qty = Inr st'"
          by (simp add: Let_def qty_def)
        from "2.IH"(2) [OF nb Some qty_def nz True this "2.prems"(2) rest "2.prems"(4)]
        show ?thesis .
      next
        case False
        define ma where "ma = AList.update tid \<lparr>a_tank_id = tid, a_cargo = c, quantity_loaded = qty\<rparr> (fst st)"
        define av1 where "av1 = avail_sub (snd st) tid qty"
        define av2 where "av2 = (case map_of av1 tid of
                                    None \<Rightarrow> av1
                                  | Some v \<Rightarrow> if v < 0.001 then AList.update tid 0 av1 else av1)"
        have "place_mandatory_fill s min_util c ((tid, available_vol) # rest) st remaining_qty
            = place_mandatory_fill s min_util c rest (ma, av2) (remaining_qty - qty)"
          by (simp only: place_mandatory_fill.simps Let_def qty_def ma_def av1_def av2_def
                nb Some nz False [unfolded qty_def] if_False option.case)
        with "2.prems"(1)
        have r: "place_mandatory_fill s min_util c rest (ma, av2) (remaining_qty - qty) = Inr st'"
          by simp
        have pos: "0 < qty \<and> 0 \<le> volume t" if mu: "0 < mu"
        proof -
          from get_tank_by_id_SomeD [OF Some] "2.prems"(2) mu have "0 < volume t"
            by (simp add: ship_ok_def)
          with nb avp show ?thesis by (simp add: qty_def)
        qed
        have le: "qty \<le> volume t" by (simp add: qty_def)
        from "2.prems"(4) have keys: "fst ` set (snd st) \<subseteq> A" and mok: "alist_ok mu s A (fst st)"
          and vl: "0 < mu \<Longrightarrow> vol_le s (snd st)" by (simp_all add: minv_def)
        from tid pos le Some have "entry_ok mu s A (tid, qty)"
          by (simp add: entry_ok_def fits_def)
        with mok have ma: "alist_ok mu s A ma"
          by (simp add: ma_def alist_ok_update)
        from keys have k1: "fst ` set av1 \<subseteq> A" by (simp add: av1_def keys_avail_sub)
        with tid keys_update_subset [of tid 0 av1] have k2: "fst ` set av2 \<subseteq> A"
          by (auto simp: av2_def split: option.splits)
        have v2: "vol_le s av2" if mu: "0 < mu"
        proof -
          have v1: "vol_le s av1"
          proof (cases "map_of (snd st) tid")
            case None
            with vl [OF mu] show ?thesis by (simp add: av1_def avail_sub_def)
          next
            case (Some v)
            then have "(tid, v) \<in> set (snd st)" by (rule map_of_SomeD)
            with vl [OF mu] \<open>get_tank_by_id s tid = Some t\<close> have "v \<le> volume t"
              by (force simp: vol_le_def)
            with pos [OF mu] have "v - qty \<le> volume t" by simp
            with \<open>get_tank_by_id s tid = Some t\<close> vl [OF mu] Some show ?thesis
              by (simp add: av1_def avail_sub_def vol_le_update)
          qed
          from pos [OF mu] \<open>get_tank_by_id s tid = Some t\<close> v1 have "vol_le s (AList.update tid 0 av1)"
            by (simp add: vol_le_update)
          with v1 show ?thesis by (simp add: av2_def split: option.splits)
        qed
        from ma k2 v2 have inv: "minv mu s A (ma, av2)" by (simp add: minv_def)
        from "2.IH"(3) [OF nb Some qty_def nz False ma_def av1_def av2_def r "2.prems"(2) rest inv]
        show ?thesis .
      qed
    qed
  qed
qed

lemma place_mandatory_loop_ok:
  "place_mandatory_loop s min_util cs st = Inr st' \<Longrightarrow> ship_ok mu s \<Longrightarrow> minv mu s A st
   \<Longrightarrow> minv mu s A st'"
proof (induction cs arbitrary: st)
  case Nil
  then show ?case by simp
next
  case (Cons c cs)
  define l where "l = py_sorted_reverse snd (filter (\<lambda>(tid, vol). vol > 0.001) (snd st))"
  have "place_mandatory_loop s min_util (c # cs) st
      = (case place_mandatory_fill s min_util c l st (quantity c) of
           Inl err \<Rightarrow> Inl err
         | Inr st1 \<Rightarrow> place_mandatory_loop s min_util cs st1)"
    by (simp only: place_mandatory_loop.simps l_def)
  with Cons.prems(1) obtain st1 where
    1: "place_mandatory_fill s min_util c l st (quantity c) = Inr st1"
    and 2: "place_mandatory_loop s min_util cs st1 = Inr st'"
    by (cases "place_mandatory_fill s min_util c l st (quantity c)") auto
  from Cons.prems(3) have "fst ` set (snd st) \<subseteq> A" by (simp add: minv_def)
  then have "\<forall>x \<in> set l. fst x \<in> A \<and> 0 < snd x"
    by (auto simp: l_def py_sorted_reverse_def)
  from place_mandatory_fill_ok [OF 1 Cons.prems(2) this Cons.prems(3)]
  have "minv mu s A st1" .
  from Cons.IH [OF 2 Cons.prems(2) this] show ?case .
qed

lemma foldl_tank_volumes:
  "set ts \<subseteq> set (tanks s) \<Longrightarrow> tank_id ` set ts \<subseteq> A \<Longrightarrow> ship_ok mu s
   \<Longrightarrow> fst ` set d \<subseteq> A \<and> (0 < mu \<longrightarrow> vol_le s d)
   \<Longrightarrow> fst ` set (foldl (\<lambda>d t. AList.update (tank_id t) (volume t) d) d ts) \<subseteq> A
       \<and> (0 < mu \<longrightarrow> vol_le s (foldl (\<lambda>d t. AList.update (tank_id t) (volume t) d) d ts))"
proof (induction ts arbitrary: d)
  case Nil
  then show ?case by simp
next
  case (Cons t ts)
  from Cons.prems(1,2) have t: "t \<in> set (tanks s)" "tank_id t \<in> A"
    and ts: "set ts \<subseteq> set (tanks s)" "tank_id ` set ts \<subseteq> A" by auto
  have "fst ` set (AList.update (tank_id t) (volume t) d) \<subseteq> insert (tank_id t) (fst ` set d)"
    by (rule keys_update_subset)
  also from Cons.prems(4) t(2) have "\<dots> \<subseteq> A" by simp
  finally have k: "fst ` set (AList.update (tank_id t) (volume t) d) \<subseteq> A" .
  have v: "vol_le s (AList.update (tank_id t) (volume t) d)" if mu: "0 < mu"
  proof -
    from Cons.prems(3) mu t(1) have "get_tank_by_id s (tank_id t) = Some t"
      by (simp add: ship_ok_def get_tank_by_id_distinct)
    with Cons.prems(4) mu show ?thesis by (simp add: vol_le_update)
  qed
  from Cons.IH [OF ts Cons.prems(3)] k v show ?case by simp
qed

lemma initial_available_vol_le:
  assumes "ship_ok mu s" "0 < mu"
  shows "vol_le s (initial_available s ex)"
proof -
  have "\<And>av. set ts \<subseteq> set (tanks s) \<Longrightarrow> vol_le s av \<Longrightarrow>
     vol_le s (foldl (\<lambda>av t. if tank_id t \<notin> ex then AList.update (tank_id t) (volume t) av else av) av ts)"
    for ts
  proof (induction ts)
    case Nil
    then show ?case by simp
  next
    case (Cons t ts)
    from Cons.prems(1) have t: "t \<in> set (tanks s)" and ts: "set ts \<subseteq> set (tanks s)" by auto
    from assms t have "get_tank_by_id s (tank_id t) = Some t"
      by (simp add: ship_ok_def get_tank_by_id_distinct)
    with Cons.prems(2) have "vol_le s (AList.update (tank_id t) (volume t) av)"
      by (simp add: vol_le_update)
    with Cons.IH [OF ts] Cons.prems(2) show ?case by simp
  qed
  from this [of "tanks s" "[]"] show ?thesis
    by (simp add: initial_available_def vol_le_def)
qed

lemma update_tank_volumes_vol_le:
  "vol_le s av \<Longrightarrow> vol_le s tv \<Longrightarrow> vol_le s (update_tank_volumes av tv)"
  unfolding update_tank_volumes_def
proof (induction av arbitrary: tv)
  case Nil
  then show ?case by simp
next
  case (Cons x av)
  obtain tid v where x: "x = (tid, v)" by (cases x)
  from Cons.prems(1) x have v: "case get_tank_by_id s tid of None \<Rightarrow> False | Some t \<Rightarrow> v \<le> volume t"
    and av: "vol_le s av" by (auto simp: vol_le_def split: option.splits)
  from v Cons.prems(2) have "vol_le s (if tid \<in> set (map fst tv) then AList.update tid v tv else tv)"
    by (simp add: vol_le_update)
  from Cons.IH [OF av this] x show ?case by simp
qed

lemma state_ok_add_any:
  assumes "state_ok mu s A (p, av)" "entry_ok mu s A (tid, quantity_loaded a)"
  shows "state_ok mu s A (add_assignment p tid a, av)"
  using assms set_update_subset [of tid a "assignments p"]
  by (auto simp: state_ok_def add_assignment_def)

lemma foldl_inv:
  "I p \<Longrightarrow> (\<And>q x. x \<in> set l \<Longrightarrow> I q \<Longrightarrow> I (f q x)) \<Longrightarrow> I (foldl f p l)"
  by (induction l arbitrary: p) simp_all

lemma foldl_add_ok:
  assumes "alist_ok mu s A l" "state_ok mu s A (p, [])"
  shows "state_ok mu s A (foldl (\<lambda>p (tid, a). add_assignment p tid a) p l, [])"
proof (rule foldl_inv [where I = "\<lambda>p. state_ok mu s A (p, [])"])
  show "state_ok mu s A (p, [])" by (rule assms(2))
next
  fix q x assume x: "x \<in> set l" and q: "state_ok mu s A (q, [])"
  obtain tid a where xa: "x = (tid, a)" by (cases x)
  from assms(1) x xa have "entry_ok mu s A (tid, quantity_loaded a)"
    by (force simp: alist_ok_def)
  from state_ok_add_any [OF q this] xa
  show "state_ok mu s A (case x of (tid, a) \<Rightarrow> add_assignment q tid a, [])" by simp
qed

lemma init_plan_ok: "state_ok mu s A (StowagePlan_init e n i cs nm, [])"
  by (simp add: state_ok_def StowagePlan_init_def)

lemma gene_entry_ok:
  assumes w: "wfc g c" and v: "0 < mu \<longrightarrow> vol_le (opt_ship g) (tank_volumes g)"
    and A: "set (tank_ids g) \<subseteq> A"
    and x: "((Some cid, q), tid) \<in> set (zip (genes c) (c_tank_ids c))" and q: "q > 0.001"
  shows "entry_ok mu (opt_ship g) A (tid, q)"
proof -
  from x have "tid \<in> set (c_tank_ids c)" by (rule set_zip_rightD)
  with w A have tid: "tid \<in> A" by (auto simp: wfc_def)
  have "fits (opt_ship g) tid q" if mu: "0 < mu"
  proof -
    from w have "list_all2 (gene_ok g) (genes c) (c_tank_ids c)" by (auto simp: wfc_def)
    with x have "gene_ok g (Some cid, q) tid" by (auto simp: list_all2_iff)
    with q obtain vv where vv: "map_of (tank_volumes g) tid = Some vv" "q \<le> vv"
      by (auto simp: gene_ok_def split: option.splits)
    from vv(1) have "(tid, vv) \<in> set (tank_volumes g)" by (rule map_of_SomeD)
    with v mu obtain t where "get_tank_by_id (opt_ship g) tid = Some t" "vv \<le> volume t"
      by (force simp: vol_le_def split: option.splits)
    with vv(2) q show ?thesis by (simp add: fits_def)
  qed
  with tid show ?thesis by (simp add: entry_ok_def)
qed

lemma chromosome_to_plan_ok:
  assumes w: "wfc g c" and v: "0 < mu \<longrightarrow> vol_le (opt_ship g) (tank_volumes g)"
    and A: "set (tank_ids g) \<subseteq> A" and m: "alist_ok mu (opt_ship g) A (mandatory_assignments g)"
  shows "state_ok mu (opt_ship g) A (chromosome_to_plan e g c, [])"
  unfolding chromosome_to_plan_def Let_def
proof (rule foldl_inv [where I = "\<lambda>p. state_ok mu (opt_ship g) A (p, [])"])
  show "state_ok mu (opt_ship g) A
     (foldl (\<lambda>p (tid, a). add_assignment p tid a)
        (StowagePlan_init e (ship_name (opt_ship g)) (ship_id (opt_ship g)) (opt_cargo_requests g)
           (''Genetik Algoritma Plan'' @ [CHR 0xC4, CHR 0xB1]))
        (mandatory_assignments g), [])"
    by (rule foldl_add_ok [OF m init_plan_ok])
next
  fix q x assume x: "x \<in> set (zip (genes c) (c_tank_ids c))"
    and q: "state_ok mu (opt_ship g) A (q, [])"
  obtain cargo_id qty tid where xa: "x = ((cargo_id, qty), tid)" by (cases x) auto
  show "state_ok mu (opt_ship g) A
          (case x of
           (x, xa) \<Rightarrow>
             (case x of
              (cargo_id, qty) \<Rightarrow>
                \<lambda>tid. case cargo_id of None \<Rightarrow> q
                       | Some cid \<Rightarrow>
                           if qty > 0.001
                           then if tid \<in> set (map fst (mandatory_assignments g)) then q
                                else case cargo_map_get (opt_cargo_requests g) cid of
                                     None \<Rightarrow> q
                                     | Some cargo \<Rightarrow>
                                         add_assignment q tid
                                          \<lparr>a_tank_id = tid, a_cargo = cargo, quantity_loaded = qty\<rparr>
                           else q)
              xa,
           [])"
  proof (cases cargo_id)
    case None
    with q xa show ?thesis by simp
  next
    case (Some cid)
    show ?thesis
    proof (cases "qty > 0.001")
      case False
      with q xa Some show ?thesis by simp
    next
      case True
      from gene_entry_ok [OF w v A x [unfolded xa Some] True]
      have "entry_ok mu (opt_ship g) A (tid, qty)" .
      then have "state_ok mu (opt_ship g) A
          (add_assignment q tid \<lparr>a_tank_id = tid, a_cargo = cargo, quantity_loaded = qty\<rparr>, [])" for cargo
        using state_ok_add_any [OF q, of tid "\<lparr>a_tank_id = tid, a_cargo = cargo, quantity_loaded = qty\<rparr>"]
        by simp
      with q xa Some True show ?thesis by (simp split: option.splits)
    qed
  qed
qed

lemma fill_tanks_ok:
  "fill_tanks min_util cargo ts p rem = Inr p' \<Longrightarrow> ship_ok mu s \<Longrightarrow> set ts \<subseteq> set (tanks s)
   \<Longrightarrow> tank_id ` set ts \<subseteq> A \<Longrightarrow> state_ok mu s A (p, []) \<Longrightarrow> state_ok mu s A (p', [])"
proof (induction min_util cargo ts p rem rule: fill_tanks.induct)
  case (1 min_util cargo p remaining_qty)
  then show ?case by simp
next
  case (2 min_util cargo t rest p remaining_qty)
  from "2.prems"(3,4) have t: "t \<in> set (tanks s)" "tank_id t \<in> A"
    and rest: "set rest \<subseteq> set (tanks s)" "tank_id ` set rest \<subseteq> A" by auto
  show ?case
  proof (cases "remaining_qty < 0.001")
    case True
    with "2.prems" show ?thesis by simp
  next
    case nb: False
    define qty where "qty = min remaining_qty (volume t)"
    from "2.prems"(1) nb have nz: "volume t \<noteq> 0"
      by (auto simp: Let_def split: if_splits)
    show ?thesis
    proof (cases "qty / volume t < min_util")
      case True
      have "fill_tanks min_util cargo (t # rest) p remaining_qty
          = fill_tanks min_util cargo rest p remaining_qty"
        by (simp only: fill_tanks.simps Let_def qty_def nb nz True [unfolded qty_def] if_False if_True)
      with "2.prems"(1) have r: "fill_tanks min_util cargo rest p remaining_qty = Inr p'" by simp
      from "2.IH"(1) [OF nb qty_def nz True r "2.prems"(2) rest "2.prems"(5)] show ?thesis .
    next
      case False
      define p1 where "p1 = add_assignment p (tank_id t)
                         \<lparr>a_tank_id = tank_id t, a_cargo = cargo, quantity_loaded = qty\<rparr>"
      have "fill_tanks min_util cargo (t # rest) p remaining_qty
          = fill_tanks min_util cargo rest p1 (remaining_qty - qty)"
        by (simp only: fill_tanks.simps Let_def qty_def p1_def nb nz False [unfolded qty_def] if_False)
      with "2.prems"(1) have r: "fill_tanks min_util cargo rest p1 (remaining_qty - qty) = Inr p'" by simp
      have "fits s (tank_id t) qty" if mu: "0 < mu"
      proof -
        from "2.prems"(2) mu t(1) have "get_tank_by_id s (tank_id t) = Some t" "0 < volume t"
          by (simp_all add: ship_ok_def get_tank_by_id_distinct)
        with nb show ?thesis by (simp add: fits_def qty_def)
      qed
      with t(2) have "entry_ok mu s A (tank_id t, qty)" by (simp add: entry_ok_def)
      with state_ok_add_any [OF "2.prems"(5), of "tank_id t"
          "\<lparr>a_tank_id = tank_id t, a_cargo = cargo, quantity_loaded = qty\<rparr>"]
      have p1: "state_ok mu s A (p1, [])" by (simp add: p1_def)
      from "2.IH"(2) [OF nb qty_def nz False r [unfolded p1_def] "2.prems"(2) rest p1 [unfolded p1_def]]
      show ?thesis .
    qed
  qed
qed

lemma fill_cargos_ok:
  "fill_cargos min_util empty_tanks l p = Inr p' \<Longrightarrow> ship_ok mu s \<Longrightarrow> set empty_tanks \<subseteq> set (tanks s)
   \<Longrightarrow> tank_id ` set empty_tanks \<subseteq> A \<Longrightarrow> state_ok mu s A (p, []) \<Longrightarrow> state_ok mu s A (p', [])"
proof (induction l arbitrary: p)
  case Nil
  then show ?case by simp
next
  case (Cons x l)
  obtain cargo remaining_qty where x: "x = (cargo, remaining_qty)" by (cases x)
  define ts where "ts = py_sorted volume (filter (\<lambda>t. get_assignment p (tank_id t) = None) empty_tanks)"
  have sub: "set ts \<subseteq> set empty_tanks" by (auto simp: ts_def py_sorted_def)
  have tse: "ts = [] \<longleftrightarrow> filter (\<lambda>t. get_assignment p (tank_id t) = None) empty_tanks = []"
  proof -
    have "length ts = length (filter (\<lambda>t. get_assignment p (tank_id t) = None) empty_tanks)"
      by (simp add: ts_def py_sorted_def)
    then show ?thesis by (metis length_0_conv)
  qed
  show ?case
  proof (cases "remaining_qty < 0.001")
    case True
    with Cons.prems(1) x have "fill_cargos min_util empty_tanks l p = Inr p'" by simp
    from Cons.IH [OF this Cons.prems(2-5)] show ?thesis .
  next
    case nb: False
    show ?thesis
    proof (cases "ts = []")
      case True
      with Cons.prems(1) x nb tse have "p' = p" by (simp add: Let_def)
      with Cons.prems(5) show ?thesis by simp
    next
      case False
      have "fill_cargos min_util empty_tanks (x # l) p
          = (case fill_tanks min_util cargo ts p remaining_qty of
               Inl err \<Rightarrow> Inl err
             | Inr p1 \<Rightarrow> fill_cargos min_util empty_tanks l p1)"
        using False tse nb by (simp add: x Let_def ts_def)
      with Cons.prems(1) obtain p1 where
        1: "fill_tanks min_util cargo ts p remaining_qty = Inr p1"
        and 2: "fill_cargos min_util empty_tanks l p1 = Inr p'"
        by (cases "fill_tanks min_util cargo ts p remaining_qty") auto
      from sub Cons.prems(3,4) have "set ts \<subseteq> set (tanks s)" "tank_id ` set ts \<subseteq> A" by auto
      from fill_tanks_ok [OF 1 Cons.prems(2) this Cons.prems(5)]
      have "state_ok mu s A (p1, [])" .
      from Cons.IH [OF 2 Cons.prems(2-4) this] show ?thesis .
    qed
  qed
qed

lemma fill_empty_tanks_ok:
  assumes "fill_empty_tanks_with_remaining_cargo g p st = Inr p'" "ship_ok mu (opt_ship g)"
    "set (available_tanks g) \<subseteq> set (tanks (opt_ship g))" "tank_id ` set (available_tanks g) \<subseteq> A"
    "state_ok mu (opt_ship g) A (p, [])"
  shows "state_ok mu (opt_ship g) A (p', [])"
proof -
  define empty_tanks where "empty_tanks = filter (\<lambda>t. tank_id t \<notin> opt_excluded_tanks g
      \<and> get_assignment p (tank_id t) = None) (available_tanks g)"
  define rc where "rc = List.map_filter (\<lambda>cargo.
                     let remaining = quantity cargo - get_cargo_total_loaded p (unique_id cargo)
                     in if remaining > 0.001 then Some (cargo, remaining) else None) (regular_cargos g)"
  have eq: "fill_empty_tanks_with_remaining_cargo g p st
      = (if empty_tanks = [] then Inr p
         else if rc = [] then Inr p
         else fill_cargos (min_utilization st) empty_tanks (py_sorted_reverse snd rc) p)"
    unfolding fill_empty_tanks_with_remaining_cargo_def Let_def empty_tanks_def rc_def ..
  from assms(3,4) have sub: "set empty_tanks \<subseteq> set (tanks (opt_ship g))" "tank_id ` set empty_tanks \<subseteq> A"
    by (auto simp: empty_tanks_def)
  show ?thesis
  proof (cases "empty_tanks = [] \<or> rc = []")
    case True
    with eq have "fill_empty_tanks_with_remaining_cargo g p st = Inr p" by auto
    with assms(1) have "p' = p" by simp
    with assms(5) show ?thesis by simp
  next
    case False
    with assms(1) eq
    have "fill_cargos (min_utilization st) empty_tanks (py_sorted_reverse snd rc) p = Inr p'" by auto
    from fill_cargos_ok [OF this assms(2) sub assms(5)] show ?thesis .
  qed
qed

lemma best_wfc:
  assumes "create_initial_population g r = Inr (population, r1)"
    "argmax_index (map (calculate_fitness g) population) = Inr best_idx"
    "chromosome_copy (population ! best_idx) = Inr bc"
    "evolve g n population fs bc bf h r1 = Inr best"
  shows "wfc g best"
proof -
  from assms(1) have pop: "\<forall>c \<in> set population. wfc g c"
    unfolding create_initial_population_def by (rule create_population_wfc)
  from argmax_index_lt [OF assms(2)] have "best_idx < length population" by simp
  then have "population ! best_idx \<in> set population" by simp
  with pop chromosome_copy_Inr [OF assms(3)] have "wfc g bc" by simp
  from evolve_wfc [OF assms(4) pop this] show ?thesis .
qed

lemma place_mandatory_cargos_ok:
  assumes "place_mandatory_cargos g av st = Inr (g1, av1)" "ship_ok mu (opt_ship g)"
    "fst ` set av \<subseteq> A" "0 < mu \<longrightarrow> vol_le (opt_ship g) av"
  shows "\<exists>ma. g1 = g\<lparr>mandatory_assignments := ma\<rparr> \<and> minv mu (opt_ship g) A (ma, av1)"
proof -
  from assms(1) obtain ma where
    l: "place_mandatory_loop (opt_ship g) (min_utilization st) (mandatory_cargos g) ([], av) = Inr (ma, av1)"
    and g1: "g1 = g\<lparr>mandatory_assignments := ma\<rparr>"
    by (auto simp: place_mandatory_cargos_def split: sum.splits)
  from assms(3,4) have "minv mu (opt_ship g) A ([], av)"
    by (simp add: minv_def alist_ok_def)
  from place_mandatory_loop_ok [OF l assms(2) this] g1 show ?thesis by blast
qed

lemma GeneticOptimizer_optimize_ok:
  assumes run: "GeneticOptimizer_optimize e r (GeneticOptimizer_init s cargos ex fx st) = Inr plan"
    and ship: "ship_ok mu s"
  shows "state_ok mu s {tid. tid \<notin> ex \<union> set (map fst fx)} (plan, [])"
proof -
  define A where "A = {tid. tid \<notin> ex \<union> set (map fst fx)}"
  define g0 where "g0 = GeneticOptimizer_init s cargos ex fx st"
  have g0: "opt_ship g0 = s" "mandatory_assignments g0 = []"
    "tank_ids g0 = map tank_id (available_tanks g0)"
    "tank_volumes g0 = initial_available s (ex \<union> set (map fst fx))"
    "available_tanks g0 = filter (\<lambda>t. tank_id t \<notin> ex \<union> set (map fst fx)) (tanks s)"
    by (simp_all add: g0_def GeneticOptimizer_init_def Let_def)
  from g0(5) have at: "set (available_tanks g0) \<subseteq> set (tanks s)" "tank_id ` set (available_tanks g0) \<subseteq> A"
    by (auto simp: A_def)
  define av0 where "av0 = foldl (\<lambda>d t. AList.update (tank_id t) (volume t) d) [] (available_tanks g0)"
  from foldl_tank_volumes [OF at ship, of "[]"]
  have av0: "fst ` set av0 \<subseteq> A" "0 < mu \<longrightarrow> vol_le s av0"
    by (simp_all add: av0_def vol_le_def)
  define m where "m = (if mandatory_cargos g0 \<noteq> [] then place_mandatory_cargos g0 av0 (opt_settings g0)
               else Inr (g0, av0))"
  define B where "B = (\<lambda>g.
             (if regular_cargos g = []
                 then Inr (foldl (\<lambda>p (tid, a). add_assignment p tid a)
                             (StowagePlan_init e (ship_name (opt_ship g)) (ship_id (opt_ship g))
                                (opt_cargo_requests g)
                                (''Genetik Algoritma Plan'' @ [CHR 0xC4, CHR 0xB1]))
                             (mandatory_assignments g))
                 else
                   (case create_initial_population g r of
                      Inl err \<Rightarrow> Inl err
                    | Inr (population, r1) \<Rightarrow>
                        (let fitness_scores = map (calculate_fitness g) population
                         in case argmax_index fitness_scores of
                              Inl err \<Rightarrow> Inl err
                            | Inr best_idx \<Rightarrow>
                                (case chromosome_copy (population ! best_idx) of
                                   Inl err \<Rightarrow> Inl err
                                 | Inr best_chromosome \<Rightarrow>
                                     (case evolve g (nat (ga_max_generations (opt_settings g)))
                                             population fitness_scores best_chromosome
                                             (fitness_scores ! best_idx)
                                             [fitness_scores ! best_idx] r1 of
                                        Inl err \<Rightarrow> Inl err
                                      | Inr best \<Rightarrow>
                                          fill_empty_tanks_with_remaining_cargo g
                                            (chromosome_to_plan e g best) (opt_settings g)))))))"
  have eq: "GeneticOptimizer_optimize e r g0
      = (case m of Inl err \<Rightarrow> Inl err
         | Inr (g1, av) \<Rightarrow> B (g1\<lparr>tank_volumes := update_tank_volumes av (tank_volumes g1)\<rparr>))"
    unfolding GeneticOptimizer_optimize_def Let_def m_def av0_def B_def ..
  from run eq obtain g1 av where m: "m = Inr (g1, av)"
    and k0: "B (g1\<lparr>tank_volumes := update_tank_volumes av (tank_volumes g1)\<rparr>) = Inr plan"
    by (cases m) (auto simp: g0_def)
  have "\<exists>ma. g1 = g0\<lparr>mandatory_assignments := ma\<rparr> \<and> minv mu s A (ma, av)"
  proof (cases "mandatory_cargos g0 \<noteq> []")
    case True
    with m have "place_mandatory_cargos g0 av0 (opt_settings g0) = Inr (g1, av)" by (simp add: m_def)
    from place_mandatory_cargos_ok [OF this, of mu A] ship av0 g0(1) show ?thesis by simp
  next
    case False
    with m have "g1 = g0" "av = av0" by (simp_all add: m_def)
    with g0(2) av0 have "g1 = g0\<lparr>mandatory_assignments := []\<rparr> \<and> minv mu s A ([], av)"
      by (simp add: minv_def alist_ok_def)
    then show ?thesis by blast
  qed
  then obtain ma where g1: "g1 = g0\<lparr>mandatory_assignments := ma\<rparr>" and inv: "minv mu s A (ma, av)"
    by blast
  define g where "g = g1\<lparr>tank_volumes := update_tank_volumes av (tank_volumes g1)\<rparr>"
  from k0 have k: "B g = Inr plan" by (simp only: g_def)
  have g: "opt_ship g = s" "mandatory_assignments g = ma" "tank_ids g = map tank_id (available_tanks g0)"
    "available_tanks g = available_tanks g0"
    "tank_volumes g = update_tank_volumes av (initial_available s (ex \<union> set (map fst fx)))"
    by (simp_all add: g_def g1 g0)
  from inv have ma: "alist_ok mu s A ma" and av: "0 < mu \<longrightarrow> vol_le s av"
    by (simp_all add: minv_def)
  have tv: "0 < mu \<longrightarrow> vol_le (opt_ship g) (tank_volumes g)"
    using av ship by (auto simp: g update_tank_volumes_vol_le initial_available_vol_le)
  from at(2) have ids: "set (tank_ids g) \<subseteq> A" by (simp add: g)
  show ?thesis
  proof (cases "regular_cargos g = []")
    case True
    with k have "plan = foldl (\<lambda>p (tid, a). add_assignment p tid a)
                             (StowagePlan_init e (ship_name (opt_ship g)) (ship_id (opt_ship g))
                                (opt_cargo_requests g)
                                (''Genetik Algoritma Plan'' @ [CHR 0xC4, CHR 0xB1]))
                             (mandatory_assignments g)"
      by (simp add: B_def Let_def)
    with foldl_add_ok [OF ma init_plan_ok] g(2) show ?thesis by (simp add: A_def)
  next
    case False
    with k obtain population r1 best_idx bc best where
      1: "create_initial_population g r = Inr (population, r1)"
      and 2: "argmax_index (map (calculate_fitness g) population) = Inr best_idx"
      and 3: "chromosome_copy (population ! best_idx) = Inr bc"
      and 4: "evolve g (nat (ga_max_generations (opt_settings g))) population
                (map (calculate_fitness g) population) bc
                (map (calculate_fitness g) population ! best_idx)
                [map (calculate_fitness g) population ! best_idx] r1 = Inr best"
      and 5: "fill_empty_tanks_with_remaining_cargo g (chromosome_to_plan e g best) (opt_settings g) = Inr plan"
      by (auto simp: B_def Let_def split: sum.splits)
    from best_wfc [OF 1 2 3 4] have w: "wfc g best" .
    from ma g(2) have "alist_ok mu (opt_ship g) A (mandatory_assignments g)" by (simp add: g(1))
    from chromosome_to_plan_ok [OF w tv ids this]
    have "state_ok mu (opt_ship g) A (chromosome_to_plan e g best, [])" .
    from fill_empty_tanks_ok [OF 5 _ _ _ this] ship at g(1,4)
    show ?thesis by (simp add: A_def)
  qed
qed

section \<open>Claims\<close>

subsection \<open>C8: cargo volume derivation and preservation\<close>

text \<open>
  C8. A cargo constructed (\<open>Cargo.__post_init__\<close>) with quantity \<open>None\<close> or \<open>0.0\<close>, with ton
  given and density \<open>> 0\<close>, has quantity \<open>ton / density\<close>. For a dictionary whose quantity
  is absent, \<open>null\<close> or \<open>0.0\<close>, with ton given and density \<open>> 0\<close>, every cargo that
  \<open>Cargo.from_dict\<close> returns has quantity \<open>ton / density\<close>; \<open>from_dict\<close> returns a cargo
  unless the receivers are \<open>null\<close> (\<open>TypeError\<close>), a receiver has no name or the cargo type
  is absent (\<open>KeyError\<close>). A quantity that is a non-zero number is kept unchanged by the
  construction, and \<open>to_dict\<close> followed by \<open>from_dict\<close> returns a cargo of that quantity.
\<close>

theorem cargo_volume_derivation:
  "((quantity c = None \<or> quantity c = Some 0) \<and> ton c = Some t \<and> density c = Some d \<and> 0 < d
      \<longrightarrow> quantity (Cargo_post_init e c) = Some (t / d))
   \<and> ((d_quantity dct = Absent \<or> d_quantity dct = Null \<or> d_quantity dct = Val 0)
        \<and> d_ton dct = Val t \<and> d_density dct = Val d \<and> 0 < d
      \<longrightarrow> (case Cargo_from_dict e dct of
             Inr c' \<Rightarrow> quantity c' = Some (t / d)
           | Inl err \<Rightarrow>
               (err = TypeError \<and> d_receivers dct = Null)
               \<or> (err = KeyError
                   \<and> (d_cargo_type dct = Absent
                       \<or> (\<exists>l. d_receivers dct = Val l \<and> (\<exists>r \<in> set l. d_name r = Absent))))))
   \<and> (quantity c = Some q \<and> q \<noteq> 0
      \<longrightarrow> quantity (Cargo_post_init e c) = Some q
          \<and> (\<exists>c'. Cargo_from_dict e' (Cargo_to_dict c) = Inr c' \<and> quantity c' = Some q))"
proof -
  have 1: "quantity (Cargo_post_init e c) = Some (t / d)"
    if "quantity c = None \<or> quantity c = Some 0" "ton c = Some t" "density c = Some d" "0 < d"
    using that by (auto simp: Cargo_post_init_def Let_def)
  have 2: "(case Cargo_from_dict e dct of
             Inr c' \<Rightarrow> quantity c' = Some (t / d)
           | Inl err \<Rightarrow>
               (err = TypeError \<and> d_receivers dct = Null)
               \<or> (err = KeyError
                   \<and> (d_cargo_type dct = Absent
                       \<or> (\<exists>l. d_receivers dct = Val l \<and> (\<exists>r \<in> set l. d_name r = Absent)))))"
    if q: "d_quantity dct = Absent \<or> d_quantity dct = Null \<or> d_quantity dct = Val 0"
      and t: "d_ton dct = Val t" and d: "d_density dct = Val d" "0 < d"
  proof (cases "d_receivers dct")
    case Null
    then show ?thesis by (simp add: Cargo_from_dict_def dict_get_default_def)
  next
    case Absent
    show ?thesis
    proof (cases "d_cargo_type dct")
      case Absent
      with \<open>d_receivers dct = Absent\<close> show ?thesis
        by (simp add: Cargo_from_dict_def dict_get_default_def dict_item_def)
    next
      case Null
      with \<open>d_receivers dct = Absent\<close> q t d show ?thesis
        by (auto simp: Cargo_from_dict_def dict_get_default_def dict_item_def dict_get_def
              Cargo_post_init_def Let_def)
    next
      case (Val ct)
      with \<open>d_receivers dct = Absent\<close> q t d show ?thesis
        by (auto simp: Cargo_from_dict_def dict_get_default_def dict_item_def dict_get_def
              Cargo_post_init_def Let_def)
    qed
  next
    case (Val l)
    show ?thesis
    proof (cases "receivers_from_dicts l")
      case (Inl err)
      from receivers_from_dicts_Inl [OF this] Val Inl show ?thesis
        by (auto simp: Cargo_from_dict_def dict_get_default_def)
    next
      case (Inr rs)
      show ?thesis
      proof (cases "d_cargo_type dct")
        case Absent
        with Val Inr show ?thesis
          by (simp add: Cargo_from_dict_def dict_get_default_def dict_item_def)
      next
        case Null
        with Val Inr q t d show ?thesis
          by (auto simp: Cargo_from_dict_def dict_get_default_def dict_item_def dict_get_def
                Cargo_post_init_def Let_def)
      next
        case (Val ct)
        with \<open>d_receivers dct = Val l\<close> Inr q t d show ?thesis
          by (auto simp: Cargo_from_dict_def dict_get_default_def dict_item_def dict_get_def
                Cargo_post_init_def Let_def)
      qed
    qed
  qed
  have 3: "quantity (Cargo_post_init e c) = Some q" if "quantity c = Some q" "q \<noteq> 0"
    using that by (auto simp: Cargo_post_init_def Let_def)
  have 4: "\<exists>c'. Cargo_from_dict e' (Cargo_to_dict c) = Inr c' \<and> quantity c' = Some q"
    if "quantity c = Some q" "q \<noteq> 0"
    using that
    by (cases "cargo_type c")
       (auto simp: Cargo_from_dict_def Cargo_to_dict_def dict_get_default_def dict_item_def
          dict_get_def json_of_def receivers_round_trip Cargo_post_init_def Let_def)
  from 1 2 3 4 show ?thesis by blast
qed

text \<open>The witness: ton 90 and density 0.9 give the quantity 100, constructed with quantity
  \<open>None\<close> and deserialised with quantity \<open>0.0\<close>; the quantity 42 is kept; \<open>null\<close> receivers
  raise \<open>TypeError\<close>.\<close>

theorem cargo_volume_derivation_witness:
  "quantity (Cargo_post_init env0
      \<lparr>cargo_type = Some ''fuel'', quantity = None, receivers = [], unique_id = ''c1'',
        is_mandatory = Some False, ton = Some 90, density = Some (9 / 10)\<rparr>) = Some 100
   \<and> (\<exists>c'. Cargo_from_dict env0
        \<lparr>d_unique_id = Val ''c1'', d_cargo_type = Val ''fuel'', d_quantity = Val 0,
          d_receivers = Absent, d_is_mandatory = Absent, d_ton = Val 90, d_density = Val (9 / 10)\<rparr> = Inr c'
        \<and> quantity c' = Some 100)
   \<and> Cargo_from_dict env0
        \<lparr>d_unique_id = Val ''c1'', d_cargo_type = Val ''fuel'', d_quantity = Val 0,
          d_receivers = Null, d_is_mandatory = Absent, d_ton = Val 90, d_density = Val (9 / 10)\<rparr>
       = Inl TypeError
   \<and> quantity (Cargo_post_init env0
      \<lparr>cargo_type = Some ''fuel'', quantity = Some 42, receivers = [], unique_id = ''c1'',
        is_mandatory = Some False, ton = Some 90, density = Some (9 / 10)\<rparr>) = Some 42
   \<and> (\<exists>c'. Cargo_from_dict env1 (Cargo_to_dict
      \<lparr>cargo_type = Some ''fuel'', quantity = Some 42, receivers = [], unique_id = ''c1'',
        is_mandatory = Some False, ton = Some 90, density = Some (9 / 10)\<rparr>) = Inr c' \<and> quantity c' = Some 42)"
proof -
  let ?c0 = "\<lparr>cargo_type = Some ''fuel'', quantity = None, receivers = [], unique_id = ''c1'',
        is_mandatory = Some False, ton = Some 90, density = Some (9 / 10)\<rparr>"
  let ?c1 = "\<lparr>cargo_type = Some ''fuel'', quantity = Some 42, receivers = [], unique_id = ''c1'',
        is_mandatory = Some False, ton = Some 90, density = Some (9 / 10)\<rparr>"
  let ?d0 = "\<lparr>d_unique_id = Val ''c1'', d_cargo_type = Val ''fuel'', d_quantity = Val 0,
          d_receivers = Absent, d_is_mandatory = Absent, d_ton = Val 90, d_density = Val (9 / 10)\<rparr>"
  let ?d1 = "\<lparr>d_unique_id = Val ''c1'', d_cargo_type = Val ''fuel'', d_quantity = Val 0,
          d_receivers = Null, d_is_mandatory = Absent, d_ton = Val 90, d_density = Val (9 / 10)\<rparr>"
  have ok: "Cargo_from_dict env0 ?d0 \<noteq> Inl TypeError" "Cargo_from_dict env0 ?d0 \<noteq> Inl KeyError"
    by (simp_all add: Cargo_from_dict_def dict_get_default_def dict_item_def)
  have err: "Cargo_from_dict env0 ?d1 = Inl TypeError"
    by (simp add: Cargo_from_dict_def dict_get_default_def)
  from cargo_volume_derivation [of ?c0 90 "9 / 10" env0 ?d0 42 env1]
  have a: "quantity (Cargo_post_init env0 ?c0) = Some 100"
    and b: "case Cargo_from_dict env0 ?d0 of
              Inr c' \<Rightarrow> quantity c' = Some 100
            | Inl err \<Rightarrow> err = TypeError \<or> err = KeyError"
    by (simp_all split: sum.splits)
  from b ok have b': "\<exists>c'. Cargo_from_dict env0 ?d0 = Inr c' \<and> quantity c' = Some 100"
    by (cases "Cargo_from_dict env0 ?d0") auto
  from cargo_volume_derivation [of ?c1 90 "9 / 10" env0 ?d1 42 env1]
  have c: "quantity (Cargo_post_init env0 ?c1) = Some 42"
    and d: "\<exists>c'. Cargo_from_dict env1 (Cargo_to_dict ?c1) = Inr c' \<and> quantity c' = Some 42"
    by simp_all
  from a b' err c d show ?thesis by blast
qed

subsection \<open>C9: what validate checks\<close>

text \<open>
  C9 as stated fails: both validators accept a cargo of quantity zero, a ship with a tank
  of volume zero, and the ship without tanks, as long as the total requested quantity
  does not exceed the total capacity.
\<close>

theorem validate_accepts_invalid_input:
  "StowageOptimizer_validate_plan (\<lambda>x. []) (ship_of [tank_of ''T1'' 100]) [cargo_of ''A'' 0 False] = (True, [])
   \<and> GeneticOptimizer_validate_plan (\<lambda>x. []) (ship_of [tank_of ''T1'' 100]) [cargo_of ''A'' 0 False] = (True, [])
   \<and> StowageOptimizer_validate_plan (\<lambda>x. []) (ship_of [tank_of ''T1'' 0, tank_of ''T2'' 100]) [cargo_of ''A'' 50 False] = (True, [])
   \<and> GeneticOptimizer_validate_plan (\<lambda>x. []) (ship_of [tank_of ''T1'' 0, tank_of ''T2'' 100]) [cargo_of ''A'' 50 False] = (True, [])
   \<and> StowageOptimizer_validate_plan (\<lambda>x. []) (ship_of []) [] = (True, [])
   \<and> GeneticOptimizer_validate_plan (\<lambda>x. []) (ship_of []) [] = (True, [])"
  by (simp add: StowageOptimizer_validate_plan_def GeneticOptimizer_validate_plan_def
        get_total_capacity_def ship_of_def tank_of_def cargo_of_def)

text \<open>
  C9, amended. \<open>validate\<close> returns not-ok exactly when the total requested quantity
  exceeds the total capacity of the ship (phase solver) or 1.1 times that capacity
  (genetic solver), and the message is empty exactly when the result is ok.
\<close>

theorem validate_plan_checks_total_only:
  "(fst (StowageOptimizer_validate_plan fmt s cargos)
      \<longleftrightarrow> sum_list (map quantity cargos) \<le> get_total_capacity s)
   \<and> (fst (GeneticOptimizer_validate_plan fmt s cargos)
      \<longleftrightarrow> sum_list (map quantity cargos) \<le> get_total_capacity s * 1.1)
   \<and> (snd (StowageOptimizer_validate_plan fmt s cargos) = []
      \<longleftrightarrow> fst (StowageOptimizer_validate_plan fmt s cargos))
   \<and> (snd (GeneticOptimizer_validate_plan fmt s cargos) = []
      \<longleftrightarrow> fst (GeneticOptimizer_validate_plan fmt s cargos))"
  by (auto simp: StowageOptimizer_validate_plan_def GeneticOptimizer_validate_plan_def Let_def)

subsection \<open>C10: add_assignment is last-write-wins\<close>

text \<open>
  C10. \<open>add_assignment\<close> on a tank id replaces the assignment of that tank and leaves the
  other tanks alone. A tank that holds less than its volume has a positive available
  capacity, so it stays a candidate; and when a phase places another cargo on it, the
  plan holds the new assignment only, and the total loaded of the earlier cargo drops by
  the quantity it had on that tank.
\<close>

theorem add_assignment_last_write_wins:
  "get_assignment (add_assignment p tid a) tid = Some a
   \<and> (tid' \<noteq> tid \<longrightarrow> get_assignment (add_assignment p tid a) tid' = get_assignment p tid')
   \<and> (get_tank_by_id s tid = Some t \<and> get_assignment p tid = Some old \<and> quantity_loaded old < volume t
        \<longrightarrow> get_tank_available_capacity tid p av s = volume t - quantity_loaded old
            \<and> 0 < get_tank_available_capacity tid p av s)
   \<and> (distinct (map fst (assignments p)) \<and> get_assignment p tid = Some old
        \<and> unique_id (a_cargo old) \<noteq> unique_id c
        \<longrightarrow> get_assignment (fst (place c (p, av) (tid, q))) tid
               = Some \<lparr>a_tank_id = tid, a_cargo = c, quantity_loaded = q\<rparr>
            \<and> get_cargo_total_loaded (fst (place c (p, av) (tid, q))) (unique_id (a_cargo old))
               = get_cargo_total_loaded p (unique_id (a_cargo old)) - quantity_loaded old)"
proof -
  have 1: "get_assignment (add_assignment p tid a) tid = Some a"
    by (simp add: get_assignment_def add_assignment_def update_conv')
  have 2: "tid' \<noteq> tid \<longrightarrow> get_assignment (add_assignment p tid a) tid' = get_assignment p tid'"
    by (simp add: get_assignment_def add_assignment_def update_conv')
  have 3: "get_tank_by_id s tid = Some t \<and> get_assignment p tid = Some old \<and> quantity_loaded old < volume t
        \<longrightarrow> get_tank_available_capacity tid p av s = volume t - quantity_loaded old
            \<and> 0 < get_tank_available_capacity tid p av s"
    by (simp add: get_tank_available_capacity_def)
  have 4: "get_assignment (fst (place c (p, av) (tid, q))) tid
               = Some \<lparr>a_tank_id = tid, a_cargo = c, quantity_loaded = q\<rparr>"
    by (simp add: place_def get_assignment_def add_assignment_def update_conv')
  have 5: "get_cargo_total_loaded (fst (place c (p, av) (tid, q))) (unique_id (a_cargo old))
               = get_cargo_total_loaded p (unique_id (a_cargo old)) - quantity_loaded old"
    if d: "distinct (map fst (assignments p))" and o: "get_assignment p tid = Some old"
       and n: "unique_id (a_cargo old) \<noteq> unique_id c"
  proof -
    from o have m: "map_of (assignments p) tid = Some old" by (simp add: get_assignment_def)
    show ?thesis
      using n
      by (simp add: place_def get_cargo_total_loaded_def add_assignment_def
            sum_filter_update [OF d m])
  qed
  from 1 2 3 4 5 show ?thesis by blast
qed

text \<open>The witness: the two-tank ship with \<open>min_utilization = 0.04\<close>. Phase 1 loads cargo
  \<open>A\<close> (96) into \<open>T1\<close> (100); phase 2 then places cargo \<open>B\<close> (200) on the pair
  \<open>(T1, T2)\<close> with 4 on \<open>T1\<close>, and the returned plan has nothing of \<open>A\<close> left.\<close>

theorem add_assignment_last_write_wins_witness:
  "get_assignment plan_after_phase1 ''T1''
     = Some \<lparr>a_tank_id = ''T1'', a_cargo = cargo_of ''A'' 96 False, quantity_loaded = 96\<rparr>
   \<and> get_cargo_total_loaded plan_after_phase1 ''A'' = 96
   \<and> get_tank_available_capacity ''T1'' plan_after_phase1 [(''T1'', 4), (''T2'', 100)] ship_two = 4
   \<and> get_assignment (fst (place (cargo_of ''B'' 200 False)
         (plan_after_phase1, [(''T1'', 4), (''T2'', 100)]) (''T1'', 4))) ''T1''
       = Some \<lparr>a_tank_id = ''T1'', a_cargo = cargo_of ''B'' 200 False, quantity_loaded = 4\<rparr>
   \<and> get_cargo_total_loaded (fst (place (cargo_of ''B'' 200 False)
         (plan_after_phase1, [(''T1'', 4), (''T2'', 100)]) (''T1'', 4))) ''A'' = 0
   \<and> map_sum id loads (optimize_advanced env0 ship_two
         [cargo_of ''A'' 96 False, cargo_of ''B'' 200 False] {} []
         (default_settings\<lparr>min_utilization := 0.04\<rparr>))
       = Inr [(''T1'', ''B'', 4), (''T2'', ''B'', 100)]"
proof -
  let ?old = "\<lparr>a_tank_id = ''T1'', a_cargo = cargo_of ''A'' 96 False, quantity_loaded = 96\<rparr>"
  have a: "get_assignment plan_after_phase1 ''T1'' = Some ?old"
    by code_simp
  have b: "get_cargo_total_loaded plan_after_phase1 ''A'' = 96"
    by code_simp
  have c: "get_tank_by_id ship_two ''T1'' = Some (tank_of ''T1'' 100)"
    by code_simp
  have d: "distinct (map fst (assignments plan_after_phase1))"
    by code_simp
  have e: "unique_id (a_cargo ?old) \<noteq> unique_id (cargo_of ''B'' 200 False)"
    by code_simp
  have f: "quantity_loaded ?old < volume (tank_of ''T1'' 100)"
    by code_simp
  have g: "map_sum id loads (optimize_advanced env0 ship_two
         [cargo_of ''A'' 96 False, cargo_of ''B'' 200 False] {} []
         (default_settings\<lparr>min_utilization := 0.04\<rparr>))
       = Inr [(''T1'', ''B'', 4), (''T2'', ''B'', 100)]"
    by code_simp
  have h: "unique_id (a_cargo ?old) = ''A''" "quantity_loaded ?old = 96" "volume (tank_of ''T1'' 100) = 100"
    by (simp_all add: cargo_of_def tank_of_def)
  from add_assignment_last_write_wins
    [of plan_after_phase1 "''T1''" ?old "''T1''" ship_two "tank_of ''T1'' 100" ?old
        "[(''T1'', 4), (''T2'', 100)]" "cargo_of ''B'' 200 False" 4]
    a b c d e f
  have "get_tank_available_capacity ''T1'' plan_after_phase1 [(''T1'', 4), (''T2'', 100)] ship_two
          = volume (tank_of ''T1'' 100) - quantity_loaded ?old"
    and "get_assignment (fst (place (cargo_of ''B'' 200 False)
         (plan_after_phase1, [(''T1'', 4), (''T2'', 100)]) (''T1'', 4))) ''T1''
       = Some \<lparr>a_tank_id = ''T1'', a_cargo = cargo_of ''B'' 200 False, quantity_loaded = 4\<rparr>"
    and "get_cargo_total_loaded (fst (place (cargo_of ''B'' 200 False)
         (plan_after_phase1, [(''T1'', 4), (''T2'', 100)]) (''T1'', 4))) (unique_id (a_cargo ?old))
       = get_cargo_total_loaded plan_after_phase1 (unique_id (a_cargo ?old)) - quantity_loaded ?old"
    by blast+
  with a b g h show ?thesis by simp
qed

subsection \<open>C3: a cargo placed in part by one phase is placed again by a later phase\<close>

text \<open>
  C3 fails on the code. Every phase starts from \<open>remaining_qty = cargo.quantity\<close>, the
  whole request, also for a cargo that an earlier phase has placed in part. On the
  ship \<open>A = 96, B = 10, C = 50, D = 50\<close> with the default settings, phase 1 loads 96 of
  the regular cargo \<open>X\<close> (100) into \<open>A\<close>; \<open>X\<close> stays pending, and phase 2 loads 100 more
  into the pair \<open>(C, D)\<close>: the plan holds 196 of a request of 100.
\<close>

theorem phase_solver_overloads_retried_cargo:
  "map_sum id loads (optimize_advanced env0 ship_96 [cargo_of ''X'' 100 False] {} [] default_settings)
     = Inr [(''A'', ''X'', 96), (''C'', ''X'', 50), (''D'', ''X'', 50)]
   \<and> map_sum id (\<lambda>p. get_cargo_total_loaded p ''X'')
        (optimize_advanced env0 ship_96 [cargo_of ''X'' 100 False] {} [] default_settings) = Inr 196
   \<and> quantity (cargo_of ''X'' 100 False) = 100"
  by code_simp

subsection \<open>C4: the four-tank rule on a short ship\<close>

text \<open>
  C4 fails on the code. \<open>_is_bow_or_stern_only\<close> counts a row that is among the first
  three rows as bow and never as stern, so on a ship of four rows the tanks of rows 3
  and 4 count as two bow and two stern tanks, and the function answers \<open>False\<close> although
  all four lie in the last three rows. Phase 4 places the cargo there, on the regular
  path and on the mandatory path alike.
\<close>

theorem four_tank_rule_admits_stern_cluster:
  "is_bow_or_stern_only [''3P'', ''3S'', ''4P'', ''4S''] ship_four_rows = False
   \<and> total_rows ship_four_rows = 4
   \<and> List.map_filter (\<lambda>tid. map_option row_number (get_tank_position_info ship_four_rows tid))
        [''3P'', ''3S'', ''4P'', ''4S''] = [3, 3, 4, 4]
   \<and> map_sum id loads (optimize_advanced env0 ship_four_rows [cargo_of ''X'' 2000 False] {} [] default_settings)
       = Inr [(''3P'', ''X'', 500), (''3S'', ''X'', 500), (''4P'', ''X'', 500), (''4S'', ''X'', 500)]
   \<and> map_sum id loads (optimize_advanced env0 ship_four_rows [cargo_of ''X'' 2000 True] {} [] default_settings)
       = Inr [(''3P'', ''X'', 500), (''3S'', ''X'', 500), (''4P'', ''X'', 500), (''4S'', ''X'', 500)]"
  by code_simp

subsection \<open>C6: the score that chooses among the retry strategies\<close>

text \<open>
  C6 fails on the code: the orchestrator compares the plans by \<open>_calculate_simple_score\<close>
  (0.6 completion + 0.4 utilisation), not by the composite score of \<open>score_plan\<close>. On
  the ship \<open>T1 = 100, T2 = 10, T3 = 50, T4 = 50\<close> with the cargoes \<open>A = 100\<close> and
  \<open>B = 98\<close>, all five strategies load 198 and tie on the simple score, so the plan of
  the first strategy is returned; the plan of the fourth strategy (smallest quantity
  first) has the higher composite score.
\<close>

theorem retry_does_not_maximise_composite_score:
  "(case (optimize_with_fixed_and_retry (\<lambda>i. env0) ship_retry
            [cargo_of ''A'' 100 False, cargo_of ''B'' 98 False] {} [] 5 default_settings,
          optimize_advanced env0 ship_retry
            (snd (strategies ! 3) [cargo_of ''A'' 100 False, cargo_of ''B'' 98 False]) {} [] default_settings) of
      (Inr p, Inr q) \<Rightarrow>
         score_plan p ship_retry = 20059 / 210 \<and> score_plan q ship_retry = 20087 / 210
         \<and> score_plan p ship_retry < score_plan q ship_retry
         \<and> calculate_simple_score p ship_retry = calculate_simple_score q ship_retry
    | _ \<Rightarrow> False)"
  by code_simp

text \<open>
  C6, amended. \<open>optimize_with_fixed_and_retry\<close> scores the plan of every strategy it
  tries with \<open>_calculate_simple_score\<close>. It returns the plan of the first tried strategy
  whose simple score is the greatest: the score is greater than \<open>-1\<close>, at least the
  simple score of every plan a tried strategy produced, and strictly greater than the
  score of every plan an earlier strategy produced. When no strategy produced a plan of
  score above \<open>-1\<close>, it returns the result of one plain call with the cargoes in input
  order. A strategy that raises produces no plan.
\<close>

theorem retry_returns_best_simple_score:
  assumes "optimize_with_fixed_and_retry envs s cargos ex fx num_retries st = Inr plan"
  shows "(\<exists>k < length (py_slice_to strategies num_retries).
            optimize_advanced (envs k) s (snd (py_slice_to strategies num_retries ! k) cargos) ex fx st = Inr plan
            \<and> - 1 < calculate_simple_score plan s
            \<and> (\<forall>j < length (py_slice_to strategies num_retries). \<forall>q.
                  optimize_advanced (envs j) s (snd (py_slice_to strategies num_retries ! j) cargos) ex fx st = Inr q
                  \<longrightarrow> calculate_simple_score q s \<le> calculate_simple_score plan s)
            \<and> (\<forall>j < k. \<forall>q.
                  optimize_advanced (envs j) s (snd (py_slice_to strategies num_retries ! j) cargos) ex fx st = Inr q
                  \<longrightarrow> calculate_simple_score q s < calculate_simple_score plan s))
       \<or> ((\<forall>j < length (py_slice_to strategies num_retries). \<forall>q.
                  optimize_advanced (envs j) s (snd (py_slice_to strategies num_retries ! j) cargos) ex fx st = Inr q
                  \<longrightarrow> calculate_simple_score q s \<le> - 1)
           \<and> optimize_advanced (envs (length (py_slice_to strategies num_retries))) s cargos ex fx st = Inr plan)"
proof -
  let ?l = "py_slice_to strategies num_retries"
  obtain bp bs where r: "retry_loop envs s cargos ex fx st 0 ?l (None, - 1) = (bp, bs)"
    by fastforce
  from retry_loop_best [OF r]
  have 2: "\<forall>k < length ?l. \<forall>q. optimize_advanced (envs k) s (snd (?l ! k) cargos) ex fx st = Inr q
            \<longrightarrow> calculate_simple_score q s \<le> bs"
    by simp
  from retry_loop_first [OF r]
  have 3: "(bp, bs) = (None, - 1)
         \<or> (\<exists>k < length ?l. \<exists>p'. optimize_advanced (envs k) s (snd (?l ! k) cargos) ex fx st = Inr p'
                \<and> bp = Some p' \<and> bs = calculate_simple_score p' s \<and> - 1 < bs
                \<and> (\<forall>j < k. \<forall>q. optimize_advanced (envs j) s (snd (?l ! j) cargos) ex fx st = Inr q
                       \<longrightarrow> calculate_simple_score q s < bs))"
    by simp
  from 3 show ?thesis
  proof
    assume n: "(bp, bs) = (None, - 1)"
    with assms r have "optimize_advanced (envs (length ?l)) s cargos ex fx st = Inr plan"
      by (simp add: optimize_with_fixed_and_retry_def Let_def)
    with 2 n show ?thesis by simp
  next
    assume "\<exists>k < length ?l. \<exists>p'. optimize_advanced (envs k) s (snd (?l ! k) cargos) ex fx st = Inr p'
                \<and> bp = Some p' \<and> bs = calculate_simple_score p' s \<and> - 1 < bs
                \<and> (\<forall>j < k. \<forall>q. optimize_advanced (envs j) s (snd (?l ! j) cargos) ex fx st = Inr q
                       \<longrightarrow> calculate_simple_score q s < bs)"
    then obtain k p' where k: "k < length ?l"
      "optimize_advanced (envs k) s (snd (?l ! k) cargos) ex fx st = Inr p'"
      "bp = Some p'" "bs = calculate_simple_score p' s" "- 1 < bs"
      "\<forall>j < k. \<forall>q. optimize_advanced (envs j) s (snd (?l ! j) cargos) ex fx st = Inr q
                       \<longrightarrow> calculate_simple_score q s < bs" by blast
    with assms r have "plan = p'"
      by (simp add: optimize_with_fixed_and_retry_def Let_def)
    with k 2 have "k < length ?l \<and> optimize_advanced (envs k) s (snd (?l ! k) cargos) ex fx st = Inr plan
        \<and> - 1 < calculate_simple_score plan s
        \<and> (\<forall>j < length ?l. \<forall>q. optimize_advanced (envs j) s (snd (?l ! j) cargos) ex fx st = Inr q
              \<longrightarrow> calculate_simple_score q s \<le> calculate_simple_score plan s)
        \<and> (\<forall>j < k. \<forall>q. optimize_advanced (envs j) s (snd (?l ! j) cargos) ex fx st = Inr q
              \<longrightarrow> calculate_simple_score q s < calculate_simple_score plan s)" by simp
    then show ?thesis by blast
  qed
qed

text \<open>The witness: on the ship \<open>T1 = 100, T2 = 10, T3 = 50, T4 = 50\<close> the five
  strategies tie at the simple score \<open>2052 / 21\<close>, and the plan returned is the plan of
  the first one.\<close>

theorem retry_returns_best_simple_score_witness:
  "(\<exists>p. optimize_with_fixed_and_retry (\<lambda>i. env0) ship_retry
            [cargo_of ''A'' 100 False, cargo_of ''B'' 98 False] {} [] 5 default_settings = Inr p
        \<and> optimize_advanced env0 ship_retry
            (snd (strategies ! 0) [cargo_of ''A'' 100 False, cargo_of ''B'' 98 False])
            {} [] default_settings = Inr p
        \<and> calculate_simple_score p ship_retry = 2052 / 21)
   \<and> map (\<lambda>k. map_sum id (\<lambda>q. calculate_simple_score q ship_retry)
             (optimize_advanced env0 ship_retry
                (snd (strategies ! k) [cargo_of ''A'' 100 False, cargo_of ''B'' 98 False])
                {} [] default_settings)) [0 ..< 5]
       = [Inr (2052 / 21), Inr (2052 / 21), Inr (2052 / 21), Inr (2052 / 21), Inr (2052 / 21)]"
proof -
  let ?cs = "[cargo_of ''A'' 100 False, cargo_of ''B'' 98 False]"
  let ?res = "optimize_with_fixed_and_retry (\<lambda>i. env0) ship_retry ?cs {} [] 5 default_settings"
  let ?run = "\<lambda>k. optimize_advanced env0 ship_retry (snd (py_slice_to strategies 5 ! k) ?cs) {} [] default_settings"
  have sl: "py_slice_to strategies 5 = strategies"
    by (simp add: py_slice_to_def strategies_def)
  have scores: "map (\<lambda>k. map_sum id (\<lambda>q. calculate_simple_score q ship_retry)
             (optimize_advanced env0 ship_retry (snd (strategies ! k) ?cs) {} [] default_settings)) [0 ..< 5]
       = [Inr (2052 / 21), Inr (2052 / 21), Inr (2052 / 21), Inr (2052 / 21), Inr (2052 / 21)]"
    by code_simp
  have "map_sum id (\<lambda>q. calculate_simple_score q ship_retry) ?res = Inr (2052 / 21)"
    by code_simp
  then obtain p where p: "?res = Inr p" and sp: "calculate_simple_score p ship_retry = 2052 / 21"
    by (cases ?res) auto
  have "map_sum id (\<lambda>q. calculate_simple_score q ship_retry) (?run 0) = Inr (2052 / 21)"
    by code_simp
  then obtain q0 where q0: "?run 0 = Inr q0" and sq: "calculate_simple_score q0 ship_retry = 2052 / 21"
    by (cases "?run 0") auto
  have len: "0 < length (py_slice_to strategies 5)"
    unfolding sl by (simp add: strategies_def)
  from q0 sq len have n: "\<not> (\<forall>j < length (py_slice_to strategies 5). \<forall>q.
         ?run j = Inr q \<longrightarrow> calculate_simple_score q ship_retry \<le> - 1)"
    by force
  from retry_returns_best_simple_score [OF p] n
  obtain k where k: "?run k = Inr p"
    and first: "\<forall>j < k. \<forall>q. ?run j = Inr q
                  \<longrightarrow> calculate_simple_score q ship_retry < calculate_simple_score p ship_retry"
    by blast
  have "k = 0"
  proof (rule ccontr)
    assume "k \<noteq> 0"
    then have "0 < k" by simp
    with first q0 have "calculate_simple_score q0 ship_retry < calculate_simple_score p ship_retry"
      by blast
    with sq sp show False by simp
  qed
  with k have "?run 0 = Inr p" by simp
  then have "optimize_advanced env0 ship_retry (snd (strategies ! 0) ?cs) {} [] default_settings = Inr p"
    by (simp add: sl)
  with p sp scores show ?thesis by blast
qed

end
